theory Spec2Isabelle
  imports Complex_Main "HOL-Library.Word" "HOL-Library.Monad_Syntax"
begin

unbundle bit_operations_syntax

section \<open>The device control engine of OpenHantek (hantekdsocontrol.cpp)\<close>

text \<open>
  A shallow embedding of \<^verbatim>\<open>HantekDsoControl\<close>. The C++ types are modelled as follows:
  \<^item> \<^verbatim>\<open>unsigned int\<close> is \<open>32 word\<close>, \<^verbatim>\<open>unsigned short\<close> is \<open>16 word\<close>,
    \<^verbatim>\<open>unsigned char\<close> is \<open>8 word\<close>; \<^verbatim>\<open>int\<close> and \<^verbatim>\<open>long\<close> values are
    integers, with the range check written out where the source can leave the range;
  \<^item> \<^verbatim>\<open>double\<close> is \<open>real\<close>. The arithmetic is exact, but for
    \<^verbatim>\<open>setRecordTime\<close> and the functions it calls, where every operation on doubles
    is rounded (section \<open>Double arithmetic\<close>);
  \<^item> the object's members are fields of records, every member function takes the state
    and returns its result with the new state;
  \<^item> a function returns \<open>None\<close> where the behaviour of the source is undefined: an
    index out of range, a null or wrongly typed encoder pointer, a conversion of a double
    that does not fit, a division of integers by zero, a read of an unassigned entry;
  \<^item> signals (\<^verbatim>\<open>emit\<close>) and log messages are left out, the reads they make are kept.
\<close>

subsection \<open>Enumerations and constants\<close>

text \<open>
  The enumerations that the source names. Only the members that
  \<^verbatim>\<open>hantekdsocontrol.cpp\<close> mentions are listed; their numeric values are not
  given in this file and are parameters where they matter (see \<open>Externals\<close>).
  \<open>RateMode\<close> is the pointer \<^verbatim>\<open>settings.samplerate.limits\<close>, which points either
  at \<^verbatim>\<open>specification.samplerate.single\<close> or at \<^verbatim>\<open>specification.samplerate.multi\<close>.
\<close>

datatype Model = MODEL_DSO2090 | MODEL_DSO2150 | MODEL_DSO2250 | MODEL_DSO5200
  | MODEL_DSO5200A | MODEL_DSO6022BE

datatype BulkCode = BULK_FORCETRIGGER | BULK_STARTSAMPLING | BULK_ENABLETRIGGER | BULK_GETDATA
  | BULK_GETCAPTURESTATE | BULK_SETGAIN | BULK_SETTRIGGERANDSAMPLERATE | BULK_BSETCHANNELS
  | BULK_CSETTRIGGERORSAMPLERATE | BULK_DSETBUFFER | BULK_ESETTRIGGERORSAMPLERATE
  | BULK_FSETBUFFER

datatype ControlIndex = CONTROLINDEX_SETOFFSET | CONTROLINDEX_SETRELAYS
  | CONTROLINDEX_SETVOLTDIV_CH1 | CONTROLINDEX_SETVOLTDIV_CH2 | CONTROLINDEX_SETTIMEDIV
  | CONTROLINDEX_ACQUIIRE_HARD_DATA

datatype ControlCode = CONTROL_SETOFFSET | CONTROL_SETRELAYS | CONTROL_SETVOLTDIV_CH1
  | CONTROL_SETVOLTDIV_CH2 | CONTROL_SETTIMEDIV | CONTROL_ACQUIIRE_HARD_DATA

datatype UsedChannels = USED_CH1 | USED_CH2 | USED_CH1CH2 | BUSED_CH2

datatype TriggerMode = TRIGGERMODE_AUTO | TRIGGERMODE_NORMAL | TRIGGERMODE_SINGLE

datatype Slope = SLOPE_POSITIVE | SLOPE_NEGATIVE

datatype RateMode = Single | Multi

definition HANTEK_CHANNELS :: nat where
  "HANTEK_CHANNELS = 2"

definition UINT_MAX :: "32 word" where
  "UINT_MAX = 4294967295"

subsection \<open>The specification and the settings\<close>

text \<open>
  The members of \<^verbatim>\<open>specification\<close> and \<^verbatim>\<open>settings\<close> that the modelled functions
  read or assign. A nested member keeps its path as a prefix
  (\<^verbatim>\<open>settings.samplerate.current\<close> is \<open>samplerate_current\<close>,
  \<^verbatim>\<open>settings.voltage[c].offsetReal\<close> is \<open>voltage_offsetReal\<close>). A
  \<^verbatim>\<open>QList\<close> is a list; reading it at an index outside its range is undefined and is
  the value \<open>None\<close> of the reading function. \<^verbatim>\<open>limits->max\<close> is \<open>max_rate\<close>.
\<close>

record ControlSamplerateLimits =
  base :: real
  max_rate :: real
  maxDownsampler :: "32 word"
  recordLengths :: "32 word list"

record ControlSpecification =
  bulk_setRecordLength :: "BulkCode option"
  bulk_setChannels :: "BulkCode option"
  bulk_setGain :: "BulkCode option"
  bulk_setSamplerate :: "BulkCode option"
  bulk_setTrigger :: "BulkCode option"
  bulk_setPretrigger :: "BulkCode option"
  samplerate_single :: ControlSamplerateLimits
  samplerate_multi :: ControlSamplerateLimits
  bufferDividers :: "32 word list"
  gainSteps :: "real list"
  voltageLimit :: "nat \<Rightarrow> 16 word list"
  gainIndex :: "8 word list"
  gainDiv :: "8 word list"
  sampleSteps :: "real list"
  sampleDiv :: "8 word list"
  sampleSize :: nat
  offsetLimit :: "nat \<Rightarrow> nat \<Rightarrow> (8 word \<times> 8 word) \<times> (8 word \<times> 8 word)"

record ControlSettingsVoltage =
  voltage_gain :: nat
  voltage_offset :: real
  voltage_offsetReal :: real
  voltage_used :: bool

record ControlSettings =
  samplerate_limits :: RateMode
  samplerate_downsampler :: "32 word"
  samplerate_current :: real
  target_samplerate :: real
  target_duration :: real
  target_samplerateSet :: bool
  recordLengthId :: nat
  voltage :: "nat \<Rightarrow> ControlSettingsVoltage"
  trigger_level :: "nat \<Rightarrow> real"
  trigger_position :: real
  trigger_point :: "32 word"
  trigger_mode :: TriggerMode
  trigger_slope :: Slope
  trigger_special :: bool
  trigger_source :: nat
  usedChannels :: nat

subsection \<open>Command encoders\<close>

text \<open>
  Modelled from the spec: the encoder classes are declared outside this file. ``Each slot
  holds either nothing or a model-specific encoder carrying a mutable byte buffer plus setter
  methods for logical fields.'' An encoder is the record of the logical fields that its
  setters assign; an encoder that the modelled functions never assign a field of is its
  byte buffer. \<open>BulkCommand\<close> and \<open>ControlCommand\<close> are the tagged unions of the
  encoders, so a \<^verbatim>\<open>static_cast\<close> to an encoder class that the slot does not hold is
  visible as \<open>None\<close>.
\<close>

record BulkSetTriggerAndSamplerate =
  tas_recordLength :: nat
  tas_usedChannels :: UsedChannels
  tas_triggerPosition :: "32 word"
  tas_samplerateId :: "8 word"
  tas_downsampler :: "16 word"
  tas_downsamplingMode :: bool
  tas_triggerSource :: int
  tas_triggerSlope :: Slope
  tas_fastRate :: bool

record BulkSetSamplerate5200 =
  s5200_samplerateFast :: int
  s5200_samplerateSlow :: int

record BulkSetTrigger5200 =
  t5200_triggerSource :: int
  t5200_usedChannels :: UsedChannels
  t5200_fastRate :: bool
  t5200_triggerSlope :: Slope

record BulkSetBuffer5200 =
  b5200_triggerPositionPre :: "16 word"
  b5200_triggerPositionPost :: "16 word"
  b5200_usedPre :: bool
  b5200_usedPost :: bool
  b5200_recordLength :: nat

record BulkSetSamplerate2250 =
  s2250_downsampling :: bool
  s2250_samplerate :: "32 word"
  s2250_fastRate :: bool

record BulkSetBuffer2250 =
  b2250_triggerPositionPre :: "32 word"
  b2250_triggerPositionPost :: "32 word"

datatype BulkCommand =
    CmdForceTrigger "8 word list"
  | CmdCaptureStart "8 word list"
  | CmdTriggerEnabled "8 word list"
  | CmdGetData "8 word list"
  | CmdGetCaptureState "8 word list"
  | CmdSetGain "8 word list"
  | CmdSetTriggerAndSamplerate BulkSetTriggerAndSamplerate
  | CmdSetChannels2250 UsedChannels
  | CmdSetTrigger2250 "8 word list"
  | CmdSetRecordLength2250 "8 word list"
  | CmdSetSamplerate2250 BulkSetSamplerate2250
  | CmdSetBuffer2250 BulkSetBuffer2250
  | CmdSetSamplerate5200 BulkSetSamplerate5200
  | CmdSetBuffer5200 BulkSetBuffer5200
  | CmdSetTrigger5200 BulkSetTrigger5200

record ControlSetOffset =
  so_channel :: "nat \<Rightarrow> 16 word"
  so_trigger :: "16 word"

datatype ControlCommand =
    CtlSetOffset ControlSetOffset
  | CtlSetRelays "8 word list"
  | CtlSetVoltDIV_CH1 "8 word"
  | CtlSetVoltDIV_CH2 "8 word"
  | CtlSetTimeDIV "8 word"
  | CtlAcquireHardData "8 word list"

subsection \<open>The controller\<close>

text \<open>
  \<open>HantekDsoControl\<close> is the object: the transport's answers to
  \<^verbatim>\<open>isConnected()\<close>, \<^verbatim>\<open>getUniqueModelID()\<close> and \<^verbatim>\<open>getPacketSize()\<close>, and the
  members. A slot of \<^verbatim>\<open>command\<close> or \<^verbatim>\<open>control\<close> that holds no encoder, and an entry
  of \<^verbatim>\<open>controlCode\<close> that was never assigned, is \<open>None\<close>.
\<close>

record DSOsamples =
  result_data :: "nat \<Rightarrow> real list"
  result_samplerate :: real
  result_append :: bool

record HantekDsoControl =
  isConnected :: bool
  getUniqueModelID :: Model
  getPacketSize :: int
  dso_specification :: ControlSpecification
  settings :: ControlSettings
  command_arr :: "BulkCode \<Rightarrow> BulkCommand option"
  commandPending :: "BulkCode \<Rightarrow> bool"
  control_arr :: "ControlIndex \<Rightarrow> ControlCommand option"
  controlCode :: "ControlIndex \<Rightarrow> ControlCode option"
  controlPending :: "ControlIndex \<Rightarrow> bool"
  dso_result :: DSOsamples
  previousSampleCount :: "32 word"

subsection \<open>calculateTriggerPoint\<close>

text \<open>
  \<^verbatim>\<open>
  unsigned int result = value;
  for (unsigned int bitValue = 1; bitValue; bitValue <<= 1)
      if (result & bitValue)
          result ^= bitValue - 1;
  return result;
  \<close>
  The loop ends when the shift pushes the single bit out of the 32-bit word.
\<close>

function calculateTriggerPoint_loop :: "32 word \<Rightarrow> 32 word \<Rightarrow> 32 word" where
  "calculateTriggerPoint_loop bitValue result =
     (if bitValue = 0 then result
      else calculateTriggerPoint_loop (push_bit 1 bitValue)
             (if result AND bitValue \<noteq> 0 then result XOR (bitValue - 1) else result))"
  by pat_completeness auto

termination
proof (relation "measure (\<lambda>(bitValue, result). unat (word_reverse bitValue))")
  show "wf (measure (\<lambda>(bitValue :: 32 word, result :: 32 word). unat (word_reverse bitValue)))"
    by simp
next
  fix bitValue result :: "32 word"
  assume nz: "bitValue \<noteq> 0"
  have rev_shift: "word_reverse (push_bit 1 bitValue) = drop_bit 1 (word_reverse bitValue)"
  proof (rule bit_word_eqI)
    fix n assume "n < LENGTH(32)"
    then have n: "n < 32" by simp
    have "bit (word_reverse (push_bit 1 bitValue)) n \<longleftrightarrow> n < 31 \<and> bit bitValue (30 - n)"
      using n unfolding bit_word_reverse_iff bit_push_bit_iff
      by (auto simp: possible_bit_word)
    moreover have "bit (drop_bit 1 (word_reverse bitValue)) n \<longleftrightarrow> n < 31 \<and> bit bitValue (30 - n)"
      using n unfolding bit_drop_bit_eq bit_word_reverse_iff
      by auto
    ultimately show "bit (word_reverse (push_bit 1 bitValue)) n
        = bit (drop_bit 1 (word_reverse bitValue)) n"
      by blast
  qed
  have "word_reverse (0 :: 32 word) = 0"
    by (rule bit_word_eqI) (simp add: bit_simps)
  then have "word_reverse bitValue \<noteq> 0"
    using nz by (metis word_rev_rev)
  then have "unat (word_reverse bitValue) \<noteq> 0"
    by (simp add: unat_eq_0)
  then have "unat (word_reverse (push_bit 1 bitValue)) < unat (word_reverse bitValue)"
    unfolding rev_shift unat_drop_bit_eq by (simp add: drop_bit_eq_div)
  then show "((push_bit 1 bitValue,
        if result AND bitValue \<noteq> 0 then result XOR (bitValue - 1) else result),
       (bitValue, result))
      \<in> measure (\<lambda>(bitValue, result). unat (word_reverse bitValue))"
    by simp
qed

declare calculateTriggerPoint_loop.simps [simp del]

definition calculateTriggerPoint :: "32 word \<Rightarrow> 32 word" where
  "calculateTriggerPoint v = calculateTriggerPoint_loop 1 v"

text \<open>The binary reflected Gray code of a word, the encoding that the loop above decodes.\<close>

definition gray :: "32 word \<Rightarrow> 32 word" where
  "gray y = y XOR drop_bit 1 y"

subsection \<open>getBestSamplerate\<close>

text \<open>
  \<open>nth_opt\<close> is indexing with the range check made explicit. \<open>toUInt\<close> is the
  conversion \<^verbatim>\<open>(unsigned int) x\<close> of a double: the value is truncated, and the conversion
  is undefined when the truncated value is not representable. \<open>ofUInt\<close> is the
  conversion of an \<^verbatim>\<open>unsigned int\<close> to a double.
\<close>

definition nth_opt :: "'a list \<Rightarrow> nat \<Rightarrow> 'a option" where
  "nth_opt xs i = (if i < length xs then Some (xs ! i) else None)"

definition toUInt :: "real \<Rightarrow> 32 word option" where
  "toUInt x = (if -1 < x \<and> x < 4294967296
               then Some (word_of_int (if 0 \<le> x then \<lfloor>x\<rfloor> else \<lceil>x\<rceil>)) else None)"

definition ofUInt :: "32 word \<Rightarrow> real" where
  "ofUInt w = real (unat w)"

definition limits_of :: "ControlSpecification \<Rightarrow> RateMode \<Rightarrow> ControlSamplerateLimits" where
  "limits_of sp m = (case m of Single \<Rightarrow> samplerate_single sp | Multi \<Rightarrow> samplerate_multi sp)"

text \<open>
  The \<^verbatim>\<open>switch (specification.command.bulk.setSamplerate)\<close> of
  \<^verbatim>\<open>getBestSamplerate\<close> (lines 810 to 867): the rounding of the ideal downsampler for the
  command family; \<open>None\<close> is the \<^verbatim>\<open>default: return 0.0\<close>.
\<close>

fun getBestSamplerate_switch :: "BulkCode option \<Rightarrow> bool \<Rightarrow> real \<Rightarrow> real option" where
  "getBestSamplerate_switch (Some BULK_SETTRIGGERANDSAMPLERATE) maximum bestDownsampler =
     Some (if (maximum \<and> bestDownsampler \<le> 5) \<or> (\<not> maximum \<and> bestDownsampler < 6) then
        (if maximum then
           (let d = of_int \<lceil>bestDownsampler\<rceil> in if d > 2 then 5 else d)
         else
           (let d = of_int \<lfloor>bestDownsampler\<rfloor> in if d > 2 \<and> d < 5 then 2 else d))
      else
        (let d = (if maximum then of_int \<lceil>bestDownsampler / 2\<rceil> * 2
                  else of_int \<lfloor>bestDownsampler / 2\<rfloor> * 2)
         in if d > 2 * 65537 then 2 * 65537 else d))"
| "getBestSamplerate_switch (Some BULK_CSETTRIGGERORSAMPLERATE) maximum bestDownsampler =
     Some (if maximum then of_int \<lceil>bestDownsampler\<rceil> else of_int \<lfloor>bestDownsampler\<rfloor>)"
| "getBestSamplerate_switch (Some BULK_ESETTRIGGERORSAMPLERATE) maximum bestDownsampler =
     Some (if maximum then of_int \<lceil>bestDownsampler\<rceil> else of_int \<lfloor>bestDownsampler\<rfloor>)"
| "getBestSamplerate_switch _ maximum bestDownsampler = None"

text \<open>
  \<^verbatim>\<open>getBestSamplerate(samplerate, fastRate, maximum, &downsampler)\<close> (lines 779 to 882).
  The result is the returned samplerate and what was stored through the pointer
  \<^verbatim>\<open>downsampler\<close>: \<open>None\<close> when the function returned before the store.
\<close>

definition getBestSamplerate ::
  "HantekDsoControl \<Rightarrow> real \<Rightarrow> bool \<Rightarrow> bool \<Rightarrow> (real \<times> 32 word option) option" where
  "getBestSamplerate s samplerate fastRate maximum =
    (if samplerate \<le> 0 then Some (0, None)
     else
       let lim = (if fastRate then samplerate_multi (dso_specification s)
                  else samplerate_single (dso_specification s))
       in do {
         divider \<leftarrow> nth_opt (bufferDividers (dso_specification s)) (recordLengthId (settings s));
         let bestDownsampler = base lim / ofUInt divider / samplerate;
         if bestDownsampler < 1 \<and> (samplerate \<le> max_rate lim / ofUInt divider \<or> \<not> maximum)
         then do {
           d \<leftarrow> toUInt 0;
           Some (max_rate lim / ofUInt divider, Some d)
         }
         else (case getBestSamplerate_switch (bulk_setSamplerate (dso_specification s))
                      maximum bestDownsampler of
             None \<Rightarrow> Some (0, None)
           | Some rounded \<Rightarrow>
               let bestDownsampler = (if rounded > ofUInt (maxDownsampler lim)
                                      then ofUInt (maxDownsampler lim) else rounded)
               in do {
                 d \<leftarrow> toUInt bestDownsampler;
                 Some (base lim / bestDownsampler / ofUInt divider, Some d)
               })
       })"

subsection \<open>The constructor\<close>

text \<open>
  The two \<^verbatim>\<open>switch (device->getUniqueModelID())\<close> of the constructor that fill
  \<^verbatim>\<open>specification.command.bulk\<close> (lines 159 to 260) and the limits and tables (lines 285
  to 397), and the defaults the constructor assigns before them.
\<close>

definition bulk_codes_of :: "Model \<Rightarrow> ControlSpecification \<Rightarrow> ControlSpecification" where
  "bulk_codes_of m sp =
     (case m of
        MODEL_DSO2150 \<Rightarrow> sp\<lparr>bulk_setRecordLength := Some BULK_SETTRIGGERANDSAMPLERATE,
            bulk_setChannels := Some BULK_SETTRIGGERANDSAMPLERATE,
            bulk_setSamplerate := Some BULK_SETTRIGGERANDSAMPLERATE,
            bulk_setTrigger := Some BULK_SETTRIGGERANDSAMPLERATE,
            bulk_setPretrigger := Some BULK_SETTRIGGERANDSAMPLERATE\<rparr>
      | MODEL_DSO2090 \<Rightarrow> sp\<lparr>bulk_setRecordLength := Some BULK_SETTRIGGERANDSAMPLERATE,
            bulk_setChannels := Some BULK_SETTRIGGERANDSAMPLERATE,
            bulk_setSamplerate := Some BULK_SETTRIGGERANDSAMPLERATE,
            bulk_setTrigger := Some BULK_SETTRIGGERANDSAMPLERATE,
            bulk_setPretrigger := Some BULK_SETTRIGGERANDSAMPLERATE\<rparr>
      | MODEL_DSO2250 \<Rightarrow> sp\<lparr>bulk_setRecordLength := Some BULK_DSETBUFFER,
            bulk_setChannels := Some BULK_BSETCHANNELS,
            bulk_setSamplerate := Some BULK_ESETTRIGGERORSAMPLERATE,
            bulk_setTrigger := Some BULK_CSETTRIGGERORSAMPLERATE,
            bulk_setPretrigger := Some BULK_FSETBUFFER\<rparr>
      | MODEL_DSO5200A \<Rightarrow> sp\<lparr>bulk_setRecordLength := Some BULK_DSETBUFFER,
            bulk_setChannels := Some BULK_ESETTRIGGERORSAMPLERATE,
            bulk_setSamplerate := Some BULK_CSETTRIGGERORSAMPLERATE,
            bulk_setTrigger := Some BULK_ESETTRIGGERORSAMPLERATE,
            bulk_setPretrigger := Some BULK_ESETTRIGGERORSAMPLERATE\<rparr>
      | MODEL_DSO5200 \<Rightarrow> sp\<lparr>bulk_setRecordLength := Some BULK_DSETBUFFER,
            bulk_setChannels := Some BULK_ESETTRIGGERORSAMPLERATE,
            bulk_setSamplerate := Some BULK_CSETTRIGGERORSAMPLERATE,
            bulk_setTrigger := Some BULK_ESETTRIGGERORSAMPLERATE,
            bulk_setPretrigger := Some BULK_ESETTRIGGERORSAMPLERATE\<rparr>
      | MODEL_DSO6022BE \<Rightarrow> sp)"

definition limits_tables_of :: "Model \<Rightarrow> ControlSpecification \<Rightarrow> ControlSpecification" where
  "limits_tables_of m sp =
     (case m of
        MODEL_DSO5200 \<Rightarrow> sp\<lparr>
          samplerate_single := \<lparr>base = 100000000, max_rate = 125000000, maxDownsampler = 131072,
             recordLengths = [UINT_MAX, 10240, 14336]\<rparr>,
          samplerate_multi := \<lparr>base = 200000000, max_rate = 250000000, maxDownsampler = 131072,
             recordLengths = [UINT_MAX, 20480, 28672]\<rparr>,
          bufferDividers := [1000, 1, 1],
          gainSteps := [0.16, 0.40, 0.80, 1.60, 4.00, 8.0, 16.0, 40.0, 80.0],
          voltageLimit := (\<lambda>channel. [368, 454, 908, 368, 454, 908, 368, 454, 908]),
          gainIndex := [1, 0, 0, 1, 0, 0, 1, 0, 0],
          sampleSize := 10\<rparr>
      | MODEL_DSO5200A \<Rightarrow> sp\<lparr>
          samplerate_single := \<lparr>base = 100000000, max_rate = 125000000, maxDownsampler = 131072,
             recordLengths = [UINT_MAX, 10240, 14336]\<rparr>,
          samplerate_multi := \<lparr>base = 200000000, max_rate = 250000000, maxDownsampler = 131072,
             recordLengths = [UINT_MAX, 20480, 28672]\<rparr>,
          bufferDividers := [1000, 1, 1],
          gainSteps := [0.16, 0.40, 0.80, 1.60, 4.00, 8.0, 16.0, 40.0, 80.0],
          voltageLimit := (\<lambda>channel. [368, 454, 908, 368, 454, 908, 368, 454, 908]),
          gainIndex := [1, 0, 0, 1, 0, 0, 1, 0, 0],
          sampleSize := 10\<rparr>
      | MODEL_DSO2250 \<Rightarrow> sp\<lparr>
          samplerate_single := \<lparr>base = 100000000, max_rate = 100000000, maxDownsampler = 65536,
             recordLengths = [UINT_MAX, 10240, 524288]\<rparr>,
          samplerate_multi := \<lparr>base = 200000000, max_rate = 250000000, maxDownsampler = 65536,
             recordLengths = [UINT_MAX, 20480, 1048576]\<rparr>,
          bufferDividers := [1000, 1, 1],
          gainSteps := [0.08, 0.16, 0.40, 0.80, 1.60, 4.00, 8.0, 16.0, 40.0],
          voltageLimit := (\<lambda>channel. [255, 255, 255, 255, 255, 255, 255, 255, 255]),
          gainIndex := [0, 2, 3, 0, 2, 3, 0, 2, 3],
          sampleSize := 8\<rparr>
      | MODEL_DSO2150 \<Rightarrow> sp\<lparr>
          samplerate_single := \<lparr>base = 50000000, max_rate = 75000000, maxDownsampler = 131072,
             recordLengths = [UINT_MAX, 10240, 32768]\<rparr>,
          samplerate_multi := \<lparr>base = 100000000, max_rate = 150000000, maxDownsampler = 131072,
             recordLengths = [UINT_MAX, 20480, 65536]\<rparr>,
          bufferDividers := [1000, 1, 1],
          gainSteps := [0.08, 0.16, 0.40, 0.80, 1.60, 4.00, 8.0, 16.0, 40.0],
          voltageLimit := (\<lambda>channel. [255, 255, 255, 255, 255, 255, 255, 255, 255]),
          gainIndex := [0, 1, 2, 0, 1, 2, 0, 1, 2],
          sampleSize := 8\<rparr>
      | MODEL_DSO6022BE \<Rightarrow> sp\<lparr>
          samplerate_single := \<lparr>base = 1000000, max_rate = 48000000, maxDownsampler = 10,
             recordLengths = [UINT_MAX, 10240]\<rparr>,
          samplerate_multi := \<lparr>base = 1000000, max_rate = 48000000, maxDownsampler = 10,
             recordLengths = [UINT_MAX, 20480]\<rparr>,
          bufferDividers := [1000, 1, 1],
          gainSteps := [0.08, 0.16, 0.40, 0.80, 1.60, 4.00, 8.0, 16.0, 40.0],
          voltageLimit := (\<lambda>channel. [25, 51, 103, 206, 412, 196, 392, 784, 1000]),
          gainDiv := [10, 10, 10, 10, 10, 2, 2, 2, 1],
          sampleSteps := [100000, 200000, 500000, 1000000, 2000000, 4000000, 8000000,
             16000000, 24000000, 48000000],
          sampleDiv := [10, 20, 50, 1, 2, 4, 8, 16, 24, 48],
          sampleSize := 8\<rparr>
      | MODEL_DSO2090 \<Rightarrow> sp\<lparr>
          samplerate_single := \<lparr>base = 50000000, max_rate = 50000000, maxDownsampler = 131072,
             recordLengths = [UINT_MAX, 10240, 32768]\<rparr>,
          samplerate_multi := \<lparr>base = 100000000, max_rate = 100000000, maxDownsampler = 131072,
             recordLengths = [UINT_MAX, 20480, 65536]\<rparr>,
          bufferDividers := [1000, 1, 1],
          gainSteps := [0.08, 0.16, 0.40, 0.80, 1.60, 4.00, 8.0, 16.0, 40.0],
          voltageLimit := (\<lambda>channel. [255, 255, 255, 255, 255, 255, 255, 255, 255]),
          gainIndex := [0, 1, 2, 0, 1, 2, 0, 1, 2],
          sampleSize := 8\<rparr>)"

definition specification_of ::
  "Model \<Rightarrow> (nat \<Rightarrow> nat \<Rightarrow> (8 word \<times> 8 word) \<times> (8 word \<times> 8 word)) \<Rightarrow> ControlSpecification" where
  "specification_of m calibration =
     limits_tables_of m (bulk_codes_of m
       \<lparr>bulk_setRecordLength = None, bulk_setChannels = None, bulk_setGain = Some BULK_SETGAIN,
        bulk_setSamplerate = None, bulk_setTrigger = None, bulk_setPretrigger = None,
        samplerate_single = \<lparr>base = 50000000, max_rate = 50000000, maxDownsampler = 0,
           recordLengths = []\<rparr>,
        samplerate_multi = \<lparr>base = 100000000, max_rate = 100000000, maxDownsampler = 0,
           recordLengths = []\<rparr>,
        bufferDividers = [], gainSteps = [], voltageLimit = (\<lambda>channel. []),
        gainIndex = [], gainDiv = [], sampleSteps = [], sampleDiv = [], sampleSize = 0,
        offsetLimit = calibration\<rparr>)"

subsection \<open>updateSamplerate\<close>

text \<open>
  The \<^verbatim>\<open>static_cast\<close>s of the encoder slots: the setter runs on the encoder class the
  source names, and is undefined on any other.
\<close>

datatype ErrorCode = ERROR_NONE | ERROR_UNSUPPORTED | ERROR_CONNECTION | ERROR_PARAMETER

fun as_SetTriggerAndSamplerate ::
  "(BulkSetTriggerAndSamplerate \<Rightarrow> BulkSetTriggerAndSamplerate) \<Rightarrow> BulkCommand \<Rightarrow> BulkCommand option" where
  "as_SetTriggerAndSamplerate f (CmdSetTriggerAndSamplerate c) = Some (CmdSetTriggerAndSamplerate (f c))"
| "as_SetTriggerAndSamplerate f _ = None"

fun as_SetChannels2250 :: "(UsedChannels \<Rightarrow> UsedChannels) \<Rightarrow> BulkCommand \<Rightarrow> BulkCommand option" where
  "as_SetChannels2250 f (CmdSetChannels2250 c) = Some (CmdSetChannels2250 (f c))"
| "as_SetChannels2250 f _ = None"

fun as_SetSamplerate2250 ::
  "(BulkSetSamplerate2250 \<Rightarrow> BulkSetSamplerate2250) \<Rightarrow> BulkCommand \<Rightarrow> BulkCommand option" where
  "as_SetSamplerate2250 f (CmdSetSamplerate2250 c) = Some (CmdSetSamplerate2250 (f c))"
| "as_SetSamplerate2250 f _ = None"

fun as_SetBuffer2250 ::
  "(BulkSetBuffer2250 \<Rightarrow> BulkSetBuffer2250) \<Rightarrow> BulkCommand \<Rightarrow> BulkCommand option" where
  "as_SetBuffer2250 f (CmdSetBuffer2250 c) = Some (CmdSetBuffer2250 (f c))"
| "as_SetBuffer2250 f _ = None"

fun as_SetSamplerate5200 ::
  "(BulkSetSamplerate5200 \<Rightarrow> BulkSetSamplerate5200) \<Rightarrow> BulkCommand \<Rightarrow> BulkCommand option" where
  "as_SetSamplerate5200 f (CmdSetSamplerate5200 c) = Some (CmdSetSamplerate5200 (f c))"
| "as_SetSamplerate5200 f _ = None"

fun as_SetBuffer5200 ::
  "(BulkSetBuffer5200 \<Rightarrow> BulkSetBuffer5200) \<Rightarrow> BulkCommand \<Rightarrow> BulkCommand option" where
  "as_SetBuffer5200 f (CmdSetBuffer5200 c) = Some (CmdSetBuffer5200 (f c))"
| "as_SetBuffer5200 f _ = None"

fun as_SetTrigger5200 ::
  "(BulkSetTrigger5200 \<Rightarrow> BulkSetTrigger5200) \<Rightarrow> BulkCommand \<Rightarrow> BulkCommand option" where
  "as_SetTrigger5200 f (CmdSetTrigger5200 c) = Some (CmdSetTrigger5200 (f c))"
| "as_SetTrigger5200 f _ = None"

text \<open>
  \<open>modify_command code f\<close> is a setter call
  \<^verbatim>\<open>static_cast<T *>(command[code])->set...(...)\<close>; \<open>set_commandPending\<close> is
  \<^verbatim>\<open>commandPending[code] = true\<close>; \<open>current_limits\<close> is
  \<^verbatim>\<open>*settings.samplerate.limits\<close>.
\<close>

definition modify_command ::
  "BulkCode \<Rightarrow> (BulkCommand \<Rightarrow> BulkCommand option) \<Rightarrow> HantekDsoControl \<Rightarrow> HantekDsoControl option" where
  "modify_command code f s = do {
     c \<leftarrow> command_arr s code;
     c' \<leftarrow> f c;
     Some (s\<lparr>command_arr := (command_arr s)(code \<mapsto> c')\<rparr>)
   }"

definition set_commandPending :: "BulkCode \<Rightarrow> HantekDsoControl \<Rightarrow> HantekDsoControl" where
  "set_commandPending code s = s\<lparr>commandPending := (commandPending s)(code := True)\<rparr>"

definition current_limits :: "HantekDsoControl \<Rightarrow> ControlSamplerateLimits" where
  "current_limits s = limits_of (dso_specification s) (samplerate_limits (settings s))"

text \<open>
  \<^verbatim>\<open>setPretriggerPosition(position)\<close> (lines 1705 to 1767), called by
  \<^verbatim>\<open>updateSamplerate\<close>; the returned position is not used there. On the
  \<^verbatim>\<open>default\<close> branch the function returns before it assigns
  \<^verbatim>\<open>settings.trigger.position\<close>.
\<close>

definition setPretriggerPosition :: "HantekDsoControl \<Rightarrow> real \<Rightarrow> HantekDsoControl option" where
  "setPretriggerPosition s pos =
    (if \<not> isConnected s then Some s
     else do {
       positionSamples \<leftarrow> toUInt (pos * samplerate_current (settings s));
       recordLength \<leftarrow> nth_opt (recordLengths (current_limits s)) (recordLengthId (settings s));
       let rollMode = (recordLength = UINT_MAX);
       let positionSamples = (if samplerate_limits (settings s) = Multi
                              then positionSamples div 2 else positionSamples);
       s1 \<leftarrow> (case bulk_setPretrigger (dso_specification s) of
           Some BULK_SETTRIGGERANDSAMPLERATE \<Rightarrow> do {
             let position = (if rollMode then 1 else 0x7ffff - recordLength + positionSamples);
             s1 \<leftarrow> modify_command BULK_SETTRIGGERANDSAMPLERATE
               (as_SetTriggerAndSamplerate (\<lambda>c. c\<lparr>tas_triggerPosition := position\<rparr>)) s;
             Some (Some (set_commandPending BULK_SETTRIGGERANDSAMPLERATE s1))
           }
         | Some BULK_FSETBUFFER \<Rightarrow> do {
             let positionPre = 0x7ffff - recordLength + positionSamples;
             let positionPost = 0x7ffff - positionSamples;
             s1 \<leftarrow> modify_command BULK_FSETBUFFER
               (as_SetBuffer2250 (\<lambda>c. c\<lparr>b2250_triggerPositionPre := positionPre,
                                         b2250_triggerPositionPost := positionPost\<rparr>)) s;
             Some (Some (set_commandPending BULK_FSETBUFFER s1))
           }
         | Some BULK_ESETTRIGGERORSAMPLERATE \<Rightarrow> do {
             let positionPre = ucast (0xffff - recordLength + positionSamples);
             let positionPost = ucast (0xffff - positionSamples);
             s1 \<leftarrow> modify_command BULK_DSETBUFFER
               (as_SetBuffer5200 (\<lambda>c. c\<lparr>b5200_triggerPositionPre := positionPre,
                                         b5200_triggerPositionPost := positionPost\<rparr>)) s;
             Some (Some (set_commandPending BULK_DSETBUFFER s1))
           }
         | _ \<Rightarrow> Some None);
       Some (case s1 of
           None \<Rightarrow> s
         | Some s2 \<Rightarrow> s2\<lparr>settings := (settings s2)\<lparr>trigger_position := pos\<rparr>\<rparr>)
     })"

text \<open>C integer division: the quotient is truncated towards zero.\<close>

definition c_div :: "int \<Rightarrow> int \<Rightarrow> int" where
  "c_div a b = sgn a * sgn b * (\<bar>a\<bar> div \<bar>b\<bar>)"

text \<open>
  The part of \<^verbatim>\<open>updateSamplerate\<close> after the switch (lines 1073 to 1112): the limits
  pointer, the downsampler and the current samplerate are assigned, the pretrigger position is
  set again, and the three signals are emitted (the last one reads the record length).
\<close>

definition updateSamplerate_settings ::
  "HantekDsoControl \<Rightarrow> 32 word \<Rightarrow> bool \<Rightarrow> (32 word \<times> HantekDsoControl) option" where
  "updateSamplerate_settings s downsampler fastRate = do {
     let fastRateChanged = (fastRate \<noteq> (samplerate_limits (settings s) = Multi));
     let s1 = (if fastRateChanged
               then s\<lparr>settings := (settings s)\<lparr>samplerate_limits := (if fastRate then Multi else Single)\<rparr>\<rparr>
               else s);
     divider \<leftarrow> nth_opt (bufferDividers (dso_specification s1)) (recordLengthId (settings s1));
     let s2 = s1\<lparr>settings := (settings s1)\<lparr>samplerate_downsampler := downsampler,
                samplerate_current := (if downsampler \<noteq> 0
                            then base (current_limits s1) / ofUInt divider / ofUInt downsampler
                            else max_rate (current_limits s1) / ofUInt divider)\<rparr>\<rparr>;
     s3 \<leftarrow> setPretriggerPosition s2 (trigger_position (settings s2));
     recordLength \<leftarrow> nth_opt (recordLengths (current_limits s3)) (recordLengthId (settings s3));
     Some (downsampler, s3)
   }"

text \<open>
  \<^verbatim>\<open>updateSamplerate(downsampler, fastRate)\<close> (lines 973 to 1113). On the
  \<^verbatim>\<open>BULK_SETTRIGGERANDSAMPLERATE\<close> branch the source calls
  \<^verbatim>\<open>setFastRate(false /*fastRate*/)\<close>.
\<close>

definition updateSamplerate ::
  "HantekDsoControl \<Rightarrow> 32 word \<Rightarrow> bool \<Rightarrow> (32 word \<times> HantekDsoControl) option" where
  "updateSamplerate s downsampler fastRate =
    (let lim = (if fastRate then samplerate_multi (dso_specification s)
                else samplerate_single (dso_specification s))
     in case bulk_setSamplerate (dso_specification s) of
       Some BULK_SETTRIGGERANDSAMPLERATE \<Rightarrow>
         (let (downsamplerValue, samplerateId, downsampling, downsampler) =
            (if downsampler \<le> 5 then
               (if downsampler = 0 \<and> base lim \<ge> max_rate lim
                then (0 :: 16 word, 1 :: 8 word, False, downsampler)
                else if downsampler \<le> 2 then (0, ucast downsampler, False, downsampler)
                else (0xffff, 3, False, 5))
             else
               (let downsampler = downsampler AND NOT 1
                in (ucast (0x10001 - drop_bit 1 downsampler), 0, True, downsampler)))
          in do {
            s1 \<leftarrow> modify_command BULK_SETTRIGGERANDSAMPLERATE
              (as_SetTriggerAndSamplerate (\<lambda>c. c\<lparr>tas_downsamplingMode := downsampling,
                  tas_samplerateId := samplerateId, tas_downsampler := downsamplerValue,
                  tas_fastRate := False\<rparr>)) s;
            updateSamplerate_settings (set_commandPending BULK_SETTRIGGERANDSAMPLERATE s1)
              downsampler fastRate
          })
     | Some BULK_CSETTRIGGERORSAMPLERATE \<Rightarrow>
         (let valueSlow = max (c_div (uint downsampler - 3) 2) 0;
              valueFast = (word_of_int (uint downsampler - valueSlow * 2) :: 8 word)
          in do {
            s1 \<leftarrow> modify_command BULK_CSETTRIGGERORSAMPLERATE
              (as_SetSamplerate5200 (\<lambda>c. c\<lparr>s5200_samplerateFast := 4 - uint valueFast,
                  s5200_samplerateSlow := (if valueSlow = 0 then 0 else 0xffff - valueSlow)\<rparr>)) s;
            s2 \<leftarrow> modify_command BULK_ESETTRIGGERORSAMPLERATE
              (as_SetTrigger5200 (\<lambda>c. c\<lparr>t5200_fastRate := fastRate\<rparr>)) s1;
            updateSamplerate_settings
              (set_commandPending BULK_ESETTRIGGERORSAMPLERATE
                (set_commandPending BULK_CSETTRIGGERORSAMPLERATE s2))
              downsampler fastRate
          })
     | Some BULK_ESETTRIGGERORSAMPLERATE \<Rightarrow>
         (let downsampling = (downsampler \<ge> 1)
          in do {
            s1 \<leftarrow> modify_command BULK_ESETTRIGGERORSAMPLERATE
              (as_SetSamplerate2250 (\<lambda>c. c\<lparr>s2250_downsampling := downsampling,
                  s2250_samplerate := (if downsampler > 1 then 0x10001 - downsampler else 0),
                  s2250_fastRate := fastRate\<rparr>)) s;
            updateSamplerate_settings (set_commandPending BULK_ESETTRIGGERORSAMPLERATE s1)
              downsampler fastRate
          })
     | _ \<Rightarrow> Some (UINT_MAX, s))"

subsection \<open>setSamplerate and setChannelUsed\<close>

fun as_SetTimeDIV :: "(8 word \<Rightarrow> 8 word) \<Rightarrow> ControlCommand \<Rightarrow> ControlCommand option" where
  "as_SetTimeDIV f (CtlSetTimeDIV c) = Some (CtlSetTimeDIV (f c))"
| "as_SetTimeDIV f _ = None"

fun as_SetOffset :: "(ControlSetOffset \<Rightarrow> ControlSetOffset) \<Rightarrow> ControlCommand \<Rightarrow> ControlCommand option" where
  "as_SetOffset f (CtlSetOffset c) = Some (CtlSetOffset (f c))"
| "as_SetOffset f _ = None"

definition modify_control ::
  "ControlIndex \<Rightarrow> (ControlCommand \<Rightarrow> ControlCommand option) \<Rightarrow> HantekDsoControl
     \<Rightarrow> HantekDsoControl option" where
  "modify_control idx f s = do {
     c \<leftarrow> control_arr s idx;
     c' \<leftarrow> f c;
     Some (s\<lparr>control_arr := (control_arr s)(idx \<mapsto> c')\<rparr>)
   }"

definition set_controlPending :: "ControlIndex \<Rightarrow> HantekDsoControl \<Rightarrow> HantekDsoControl" where
  "set_controlPending idx s = s\<lparr>controlPending := (controlPending s)(idx := True)\<rparr>"

text \<open>
  \<^verbatim>\<open>for (sampleId = 0; sampleId < sampleSteps.count() - 1; ++sampleId)
      if (sampleSteps[sampleId] == samplerate) break;\<close>
\<close>

fun setSamplerate_find :: "real list \<Rightarrow> real \<Rightarrow> nat \<Rightarrow> nat" where
  "setSamplerate_find [] samplerate sampleId = sampleId"
| "setSamplerate_find [x] samplerate sampleId = sampleId"
| "setSamplerate_find (x # y # xs) samplerate sampleId =
     (if x = samplerate then sampleId else setSamplerate_find (y # xs) samplerate (Suc sampleId))"

text \<open>
  \<^verbatim>\<open>setSamplerate(samplerate)\<close> (lines 1162 to 1218).
\<close>

definition setSamplerate :: "HantekDsoControl \<Rightarrow> real \<Rightarrow> (real \<times> HantekDsoControl) option" where
  "setSamplerate s samplerate =
    (if \<not> isConnected s then Some (0, s)
     else
       let (samplerate, s) =
         (if samplerate = 0 then (target_samplerate (settings s), s)
          else (samplerate, s\<lparr>settings := (settings s)\<lparr>target_samplerate := samplerate,
                                   target_samplerateSet := True\<rparr>\<rparr>))
       in if getUniqueModelID s \<noteq> MODEL_DSO6022BE then do {
            fastRate \<leftarrow> (if usedChannels (settings s) \<le> 1 then do {
                divider \<leftarrow> nth_opt (bufferDividers (dso_specification s))
                             (recordLengthId (settings s));
                Some (samplerate > max_rate (samplerate_single (dso_specification s))
                                     / ofUInt divider)
              } else Some False);
            (bestSamplerate, written) \<leftarrow> getBestSamplerate s samplerate fastRate False;
            let downsampler = (case written of None \<Rightarrow> 0 | Some d \<Rightarrow> d);
            (r, s1) \<leftarrow> updateSamplerate s downsampler fastRate;
            Some (if r = UINT_MAX then 0 else bestSamplerate, s1)
          }
          else do {
            let sampleId = setSamplerate_find (sampleSteps (dso_specification s)) samplerate 0;
            let s1 = s\<lparr>controlCode := (controlCode s)(CONTROLINDEX_SETTIMEDIV \<mapsto> CONTROL_SETTIMEDIV)\<rparr>;
            dv \<leftarrow> nth_opt (sampleDiv (dso_specification s1)) sampleId;
            s2 \<leftarrow> modify_control CONTROLINDEX_SETTIMEDIV (as_SetTimeDIV (\<lambda>c. dv)) s1;
            let s3 = set_controlPending CONTROLINDEX_SETTIMEDIV s2;
            let s4 = s3\<lparr>settings := (settings s3)\<lparr>samplerate_current := samplerate\<rparr>\<rparr>;
            recordLength \<leftarrow> nth_opt (recordLengths (current_limits s4)) (recordLengthId (settings s4));
            Some (samplerate, s4)
          })"

text \<open>
  \<^verbatim>\<open>updateSamplerateLimits\<close> only emits a signal; it reads
  \<^verbatim>\<open>bufferDividers[settings.recordLengthId]\<close> for it.
\<close>

definition updateSamplerateLimits :: "HantekDsoControl \<Rightarrow> HantekDsoControl option" where
  "updateSamplerateLimits s = do {
     divider \<leftarrow> nth_opt (bufferDividers (dso_specification s)) (recordLengthId (settings s));
     Some s
   }"

text \<open>
  \<^verbatim>\<open>setChannelUsed(channel, used)\<close> (lines 1297 to 1366).
\<close>

definition setChannelUsed ::
  "HantekDsoControl \<Rightarrow> nat \<Rightarrow> bool \<Rightarrow> (ErrorCode \<times> HantekDsoControl) option" where
  "setChannelUsed s channel used =
    (if \<not> isConnected s then Some (ERROR_CONNECTION, s)
     else if channel \<ge> HANTEK_CHANNELS then Some (ERROR_PARAMETER, s)
     else
       let s = s\<lparr>settings := (settings s)\<lparr>voltage :=
                 (voltage (settings s))(channel := (voltage (settings s) channel)\<lparr>voltage_used := used\<rparr>)\<rparr>\<rparr>;
           channelCount = length (filter (\<lambda>channelCounter. voltage_used (voltage (settings s) channelCounter))
                                    [0..<HANTEK_CHANNELS]);
           usedChannelsCode =
             (if voltage_used (voltage (settings s) 1) then
                (if voltage_used (voltage (settings s) 0) then USED_CH1CH2
                 else if bulk_setChannels (dso_specification s) = Some BULK_BSETCHANNELS
                      then BUSED_CH2 else USED_CH2)
              else USED_CH1)
       in do {
         s1 \<leftarrow> (case bulk_setChannels (dso_specification s) of
             Some BULK_SETTRIGGERANDSAMPLERATE \<Rightarrow> do {
               s1 \<leftarrow> modify_command BULK_SETTRIGGERANDSAMPLERATE
                 (as_SetTriggerAndSamplerate (\<lambda>c. c\<lparr>tas_usedChannels := usedChannelsCode\<rparr>)) s;
               Some (set_commandPending BULK_SETTRIGGERANDSAMPLERATE s1)
             }
           | Some BULK_BSETCHANNELS \<Rightarrow> do {
               s1 \<leftarrow> modify_command BULK_BSETCHANNELS
                 (as_SetChannels2250 (\<lambda>c. usedChannelsCode)) s;
               Some (set_commandPending BULK_BSETCHANNELS s1)
             }
           | Some BULK_ESETTRIGGERORSAMPLERATE \<Rightarrow> do {
               s1 \<leftarrow> modify_command BULK_ESETTRIGGERORSAMPLERATE
                 (as_SetTrigger5200 (\<lambda>c. c\<lparr>t5200_usedChannels := usedChannelsCode\<rparr>)) s;
               Some (set_commandPending BULK_ESETTRIGGERORSAMPLERATE s1)
             }
           | _ \<Rightarrow> Some s);
         let fastRateChanged = ((usedChannels (settings s1) \<le> 1) \<noteq> (channelCount \<le> 1));
         let s2 = s1\<lparr>settings := (settings s1)\<lparr>usedChannels := channelCount\<rparr>\<rparr>;
         s3 \<leftarrow> (if fastRateChanged then updateSamplerateLimits s2 else Some s2);
         Some (ERROR_NONE, s3)
       })"

text \<open>
  Modelled from the spec: the constructors of the encoders are declared outside this file;
  ``command encoders are allocated once per model at init''. A fresh encoder has every logical
  field zero.
\<close>

definition new_BulkSetTriggerAndSamplerate :: BulkSetTriggerAndSamplerate where
  "new_BulkSetTriggerAndSamplerate =
     \<lparr>tas_recordLength = 0, tas_usedChannels = USED_CH1, tas_triggerPosition = 0,
      tas_samplerateId = 0, tas_downsampler = 0, tas_downsamplingMode = False,
      tas_triggerSource = 0, tas_triggerSlope = SLOPE_POSITIVE, tas_fastRate = False\<rparr>"

definition new_BulkSetSamplerate5200 :: BulkSetSamplerate5200 where
  "new_BulkSetSamplerate5200 = \<lparr>s5200_samplerateFast = 0, s5200_samplerateSlow = 0\<rparr>"

definition new_BulkSetTrigger5200 :: BulkSetTrigger5200 where
  "new_BulkSetTrigger5200 =
     \<lparr>t5200_triggerSource = 0, t5200_usedChannels = USED_CH1, t5200_fastRate = False,
      t5200_triggerSlope = SLOPE_POSITIVE\<rparr>"

definition new_BulkSetBuffer5200 :: BulkSetBuffer5200 where
  "new_BulkSetBuffer5200 =
     \<lparr>b5200_triggerPositionPre = 0, b5200_triggerPositionPost = 0, b5200_usedPre = False,
      b5200_usedPost = False, b5200_recordLength = 0\<rparr>"

definition new_BulkSetSamplerate2250 :: BulkSetSamplerate2250 where
  "new_BulkSetSamplerate2250 =
     \<lparr>s2250_downsampling = False, s2250_samplerate = 0, s2250_fastRate = False\<rparr>"

definition new_BulkSetBuffer2250 :: BulkSetBuffer2250 where
  "new_BulkSetBuffer2250 = \<lparr>b2250_triggerPositionPre = 0, b2250_triggerPositionPost = 0\<rparr>"

definition new_ControlSetOffset :: ControlSetOffset where
  "new_ControlSetOffset = \<lparr>so_channel = (\<lambda>channel. 0), so_trigger = 0\<rparr>"

text \<open>
  The state the constructor (lines 50 to 436) leaves for a connected device of the given model
  whose calibration read succeeded: the encoders it instantiates, the pending flags, the
  default settings.
\<close>

definition constructor_commands :: "Model \<Rightarrow> BulkCode \<Rightarrow> BulkCommand option" where
  "constructor_commands m =
     (let common = [BULK_FORCETRIGGER \<mapsto> CmdForceTrigger [], BULK_STARTSAMPLING \<mapsto> CmdCaptureStart [],
                    BULK_ENABLETRIGGER \<mapsto> CmdTriggerEnabled [], BULK_GETDATA \<mapsto> CmdGetData [],
                    BULK_GETCAPTURESTATE \<mapsto> CmdGetCaptureState [], BULK_SETGAIN \<mapsto> CmdSetGain []]
      in case m of
        MODEL_DSO2150 \<Rightarrow> common(BULK_SETTRIGGERANDSAMPLERATE \<mapsto>
            CmdSetTriggerAndSamplerate new_BulkSetTriggerAndSamplerate)
      | MODEL_DSO2090 \<Rightarrow> common(BULK_SETTRIGGERANDSAMPLERATE \<mapsto>
            CmdSetTriggerAndSamplerate new_BulkSetTriggerAndSamplerate)
      | MODEL_DSO2250 \<Rightarrow> common(BULK_BSETCHANNELS \<mapsto> CmdSetChannels2250 USED_CH1,
            BULK_CSETTRIGGERORSAMPLERATE \<mapsto> CmdSetTrigger2250 [],
            BULK_DSETBUFFER \<mapsto> CmdSetRecordLength2250 [],
            BULK_ESETTRIGGERORSAMPLERATE \<mapsto> CmdSetSamplerate2250 new_BulkSetSamplerate2250,
            BULK_FSETBUFFER \<mapsto> CmdSetBuffer2250 new_BulkSetBuffer2250)
      | MODEL_DSO5200A \<Rightarrow> common(
            BULK_CSETTRIGGERORSAMPLERATE \<mapsto> CmdSetSamplerate5200 new_BulkSetSamplerate5200,
            BULK_DSETBUFFER \<mapsto> CmdSetBuffer5200 new_BulkSetBuffer5200,
            BULK_ESETTRIGGERORSAMPLERATE \<mapsto> CmdSetTrigger5200 new_BulkSetTrigger5200)
      | MODEL_DSO5200 \<Rightarrow> common(
            BULK_CSETTRIGGERORSAMPLERATE \<mapsto> CmdSetSamplerate5200 new_BulkSetSamplerate5200,
            BULK_DSETBUFFER \<mapsto> CmdSetBuffer5200 new_BulkSetBuffer5200,
            BULK_ESETTRIGGERORSAMPLERATE \<mapsto> CmdSetTrigger5200 new_BulkSetTrigger5200)
      | MODEL_DSO6022BE \<Rightarrow> common)"

definition constructor_commandPending :: "Model \<Rightarrow> BulkCode \<Rightarrow> bool" where
  "constructor_commandPending m code =
     (case m of
        MODEL_DSO2150 \<Rightarrow> code = BULK_SETTRIGGERANDSAMPLERATE
      | MODEL_DSO2090 \<Rightarrow> code = BULK_SETTRIGGERANDSAMPLERATE
      | MODEL_DSO2250 \<Rightarrow> code \<in> {BULK_BSETCHANNELS, BULK_CSETTRIGGERORSAMPLERATE,
            BULK_DSETBUFFER, BULK_ESETTRIGGERORSAMPLERATE, BULK_FSETBUFFER}
      | MODEL_DSO5200A \<Rightarrow> code \<in> {BULK_CSETTRIGGERORSAMPLERATE, BULK_DSETBUFFER,
            BULK_ESETTRIGGERORSAMPLERATE}
      | MODEL_DSO5200 \<Rightarrow> code \<in> {BULK_CSETTRIGGERORSAMPLERATE, BULK_DSETBUFFER,
            BULK_ESETTRIGGERORSAMPLERATE}
      | MODEL_DSO6022BE \<Rightarrow> False)"

definition constructor_control :: "Model \<Rightarrow> ControlIndex \<Rightarrow> ControlCommand option" where
  "constructor_control m =
     (let common = [CONTROLINDEX_SETOFFSET \<mapsto> CtlSetOffset new_ControlSetOffset,
                    CONTROLINDEX_SETRELAYS \<mapsto> CtlSetRelays []]
      in if m = MODEL_DSO6022BE
         then common(CONTROLINDEX_SETVOLTDIV_CH1 \<mapsto> CtlSetVoltDIV_CH1 0,
                CONTROLINDEX_SETVOLTDIV_CH2 \<mapsto> CtlSetVoltDIV_CH2 0,
                CONTROLINDEX_SETTIMEDIV \<mapsto> CtlSetTimeDIV 0,
                CONTROLINDEX_ACQUIIRE_HARD_DATA \<mapsto> CtlAcquireHardData [])
         else common)"

definition constructor_controlCode :: "Model \<Rightarrow> ControlIndex \<Rightarrow> ControlCode option" where
  "constructor_controlCode m =
     (let common = [CONTROLINDEX_SETOFFSET \<mapsto> CONTROL_SETOFFSET,
                    CONTROLINDEX_SETRELAYS \<mapsto> CONTROL_SETRELAYS]
      in if m = MODEL_DSO6022BE
         then common(CONTROLINDEX_SETVOLTDIV_CH1 \<mapsto> CONTROL_SETVOLTDIV_CH1,
                CONTROLINDEX_SETVOLTDIV_CH2 \<mapsto> CONTROL_SETVOLTDIV_CH2,
                CONTROLINDEX_SETTIMEDIV \<mapsto> CONTROL_SETTIMEDIV,
                CONTROLINDEX_ACQUIIRE_HARD_DATA \<mapsto> CONTROL_ACQUIIRE_HARD_DATA)
         else common)"

definition constructor_controlPending :: "Model \<Rightarrow> ControlIndex \<Rightarrow> bool" where
  "constructor_controlPending m idx =
     (if m = MODEL_DSO6022BE
      then idx \<noteq> CONTROLINDEX_SETOFFSET \<and> idx \<noteq> CONTROLINDEX_SETRELAYS
      else idx = CONTROLINDEX_SETOFFSET \<or> idx = CONTROLINDEX_SETRELAYS)"

definition constructor_settings :: ControlSettings where
  "constructor_settings =
     \<lparr>samplerate_limits = Single, samplerate_downsampler = 1, samplerate_current = 100000000,
      target_samplerate = 0, target_duration = 0, target_samplerateSet = False,
      recordLengthId = 1,
      voltage = (\<lambda>channel. \<lparr>voltage_gain = 0, voltage_offset = 0, voltage_offsetReal = 0,
                            voltage_used = False\<rparr>),
      trigger_level = (\<lambda>channel. 0), trigger_position = 0, trigger_point = 0,
      trigger_mode = TRIGGERMODE_NORMAL, trigger_slope = SLOPE_POSITIVE,
      trigger_special = False, trigger_source = 0, usedChannels = 0\<rparr>"

definition constructor ::
  "Model \<Rightarrow> int \<Rightarrow> (nat \<Rightarrow> nat \<Rightarrow> (8 word \<times> 8 word) \<times> (8 word \<times> 8 word)) \<Rightarrow> HantekDsoControl" where
  "constructor m packetSize calibration =
     \<lparr>isConnected = True, getUniqueModelID = m, getPacketSize = packetSize,
      dso_specification = specification_of m calibration,
      settings = constructor_settings,
      command_arr = constructor_commands m,
      commandPending = constructor_commandPending m,
      control_arr = constructor_control m,
      controlCode = constructor_controlCode m,
      controlPending = constructor_controlPending m,
      dso_result = \<lparr>result_data = (\<lambda>channel. []), result_samplerate = 0, result_append = False\<rparr>,
      previousSampleCount = 0\<rparr>"

subsection \<open>Double arithmetic\<close>

text \<open>
  A \<^verbatim>\<open>double\<close> is a number of the IEEE 754 binary64 format, and an arithmetic operation
  on doubles returns the exact result rounded to the nearest number of the format, a tie to the
  one with the even significand. \<open>round_even\<close> rounds a real to the nearest integer, a
  tie to the even one. \<open>double_exponent x\<close> is the exponent of the last bit of the
  53-bit significand of \<open>x\<close>: 52 below the exponent of \<open>x\<close>, and \<open>-1074\<close> for a
  subnormal \<open>x\<close>. \<open>double_round x\<close> is the nearest multiple of that power of two.
  The overflow to infinity is not modelled: no value of \<open>2 ^ 1024\<close> or more occurs in what
  is proved with it.
\<close>

definition round_even :: "real \<Rightarrow> int" where
  "round_even y = (let f = \<lfloor>y\<rfloor> in
       if y - of_int f < 1 / 2 then f
       else if 1 / 2 < y - of_int f then f + 1
       else if even f then f else f + 1)"

definition double_exponent :: "real \<Rightarrow> int" where
  "double_exponent x = max (\<lfloor>log 2 \<bar>x\<bar>\<rfloor> - 52) (- 1074)"

definition double_round :: "real \<Rightarrow> real" where
  "double_round x = (if x = 0 then 0
     else of_int (round_even (x / 2 powi double_exponent x)) * 2 powi double_exponent x)"


subsection \<open>setRecordTime\<close>

text \<open>
  \<^verbatim>\<open>setRecordTime\<close> and the functions it calls, in double arithmetic. The functions
  with the suffix \<open>fl\<close> are \<^verbatim>\<open>getBestSamplerate\<close>, \<^verbatim>\<open>setPretriggerPosition\<close>
  and \<^verbatim>\<open>updateSamplerate\<close> as defined above, with the rounding \<open>fl\<close> applied to the
  result of every division and multiplication of doubles, in the order in which the source
  evaluates them (\<open>a / b / c\<close> is \<open>fl (fl (a / b) / c)\<close>). The operations that are exact
  on doubles are not rounded: the conversion of an \<^verbatim>\<open>unsigned int\<close> to a double and
  back, \<^verbatim>\<open>ceil\<close>, \<^verbatim>\<open>floor\<close>, the division and the multiplication by 2 in the
  switch of the solver, and the comparisons. With the identity for \<open>fl\<close> the functions are
  the ones above (lemmas \<open>getBestSamplerate_fl_exact\<close> to \<open>updateSamplerate_fl_exact\<close>).
\<close>

definition getBestSamplerate_fl ::
  "(real \<Rightarrow> real) \<Rightarrow> HantekDsoControl \<Rightarrow> real \<Rightarrow> bool \<Rightarrow> bool \<Rightarrow> (real \<times> 32 word option) option" where
  "getBestSamplerate_fl fl s samplerate fastRate maximum =
    (if samplerate \<le> 0 then Some (0, None)
     else
       let lim = (if fastRate then samplerate_multi (dso_specification s)
                  else samplerate_single (dso_specification s))
       in do {
         divider \<leftarrow> nth_opt (bufferDividers (dso_specification s)) (recordLengthId (settings s));
         let bestDownsampler = fl (fl (base lim / ofUInt divider) / samplerate);
         if bestDownsampler < 1 \<and> (samplerate \<le> fl (max_rate lim / ofUInt divider) \<or> \<not> maximum)
         then do {
           d \<leftarrow> toUInt 0;
           Some (fl (max_rate lim / ofUInt divider), Some d)
         }
         else (case getBestSamplerate_switch (bulk_setSamplerate (dso_specification s))
                      maximum bestDownsampler of
             None \<Rightarrow> Some (0, None)
           | Some rounded \<Rightarrow>
               let bestDownsampler = (if rounded > ofUInt (maxDownsampler lim)
                                      then ofUInt (maxDownsampler lim) else rounded)
               in do {
                 d \<leftarrow> toUInt bestDownsampler;
                 Some (fl (fl (base lim / bestDownsampler) / ofUInt divider), Some d)
               })
       })"

definition setPretriggerPosition_fl ::
  "(real \<Rightarrow> real) \<Rightarrow> HantekDsoControl \<Rightarrow> real \<Rightarrow> HantekDsoControl option" where
  "setPretriggerPosition_fl fl s pos =
    (if \<not> isConnected s then Some s
     else do {
       positionSamples \<leftarrow> toUInt (fl (pos * samplerate_current (settings s)));
       recordLength \<leftarrow> nth_opt (recordLengths (current_limits s)) (recordLengthId (settings s));
       let rollMode = (recordLength = UINT_MAX);
       let positionSamples = (if samplerate_limits (settings s) = Multi
                              then positionSamples div 2 else positionSamples);
       s1 \<leftarrow> (case bulk_setPretrigger (dso_specification s) of
           Some BULK_SETTRIGGERANDSAMPLERATE \<Rightarrow> do {
             let position = (if rollMode then 1 else 0x7ffff - recordLength + positionSamples);
             s1 \<leftarrow> modify_command BULK_SETTRIGGERANDSAMPLERATE
               (as_SetTriggerAndSamplerate (\<lambda>c. c\<lparr>tas_triggerPosition := position\<rparr>)) s;
             Some (Some (set_commandPending BULK_SETTRIGGERANDSAMPLERATE s1))
           }
         | Some BULK_FSETBUFFER \<Rightarrow> do {
             let positionPre = 0x7ffff - recordLength + positionSamples;
             let positionPost = 0x7ffff - positionSamples;
             s1 \<leftarrow> modify_command BULK_FSETBUFFER
               (as_SetBuffer2250 (\<lambda>c. c\<lparr>b2250_triggerPositionPre := positionPre,
                                         b2250_triggerPositionPost := positionPost\<rparr>)) s;
             Some (Some (set_commandPending BULK_FSETBUFFER s1))
           }
         | Some BULK_ESETTRIGGERORSAMPLERATE \<Rightarrow> do {
             let positionPre = ucast (0xffff - recordLength + positionSamples);
             let positionPost = ucast (0xffff - positionSamples);
             s1 \<leftarrow> modify_command BULK_DSETBUFFER
               (as_SetBuffer5200 (\<lambda>c. c\<lparr>b5200_triggerPositionPre := positionPre,
                                         b5200_triggerPositionPost := positionPost\<rparr>)) s;
             Some (Some (set_commandPending BULK_DSETBUFFER s1))
           }
         | _ \<Rightarrow> Some None);
       Some (case s1 of
           None \<Rightarrow> s
         | Some s2 \<Rightarrow> s2\<lparr>settings := (settings s2)\<lparr>trigger_position := pos\<rparr>\<rparr>)
     })"

definition updateSamplerate_settings_fl ::
  "(real \<Rightarrow> real) \<Rightarrow> HantekDsoControl \<Rightarrow> 32 word \<Rightarrow> bool \<Rightarrow> (32 word \<times> HantekDsoControl) option" where
  "updateSamplerate_settings_fl fl s downsampler fastRate = do {
     let fastRateChanged = (fastRate \<noteq> (samplerate_limits (settings s) = Multi));
     let s1 = (if fastRateChanged
               then s\<lparr>settings := (settings s)\<lparr>samplerate_limits := (if fastRate then Multi else Single)\<rparr>\<rparr>
               else s);
     divider \<leftarrow> nth_opt (bufferDividers (dso_specification s1)) (recordLengthId (settings s1));
     let s2 = s1\<lparr>settings := (settings s1)\<lparr>samplerate_downsampler := downsampler,
                samplerate_current := (if downsampler \<noteq> 0
                            then fl (fl (base (current_limits s1) / ofUInt divider) / ofUInt downsampler)
                            else fl (max_rate (current_limits s1) / ofUInt divider))\<rparr>\<rparr>;
     s3 \<leftarrow> setPretriggerPosition_fl fl s2 (trigger_position (settings s2));
     recordLength \<leftarrow> nth_opt (recordLengths (current_limits s3)) (recordLengthId (settings s3));
     Some (downsampler, s3)
   }"

definition updateSamplerate_fl ::
  "(real \<Rightarrow> real) \<Rightarrow> HantekDsoControl \<Rightarrow> 32 word \<Rightarrow> bool \<Rightarrow> (32 word \<times> HantekDsoControl) option" where
  "updateSamplerate_fl fl s downsampler fastRate =
    (let lim = (if fastRate then samplerate_multi (dso_specification s)
                else samplerate_single (dso_specification s))
     in case bulk_setSamplerate (dso_specification s) of
       Some BULK_SETTRIGGERANDSAMPLERATE \<Rightarrow>
         (let (downsamplerValue, samplerateId, downsampling, downsampler) =
            (if downsampler \<le> 5 then
               (if downsampler = 0 \<and> base lim \<ge> max_rate lim
                then (0 :: 16 word, 1 :: 8 word, False, downsampler)
                else if downsampler \<le> 2 then (0, ucast downsampler, False, downsampler)
                else (0xffff, 3, False, 5))
             else
               (let downsampler = downsampler AND NOT 1
                in (ucast (0x10001 - drop_bit 1 downsampler), 0, True, downsampler)))
          in do {
            s1 \<leftarrow> modify_command BULK_SETTRIGGERANDSAMPLERATE
              (as_SetTriggerAndSamplerate (\<lambda>c. c\<lparr>tas_downsamplingMode := downsampling,
                  tas_samplerateId := samplerateId, tas_downsampler := downsamplerValue,
                  tas_fastRate := False\<rparr>)) s;
            updateSamplerate_settings_fl fl (set_commandPending BULK_SETTRIGGERANDSAMPLERATE s1)
              downsampler fastRate
          })
     | Some BULK_CSETTRIGGERORSAMPLERATE \<Rightarrow>
         (let valueSlow = max (c_div (uint downsampler - 3) 2) 0;
              valueFast = (word_of_int (uint downsampler - valueSlow * 2) :: 8 word)
          in do {
            s1 \<leftarrow> modify_command BULK_CSETTRIGGERORSAMPLERATE
              (as_SetSamplerate5200 (\<lambda>c. c\<lparr>s5200_samplerateFast := 4 - uint valueFast,
                  s5200_samplerateSlow := (if valueSlow = 0 then 0 else 0xffff - valueSlow)\<rparr>)) s;
            s2 \<leftarrow> modify_command BULK_ESETTRIGGERORSAMPLERATE
              (as_SetTrigger5200 (\<lambda>c. c\<lparr>t5200_fastRate := fastRate\<rparr>)) s1;
            updateSamplerate_settings_fl fl
              (set_commandPending BULK_ESETTRIGGERORSAMPLERATE
                (set_commandPending BULK_CSETTRIGGERORSAMPLERATE s2))
              downsampler fastRate
          })
     | Some BULK_ESETTRIGGERORSAMPLERATE \<Rightarrow>
         (let downsampling = (downsampler \<ge> 1)
          in do {
            s1 \<leftarrow> modify_command BULK_ESETTRIGGERORSAMPLERATE
              (as_SetSamplerate2250 (\<lambda>c. c\<lparr>s2250_downsampling := downsampling,
                  s2250_samplerate := (if downsampler > 1 then 0x10001 - downsampler else 0),
                  s2250_fastRate := fastRate\<rparr>)) s;
            updateSamplerate_settings_fl fl (set_commandPending BULK_ESETTRIGGERORSAMPLERATE s1)
              downsampler fastRate
          })
     | _ \<Rightarrow> Some (UINT_MAX, s))"

text \<open>
  \<^verbatim>\<open>for (sampleId = 0; sampleId < sampleSteps.count(); ++sampleId)
      if (sampleSteps[sampleId] * duration < (sampleCount - sampleMargin))
          bestId = sampleId;\<close>
\<close>

fun setRecordTime_find :: "(real \<Rightarrow> real) \<Rightarrow> real list \<Rightarrow> real \<Rightarrow> nat \<Rightarrow> nat \<Rightarrow> nat" where
  "setRecordTime_find fl [] duration sampleId bestId = bestId"
| "setRecordTime_find fl (x # xs) duration sampleId bestId =
     setRecordTime_find fl xs duration (Suc sampleId)
       (if fl (x * duration) < ofUInt (10240 - 2000) then sampleId else bestId)"

text \<open>
  \<^verbatim>\<open>setRecordTime(duration)\<close> (lines 1224 to 1291), with the rounding \<open>fl\<close> of the
  double arithmetic as a parameter.
\<close>

definition setRecordTime ::
  "(real \<Rightarrow> real) \<Rightarrow> HantekDsoControl \<Rightarrow> real \<Rightarrow> (real \<times> HantekDsoControl) option" where
  "setRecordTime fl s duration =
    (if \<not> isConnected s then Some (0, s)
     else
       let (duration, s) =
         (if duration = 0 then (target_duration (settings s), s)
          else (duration, s\<lparr>settings := (settings s)\<lparr>target_duration := duration,
                                 target_samplerateSet := False\<rparr>\<rparr>))
       in if getUniqueModelID s \<noteq> MODEL_DSO6022BE then do {
            recordLength \<leftarrow> nth_opt (recordLengths (samplerate_single (dso_specification s)))
                               (recordLengthId (settings s));
            let maxSamplerate = fl (ofUInt recordLength / duration);
            fastRate \<leftarrow> (if usedChannels (settings s) \<le> 1 then do {
                divider \<leftarrow> nth_opt (bufferDividers (dso_specification s))
                             (recordLengthId (settings s));
                Some (maxSamplerate \<ge> fl (base (samplerate_multi (dso_specification s))
                                            / ofUInt divider))
              } else Some False);
            (bestSamplerate, written) \<leftarrow> getBestSamplerate_fl fl s maxSamplerate fastRate True;
            let downsampler = (case written of None \<Rightarrow> 0 | Some d \<Rightarrow> d);
            (r, s1) \<leftarrow> updateSamplerate_fl fl s downsampler fastRate;
            if r = UINT_MAX then Some (0, s1)
            else do {
              recordLength \<leftarrow> nth_opt (recordLengths (current_limits s1))
                                 (recordLengthId (settings s1));
              Some (fl (ofUInt recordLength / bestSamplerate), s1)
            }
          }
          else do {
            let sampleId = setRecordTime_find fl (sampleSteps (dso_specification s)) duration 0 0;
            let s1 = s\<lparr>controlCode := (controlCode s)(CONTROLINDEX_SETTIMEDIV \<mapsto> CONTROL_SETTIMEDIV)\<rparr>;
            dv \<leftarrow> nth_opt (sampleDiv (dso_specification s1)) sampleId;
            s2 \<leftarrow> modify_control CONTROLINDEX_SETTIMEDIV (as_SetTimeDIV (\<lambda>c. dv)) s1;
            let s3 = set_controlPending CONTROLINDEX_SETTIMEDIV s2;
            rate \<leftarrow> nth_opt (sampleSteps (dso_specification s3)) sampleId;
            let s4 = s3\<lparr>settings := (settings s3)\<lparr>samplerate_current := rate\<rparr>\<rparr>;
            Some (rate, s4)
          })"



subsection \<open>setTriggerLevel and setOffset\<close>

text \<open>Conversion of a double to an integer type: truncation; undefined out of range.\<close>

definition trunc :: "real \<Rightarrow> int" where
  "trunc x = (if 0 \<le> x then \<lfloor>x\<rfloor> else \<lceil>x\<rceil>)"

definition toUShort :: "real \<Rightarrow> 16 word option" where
  "toUShort x = (if -1 < x \<and> x < 65536 then Some (word_of_int (trunc x)) else None)"

definition toLong :: "real \<Rightarrow> int option" where
  "toLong x = (if - 9223372036854775809 < x \<and> x < 9223372036854775808 then Some (trunc x) else None)"

definition qBound :: "int \<Rightarrow> int \<Rightarrow> int \<Rightarrow> int" where
  "qBound lo v hi = max lo (min hi v)"

text \<open>The two bytes of a calibration entry, read as a big-endian 16-bit value.\<close>

definition bigEndian :: "8 word \<times> 8 word \<Rightarrow> int" where
  "bigEndian b = (uint (fst b) * 256 + uint (snd b)) mod 65536"

definition offsetLimits :: "HantekDsoControl \<Rightarrow> nat \<Rightarrow> (int \<times> int) option" where
  "offsetLimits s channel =
     (let gainId = voltage_gain (voltage (settings s) channel)
      in if gainId < 9
         then Some (bigEndian (fst (offsetLimit (dso_specification s) channel gainId)),
                    bigEndian (snd (offsetLimit (dso_specification s) channel gainId)))
         else None)"

text \<open>The block \<^verbatim>\<open>// Calculate the trigger level value\<close> of \<^verbatim>\<open>setTriggerLevel\<close>.\<close>

definition setTriggerLevel_value ::
  "HantekDsoControl \<Rightarrow> nat \<Rightarrow> real \<Rightarrow> (int \<times> int \<times> real \<times> 16 word) option" where
  "setTriggerLevel_value s channel level = do {
     (minimum, maximum) \<leftarrow>
       (if getUniqueModelID s = MODEL_DSO5200 \<or> getUniqueModelID s = MODEL_DSO5200A
        then offsetLimits s channel else Some (0x00, 0xfd));
     gainStep \<leftarrow> nth_opt (gainSteps (dso_specification s))
                  (voltage_gain (voltage (settings s) channel));
     scaled \<leftarrow> toLong ((voltage_offsetReal (voltage (settings s) channel) + level / gainStep)
                        * of_int (maximum - minimum) + 0.5);
     Some (minimum, maximum, gainStep, word_of_int (qBound minimum (scaled + minimum) maximum))
   }"

text \<open>The block \<^verbatim>\<open>// Check if the set channel is the trigger source\<close>.\<close>

definition setTriggerLevel_write ::
  "HantekDsoControl \<Rightarrow> nat \<Rightarrow> 16 word \<Rightarrow> HantekDsoControl option" where
  "setTriggerLevel_write s channel levelValue =
     (if \<not> trigger_special (settings s) \<and> channel = trigger_source (settings s)
         \<and> getUniqueModelID s \<noteq> MODEL_DSO6022BE
      then do {
        s1 \<leftarrow> modify_control CONTROLINDEX_SETOFFSET
                (as_SetOffset (\<lambda>c. c\<lparr>so_trigger := levelValue\<rparr>)) s;
        Some (set_controlPending CONTROLINDEX_SETOFFSET s1)
      }
      else Some s)"

text \<open>
  \<^verbatim>\<open>setTriggerLevel(channel, level)\<close> (lines 1577 to 1651). The returned value is computed with
  an integer division, before the conversion to double.
\<close>

definition setTriggerLevel ::
  "HantekDsoControl \<Rightarrow> nat \<Rightarrow> real \<Rightarrow> ((ErrorCode + real) \<times> HantekDsoControl) option" where
  "setTriggerLevel s channel level =
    (if \<not> isConnected s then Some (Inl ERROR_CONNECTION, s)
     else if channel \<ge> HANTEK_CHANNELS then Some (Inl ERROR_PARAMETER, s)
     else do {
       (minimum, maximum, gainStep, levelValue) \<leftarrow> setTriggerLevel_value s channel level;
       s1 \<leftarrow> setTriggerLevel_write s channel levelValue;
       let s2 = s1\<lparr>settings := (settings s1)\<lparr>trigger_level :=
                   (trigger_level (settings s1))(channel := level)\<rparr>\<rparr>;
       if maximum - minimum = 0 then None
       else Some (Inr ((of_int (c_div (uint levelValue - minimum) (maximum - minimum))
                         - voltage_offsetReal (voltage (settings s2) channel)) * gainStep), s2)
     })"

text \<open>The block \<^verbatim>\<open>// Calculate the offset value\<close> of \<^verbatim>\<open>setOffset\<close>.\<close>

definition setOffset_value ::
  "HantekDsoControl \<Rightarrow> nat \<Rightarrow> real \<Rightarrow> (16 word \<times> real) option" where
  "setOffset_value s channel offset = do {
     (minimum, maximum) \<leftarrow> offsetLimits s channel;
     offsetValue \<leftarrow> toUShort (offset * of_int (maximum - minimum) + of_int minimum + 0.5);
     Some (offsetValue, of_int (uint offsetValue - minimum) / of_int (maximum - minimum))
   }"

definition setOffset_write ::
  "HantekDsoControl \<Rightarrow> nat \<Rightarrow> 16 word \<Rightarrow> HantekDsoControl option" where
  "setOffset_write s channel offsetValue =
     (if getUniqueModelID s \<noteq> MODEL_DSO6022BE
      then do {
        s1 \<leftarrow> modify_control CONTROLINDEX_SETOFFSET
                (as_SetOffset (\<lambda>c. c\<lparr>so_channel := (so_channel c)(channel := offsetValue)\<rparr>)) s;
        Some (set_controlPending CONTROLINDEX_SETOFFSET s1)
      }
      else Some s)"

text \<open>
  \<^verbatim>\<open>setOffset(channel, offset)\<close> (lines 1448 to 1495).
\<close>

definition setOffset ::
  "HantekDsoControl \<Rightarrow> nat \<Rightarrow> real \<Rightarrow> ((ErrorCode + real) \<times> HantekDsoControl) option" where
  "setOffset s channel offset =
    (if \<not> isConnected s then Some (Inl ERROR_CONNECTION, s)
     else if channel \<ge> HANTEK_CHANNELS then Some (Inl ERROR_PARAMETER, s)
     else do {
       (offsetValue, offsetReal) \<leftarrow> setOffset_value s channel offset;
       s1 \<leftarrow> setOffset_write s channel offsetValue;
       let s2 = s1\<lparr>settings := (settings s1)\<lparr>voltage := (voltage (settings s1))(channel :=
                   (voltage (settings s1) channel)\<lparr>voltage_offset := offset,
                                                      voltage_offsetReal := offsetReal\<rparr>)\<rparr>\<rparr>;
       (r, s3) \<leftarrow> setTriggerLevel s2 channel (trigger_level (settings s2) channel);
       Some (Inr offsetReal, s3)
     })"

subsection \<open>stringCommand\<close>

text \<open>\<^verbatim>\<open>QString::split(' ', QString::SkipEmptyParts)\<close>\<close>

fun split_SkipEmptyParts :: "char \<Rightarrow> string \<Rightarrow> string \<Rightarrow> string list" where
  "split_SkipEmptyParts sep part [] = (if part = [] then [] else [part])"
| "split_SkipEmptyParts sep part (c # cs) =
     (if c = sep then (if part = [] then [] else [part]) @ split_SkipEmptyParts sep [] cs
      else split_SkipEmptyParts sep (part @ [c]) cs)"

text \<open>
  Modelled from the spec: what \<^verbatim>\<open>stringCommand\<close> uses and this file does not define.
  The numeric values of the opcode enumerations and \<^verbatim>\<open>BULK_COUNT\<close>,
  \<^verbatim>\<open>QString::section\<close> (a text; only passed on to the hex parser), and the helper
  \<^verbatim>\<open>hexParse\<close>, which ``writes hex into the named encoder's buffer'': on one byte, on the
  buffer of a bulk encoder and on the buffer of a control encoder. They are parameters of the
  model; nothing is assumed about them.
\<close>

record Externals =
  BULK_COUNT :: nat
  bulkCodeValue :: "BulkCode \<Rightarrow> nat"
  controlCodeValue :: "ControlCode \<Rightarrow> int"
  section_SkipEmpty :: "string \<Rightarrow> nat \<Rightarrow> string"
  hexParse_byte :: "string \<Rightarrow> 8 word \<Rightarrow> 8 word"
  hexParse_bulk :: "string \<Rightarrow> BulkCommand \<Rightarrow> BulkCommand"
  hexParse_control :: "string \<Rightarrow> ControlCommand \<Rightarrow> ControlCommand"

definition all_BulkCodes :: "BulkCode list" where
  "all_BulkCodes = [BULK_FORCETRIGGER, BULK_STARTSAMPLING, BULK_ENABLETRIGGER, BULK_GETDATA,
     BULK_GETCAPTURESTATE, BULK_SETGAIN, BULK_SETTRIGGERANDSAMPLERATE, BULK_BSETCHANNELS,
     BULK_CSETTRIGGERORSAMPLERATE, BULK_DSETBUFFER, BULK_ESETTRIGGERORSAMPLERATE,
     BULK_FSETBUFFER]"

definition all_ControlIndices :: "ControlIndex list" where
  "all_ControlIndices = [CONTROLINDEX_SETOFFSET, CONTROLINDEX_SETRELAYS,
     CONTROLINDEX_SETVOLTDIV_CH1, CONTROLINDEX_SETVOLTDIV_CH2, CONTROLINDEX_SETTIMEDIV,
     CONTROLINDEX_ACQUIIRE_HARD_DATA]"

text \<open>
  \<^verbatim>\<open>this->command[commandCode]\<close> for a numeric code below \<^verbatim>\<open>BULK_COUNT\<close>: the slot of
  the opcode with that value; a value that no opcode of the model has is a slot that was never
  instantiated (a null pointer).
\<close>

definition command_at :: "Externals \<Rightarrow> HantekDsoControl \<Rightarrow> nat \<Rightarrow> (BulkCode \<times> BulkCommand) option" where
  "command_at ext s n =
     (case find (\<lambda>code. bulkCodeValue ext code = n) all_BulkCodes of
        None \<Rightarrow> None
      | Some code \<Rightarrow> map_option (Pair code) (command_arr s code))"

text \<open>
  \<^verbatim>\<open>for (control = 0; control < CONTROLINDEX_COUNT; ++control)
      if (this->controlCode[control] == controlCode) break;\<close>
  Reading an entry of \<^verbatim>\<open>controlCode\<close> that was never assigned is undefined.
\<close>

fun stringCommand_find ::
  "Externals \<Rightarrow> HantekDsoControl \<Rightarrow> 8 word \<Rightarrow> ControlIndex list \<Rightarrow> ControlIndex option option" where
  "stringCommand_find ext s code [] = Some None"
| "stringCommand_find ext s code (idx # rest) =
     (case controlCode s idx of
        None \<Rightarrow> None
      | Some c \<Rightarrow> if controlCodeValue ext c = uint code then Some (Some idx)
                  else stringCommand_find ext s code rest)"

text \<open>
  \<^verbatim>\<open>stringCommand(command)\<close> (lines 1769 to 1822). \<^verbatim>\<open>commandParts[2]\<close> on a list
  of two words is an index out of range; \<^verbatim>\<open>command[BULK_COUNT]\<close> is an element after
  the end of the array.
\<close>

definition stringCommand ::
  "Externals \<Rightarrow> HantekDsoControl \<Rightarrow> string \<Rightarrow> (ErrorCode \<times> HantekDsoControl) option" where
  "stringCommand ext s cmd =
    (if \<not> isConnected s then Some (ERROR_CONNECTION, s)
     else
       let commandParts = split_SkipEmptyParts CHR '' '' [] cmd
       in if length commandParts \<ge> 1 then
            (if commandParts ! 0 = ''send'' then
               (if length commandParts \<ge> 2 then
                  (if commandParts ! 1 = ''bulk'' then do {
                     let data = section_SkipEmpty ext cmd 2;
                     part \<leftarrow> nth_opt commandParts 2;
                     let commandCode = hexParse_byte ext part 0;
                     if unat commandCode > BULK_COUNT ext then Some (ERROR_UNSUPPORTED, s)
                     else if unat commandCode = BULK_COUNT ext then None
                     else do {
                       (code, c) \<leftarrow> command_at ext s (unat commandCode);
                       Some (ERROR_NONE,
                         s\<lparr>command_arr := (command_arr s)(code \<mapsto> hexParse_bulk ext data c),
                           commandPending := (commandPending s)(code := True)\<rparr>)
                     }
                   }
                   else if commandParts ! 1 = ''control'' then do {
                     part \<leftarrow> nth_opt commandParts 2;
                     let controlCode = hexParse_byte ext part 0;
                     found \<leftarrow> stringCommand_find ext s controlCode all_ControlIndices;
                     (case found of
                        None \<Rightarrow> Some (ERROR_UNSUPPORTED, s)
                      | Some idx \<Rightarrow> do {
                          let data = section_SkipEmpty ext cmd 3;
                          c \<leftarrow> control_arr s idx;
                          Some (ERROR_NONE,
                            s\<lparr>control_arr := (control_arr s)(idx \<mapsto> hexParse_control ext data c),
                              controlPending := (controlPending s)(idx := True)\<rparr>)
                        })
                   }
                   else Some (ERROR_UNSUPPORTED, s))
                else Some (ERROR_PARAMETER, s))
             else Some (ERROR_UNSUPPORTED, s))
          else Some (ERROR_PARAMETER, s))"

subsection \<open>getSamples\<close>

definition LIBUSB_SUCCESS :: int where
  "LIBUSB_SUCCESS = 0"

definition LIBUSB_ERROR_INVALID_PARAM :: int where
  "LIBUSB_ERROR_INVALID_PARAM = - 2"

text \<open>
  What \<^verbatim>\<open>bulkReadMulti\<close> of the transport did: it failed with the negative error code
  \<open>- (n + 1)\<close>, or it stored the received bytes at the start of the buffer and returned
  their number.
\<close>

datatype BulkRead = ReadFailed nat | Received "8 word list"

text \<open>
  \<^verbatim>\<open>getSampleCount(&fastRate)\<close> (lines 887 to 905).
\<close>

definition getSampleCount :: "HantekDsoControl \<Rightarrow> (32 word \<times> bool) option" where
  "getSampleCount s = do {
     totalSampleCount \<leftarrow> nth_opt (recordLengths (current_limits s)) (recordLengthId (settings s));
     let fastRateEnabled = (samplerate_limits (settings s) = Multi);
     Some (if totalSampleCount = UINT_MAX
           then (if getPacketSize s < 0 then UINT_MAX else word_of_int (getPacketSize s))
           else if \<not> fastRateEnabled then totalSampleCount * 2
           else totalSampleCount,
           fastRateEnabled)
   }"

text \<open>\<^verbatim>\<open>std::vector::resize\<close>: new elements are zero.\<close>

definition resize :: "nat \<Rightarrow> real list \<Rightarrow> real list" where
  "resize n xs = take n xs @ replicate (n - length xs) 0"

text \<open>
  The conversion loops all have the form
  \<^verbatim>\<open>for (realPosition = 0; realPosition < sampleCount; ++realPosition, bufferPosition += step) {
      if (bufferPosition >= modulus) bufferPosition %= modulus;
      result.data[channel][realPosition] = sample(bufferPosition);
  }\<close>
  The first argument counts the rounds that are left.
\<close>

fun convert_loop ::
  "nat \<Rightarrow> (32 word \<Rightarrow> real option) \<Rightarrow> 32 word \<Rightarrow> 32 word \<Rightarrow> nat \<Rightarrow> 32 word \<Rightarrow> real list
     \<Rightarrow> real list option" where
  "convert_loop 0 sample modulus step realPosition bufferPosition out = Some out"
| "convert_loop (Suc n) sample modulus step realPosition bufferPosition out =
     (if bufferPosition \<ge> modulus \<and> modulus = 0 then None
      else
        let bufferPosition = (if bufferPosition \<ge> modulus then bufferPosition mod modulus
                              else bufferPosition)
        in do {
          x \<leftarrow> sample bufferPosition;
          if realPosition < length out
          then convert_loop n sample modulus step (Suc realPosition) (bufferPosition + step)
                 (out[realPosition := x])
          else None
        })"

text \<open>Left shift of a non-negative \<^verbatim>\<open>int\<close>: undefined when the result does not fit.\<close>

definition shl_int :: "int \<Rightarrow> 32 word \<Rightarrow> int option" where
  "shl_int x k = (if unat k < 32 \<and> x * 2 ^ unat k < 2147483648 then Some (x * 2 ^ unat k) else None)"

definition extraBitsMask :: "32 word \<Rightarrow> int option" where
  "extraBitsMask extraBitsSize = do {
     m \<leftarrow> shl_int 0x00ff extraBitsSize;
     Some ((m AND 0xff00) mod 65536)
   }"

text \<open>\<^verbatim>\<open>(raw / voltageLimit[channel][gain] - offsetReal) * gainSteps[gain]\<close>\<close>

definition normalise :: "HantekDsoControl \<Rightarrow> nat \<Rightarrow> bool \<Rightarrow> int \<Rightarrow> real option" where
  "normalise s channel withOffset raw = do {
     limit \<leftarrow> nth_opt (voltageLimit (dso_specification s) channel)
                (voltage_gain (voltage (settings s) channel));
     gainStep \<leftarrow> nth_opt (gainSteps (dso_specification s))
                   (voltage_gain (voltage (settings s) channel));
     Some ((of_int raw / of_int (uint limit)
              - (if withOffset then voltage_offsetReal (voltage (settings s) channel) else 0))
           * gainStep)
   }"

text \<open>
  The right-hand sides of the four assignments
  \<^verbatim>\<open>result.data[channel][realPosition] = ...\<close>: fast rate and normal mode, sample size
  above 8 bits and 8 bits. \<open>buf\<close> is the vector \<^verbatim>\<open>data\<close>.
\<close>

definition sample_fast10 ::
  "HantekDsoControl \<Rightarrow> 8 word list \<Rightarrow> nat \<Rightarrow> 32 word \<Rightarrow> 32 word \<Rightarrow> real option" where
  "sample_fast10 s buf channel sampleCount bufferPosition = do {
     let extraBitsSize = (of_nat (sampleSize (dso_specification s)) - 8 :: 32 word);
     mask \<leftarrow> extraBitsMask extraBitsSize;
     let extraBitsPosition = bufferPosition mod of_nat HANTEK_CHANNELS;
     low \<leftarrow> nth_opt buf (unat bufferPosition);
     high \<leftarrow> nth_opt buf (unat (sampleCount + bufferPosition - extraBitsPosition));
     shifted \<leftarrow> shl_int (uint high)
                  (8 - (of_nat HANTEK_CHANNELS - 1 - extraBitsPosition) * extraBitsSize);
     normalise s channel True (uint low + (shifted AND mask))
   }"

definition sample_fast8 ::
  "HantekDsoControl \<Rightarrow> 8 word list \<Rightarrow> nat \<Rightarrow> 32 word \<Rightarrow> real option" where
  "sample_fast8 s buf channel bufferPosition = do {
     low \<leftarrow> nth_opt buf (unat bufferPosition);
     normalise s channel True (uint low)
   }"

definition sample_normal10 ::
  "HantekDsoControl \<Rightarrow> 8 word list \<Rightarrow> nat \<Rightarrow> 32 word \<Rightarrow> 32 word \<Rightarrow> real option" where
  "sample_normal10 s buf channel totalSampleCount bufferPosition = do {
     let extraBitsSize = (of_nat (sampleSize (dso_specification s)) - 8 :: 32 word);
     mask \<leftarrow> extraBitsMask extraBitsSize;
     let extraBitsIndex = (8 - of_nat channel * 2 :: 32 word);
     low \<leftarrow> nth_opt buf (unat (bufferPosition + of_nat HANTEK_CHANNELS - 1 - of_nat channel));
     high \<leftarrow> nth_opt buf (unat (totalSampleCount + bufferPosition));
     shifted \<leftarrow> shl_int (uint high) extraBitsIndex;
     normalise s channel True (uint low + (shifted AND mask))
   }"

definition sample_normal8 ::
  "HantekDsoControl \<Rightarrow> 8 word list \<Rightarrow> nat \<Rightarrow> 32 word \<Rightarrow> real option" where
  "sample_normal8 s buf channel bufferPosition = do {
     low \<leftarrow> nth_opt buf (unat bufferPosition);
     if getUniqueModelID s = MODEL_DSO6022BE
     then normalise s channel False (uint low - 0x83)
     else normalise s channel True (uint low)
   }"

definition DROP_DSO6022_HEAD :: "32 word" where
  "DROP_DSO6022_HEAD = 0x410"

definition DROP_DSO6022_TAIL :: "32 word" where
  "DROP_DSO6022_TAIL = 0x3F0"

text \<open>The fast rate branch of the conversion: one channel uses the whole buffer.\<close>

definition convert_fastRate ::
  "HantekDsoControl \<Rightarrow> 8 word list \<Rightarrow> 32 word \<Rightarrow> (nat \<Rightarrow> real list) option" where
  "convert_fastRate s buf totalSampleCount =
     (let sampleCount = totalSampleCount;
          channel = (if voltage_used (voltage (settings s) 0) then 0
                     else if voltage_used (voltage (settings s) 1) then 1 else HANTEK_CHANNELS);
          cleared = (\<lambda>channelCounter. if channelCounter \<noteq> channel \<and> channelCounter < HANTEK_CHANNELS
                       then [] else result_data (dso_result s) channelCounter)
      in if channel < HANTEK_CHANNELS then do {
           out \<leftarrow> convert_loop (unat sampleCount)
                    (if sampleSize (dso_specification s) > 8
                     then sample_fast10 s buf channel sampleCount
                     else sample_fast8 s buf channel)
                    sampleCount 1 0 (trigger_point (settings s) * 2)
                    (resize (unat sampleCount) (cleared channel));
           Some (cleared(channel := out))
         }
         else Some cleared)"

text \<open>The sample count of the normal branch.\<close>

definition normal_sampleCount :: "HantekDsoControl \<Rightarrow> 32 word \<Rightarrow> 32 word" where
  "normal_sampleCount s totalSampleCount =
     (let sampleCount = totalSampleCount div of_nat HANTEK_CHANNELS
      in if getUniqueModelID s = MODEL_DSO6022BE
         then sampleCount - (DROP_DSO6022_HEAD + DROP_DSO6022_TAIL) else sampleCount)"

text \<open>One round of \<^verbatim>\<open>for (int channel = 0; channel < HANTEK_CHANNELS; ++channel)\<close>.\<close>

definition convert_channel ::
  "HantekDsoControl \<Rightarrow> 8 word list \<Rightarrow> 32 word \<Rightarrow> nat \<Rightarrow> real list \<Rightarrow> real list option" where
  "convert_channel s buf totalSampleCount channel old =
     (let sampleCount = normal_sampleCount s totalSampleCount
      in if voltage_used (voltage (settings s) channel) then
           (let out = (if length old < unat sampleCount then resize (unat sampleCount) old else old);
                bufferPosition = trigger_point (settings s) * 2
            in if sampleSize (dso_specification s) > 8
               then convert_loop (unat sampleCount)
                      (sample_normal10 s buf channel totalSampleCount)
                      totalSampleCount (of_nat HANTEK_CHANNELS) 0 bufferPosition out
               else convert_loop (unat sampleCount) (sample_normal8 s buf channel)
                      totalSampleCount (of_nat HANTEK_CHANNELS) 0
                      (if getUniqueModelID s = MODEL_DSO6022BE
                       then bufferPosition + of_nat channel + DROP_DSO6022_HEAD * 2
                       else bufferPosition + of_nat HANTEK_CHANNELS - 1 - of_nat channel)
                      out)
         else Some [])"

definition convert_normal ::
  "HantekDsoControl \<Rightarrow> 8 word list \<Rightarrow> 32 word \<Rightarrow> (nat \<Rightarrow> real list) option" where
  "convert_normal s buf totalSampleCount = do {
     out0 \<leftarrow> convert_channel s buf totalSampleCount 0 (result_data (dso_result s) 0);
     out1 \<leftarrow> convert_channel s buf totalSampleCount 1 (result_data (dso_result s) 1);
     Some ((result_data (dso_result s))(0 := out0, 1 := out1))
   }"

text \<open>
  \<^verbatim>\<open>getSamples(process)\<close> (lines 535 to 775). \<open>getData\<close> is what
  \<^verbatim>\<open>bulkCommand(command[BULK_GETDATA], 1)\<close> returned and \<open>bulkRead\<close> what
  \<^verbatim>\<open>bulkReadMulti(data.data(), dataLength)\<close> did; the vector \<^verbatim>\<open>data\<close> of
  \<^verbatim>\<open>dataLength\<close> zero bytes holds the received bytes at its start.
\<close>

definition getSamples ::
  "HantekDsoControl \<Rightarrow> bool \<Rightarrow> int \<Rightarrow> BulkRead \<Rightarrow> (int \<times> HantekDsoControl) option" where
  "getSamples s process getData bulkRead =
    (if getUniqueModelID s \<noteq> MODEL_DSO6022BE \<and> getData < 0 then Some (getData, s)
     else do {
       (totalSampleCount, fastRate) \<leftarrow> getSampleCount s;
       if totalSampleCount = UINT_MAX then Some (LIBUSB_ERROR_INVALID_PARAM, s)
       else
         let (totalSampleCount, s) =
               (if totalSampleCount < previousSampleCount s
                then (previousSampleCount s, s\<lparr>previousSampleCount := totalSampleCount\<rparr>)
                else (totalSampleCount, s\<lparr>previousSampleCount := totalSampleCount\<rparr>));
             dataLength = (if sampleSize (dso_specification s) > 8
                           then totalSampleCount * 2 else totalSampleCount)
         in case bulkRead of
              ReadFailed n \<Rightarrow> Some (- int n - 1, s)
            | Received bytes \<Rightarrow>
                (let received = take (unat dataLength) bytes;
                     buf = received @ replicate (unat dataLength - length received) 0;
                     errorCode = int (length received)
                 in if \<not> process then Some (LIBUSB_SUCCESS, s)
                    else
                      let dataLength = (word_of_int errorCode :: 32 word);
                          totalSampleCount = (if sampleSize (dso_specification s) > 8
                                              then dataLength div 2 else dataLength)
                      in do {
                        recordLength \<leftarrow> nth_opt (recordLengths (current_limits s))
                                           (recordLengthId (settings s));
                        converted \<leftarrow> (if fastRate then convert_fastRate s buf totalSampleCount
                                      else convert_normal s buf totalSampleCount);
                        Some (errorCode,
                          s\<lparr>dso_result := \<lparr>result_data = converted,
                               result_samplerate = samplerate_current (settings s),
                               result_append = (recordLength = UINT_MAX)\<rparr>\<rparr>)
                      })
     })"

definition getLastSamples :: "HantekDsoControl \<Rightarrow> DSOsamples" where
  "getLastSamples s = dso_result s"

text \<open>
  The value of \<^verbatim>\<open>sampleCount\<close> in the normal branch after a read that returned
  \<open>errorCode\<close> bytes.
\<close>

definition received_sampleCount :: "HantekDsoControl \<Rightarrow> int \<Rightarrow> 32 word" where
  "received_sampleCount s errorCode =
     normal_sampleCount s (if sampleSize (dso_specification s) > 8
                           then word_of_int errorCode div 2 else word_of_int errorCode)"

subsection \<open>Observers\<close>

text \<open>
  The fast rate flag held by the \<^verbatim>\<open>BulkSetTriggerAndSamplerate\<close> encoder.
\<close>

definition fastRate_2090 :: "HantekDsoControl \<Rightarrow> bool option" where
  "fastRate_2090 s =
     (case command_arr s BULK_SETTRIGGERANDSAMPLERATE of
        Some (CmdSetTriggerAndSamplerate c) \<Rightarrow> Some (tas_fastRate c)
      | _ \<Rightarrow> None)"

text \<open>The part of the state that the quantisation of offsets and trigger levels reads.\<close>

definition same_reads :: "HantekDsoControl \<Rightarrow> HantekDsoControl \<Rightarrow> nat \<Rightarrow> bool" where
  "same_reads t s channel =
     (isConnected t = isConnected s \<and> getUniqueModelID t = getUniqueModelID s
      \<and> dso_specification t = dso_specification s
      \<and> voltage_gain (voltage (settings t) channel) = voltage_gain (voltage (settings s) channel)
      \<and> trigger_special (settings t) = trigger_special (settings s)
      \<and> trigger_source (settings t) = trigger_source (settings s))"

definition with_offset :: "HantekDsoControl \<Rightarrow> nat \<Rightarrow> real \<Rightarrow> HantekDsoControl" where
  "with_offset s channel x =
     s\<lparr>settings := (settings s)\<lparr>voltage := (voltage (settings s))(channel :=
                   (voltage (settings s) channel)\<lparr>voltage_offset := x\<rparr>)\<rparr>\<rparr>"

subsection \<open>Concrete states\<close>

text \<open>
  A calibration table (\<^verbatim>\<open>specification.offsetLimit\<close>) with the limits 0 and 65535 for
  every channel and gain.
\<close>

definition calibration0 :: "nat \<Rightarrow> nat \<Rightarrow> (8 word \<times> 8 word) \<times> (8 word \<times> 8 word)" where
  "calibration0 channel gainId = ((0, 0), (255, 255))"

text \<open>A DSO-2090 with both channels in use that holds eight samples per channel of an
  earlier frame.\<close>

definition earlier_frame :: HantekDsoControl where
  "earlier_frame =
     (constructor MODEL_DSO2090 512 calibration0)
       \<lparr>settings := constructor_settings
          \<lparr>voltage := (\<lambda>channel. \<lparr>voltage_gain = 0, voltage_offset = 0,
                          voltage_offsetReal = 0, voltage_used = True\<rparr>),
           usedChannels := 2\<rparr>,
        dso_result := \<lparr>result_data = (\<lambda>channel. [1, 2, 3, 4, 5, 6, 7, 8]),
           result_samplerate = 50000000, result_append = False\<rparr>\<rparr>"

text \<open>
  A DSO-6022BE after the constructor, with both channels in use.
\<close>

definition dso6022 :: HantekDsoControl where
  "dso6022 =
     (constructor MODEL_DSO6022BE 512 calibration0)
       \<lparr>settings := constructor_settings
          \<lparr>voltage := (\<lambda>channel. \<lparr>voltage_gain = 0, voltage_offset = 0,
                          voltage_offsetReal = 0, voltage_used = True\<rparr>),
           usedChannels := 2\<rparr>\<rparr>"

text \<open>
  An assignment of the external parameters for evaluating \<^verbatim>\<open>stringCommand\<close> on
  concrete command lines: opcode values, and a parser of one byte from two hexadecimal digits.
\<close>

definition hexDigit :: "char \<Rightarrow> nat option" where
  "hexDigit c =
     (let n = of_char c :: nat
      in if 48 \<le> n \<and> n \<le> 57 then Some (n - 48)
         else if 97 \<le> n \<and> n \<le> 102 then Some (n - 87)
         else if 65 \<le> n \<and> n \<le> 70 then Some (n - 55)
         else None)"

definition hexByte :: "string \<Rightarrow> 8 word \<Rightarrow> 8 word" where
  "hexByte txt old =
     (case txt of
        a # b # rest \<Rightarrow>
          (case (hexDigit a, hexDigit b) of
             (Some h, Some l) \<Rightarrow> of_nat (16 * h + l)
           | _ \<Rightarrow> old)
      | _ \<Rightarrow> old)"

definition protocol :: Externals where
  "protocol =
     \<lparr>BULK_COUNT = 16,
      bulkCodeValue = (\<lambda>code. case code of
          BULK_SETTRIGGERANDSAMPLERATE \<Rightarrow> 1 | BULK_FORCETRIGGER \<Rightarrow> 2
        | BULK_STARTSAMPLING \<Rightarrow> 3 | BULK_ENABLETRIGGER \<Rightarrow> 4 | BULK_GETDATA \<Rightarrow> 5
        | BULK_GETCAPTURESTATE \<Rightarrow> 6 | BULK_SETGAIN \<Rightarrow> 7 | BULK_BSETCHANNELS \<Rightarrow> 11
        | BULK_CSETTRIGGERORSAMPLERATE \<Rightarrow> 12 | BULK_DSETBUFFER \<Rightarrow> 13
        | BULK_ESETTRIGGERORSAMPLERATE \<Rightarrow> 14 | BULK_FSETBUFFER \<Rightarrow> 15),
      controlCodeValue = (\<lambda>code. case code of
          CONTROL_SETOFFSET \<Rightarrow> 180 | CONTROL_SETRELAYS \<Rightarrow> 181
        | CONTROL_SETVOLTDIV_CH1 \<Rightarrow> 224 | CONTROL_SETVOLTDIV_CH2 \<Rightarrow> 225
        | CONTROL_SETTIMEDIV \<Rightarrow> 226 | CONTROL_ACQUIIRE_HARD_DATA \<Rightarrow> 227),
      section_SkipEmpty = (\<lambda>txt n. concat (drop n (split_SkipEmptyParts CHR '' '' [] txt))),
      hexParse_byte = hexByte,
      hexParse_bulk = (\<lambda>txt c. c),
      hexParse_control = (\<lambda>txt c. c)\<rparr>"

text \<open>
  A DSO-6022BE after the constructor: every entry of \<^verbatim>\<open>controlCode\<close> is assigned.
\<close>

definition dso6022_fresh :: HantekDsoControl where
  "dso6022_fresh = constructor MODEL_DSO6022BE 512 calibration0"

section \<open>Properties\<close>

subsection \<open>The trigger point is a Gray code decoder\<close>

lemma unat_drop_bit_div: "unat (drop_bit n (w :: 32 word)) = unat w div 2 ^ n"
  unfolding unat_drop_bit_eq by (rule drop_bit_eq_div)

lemma xor_eq_0_D: "(y :: 32 word) XOR z = 0 \<Longrightarrow> y = z"
proof (rule bit_word_eqI)
  fix n assume "y XOR z = 0"
  then have "bit (y XOR z) n = bit (0 :: 32 word) n" by simp
  then show "bit y n = bit z n" by (simp add: bit_xor_iff)
qed

text \<open>One round of the loop, at bit \<open>k\<close>, keeps the Gray code of the part already decoded.\<close>

lemma step_gray:
  assumes k: "k < 32"
  shows "(if r AND push_bit k 1 \<noteq> 0 then r XOR (push_bit k 1 - 1) else r)
           XOR drop_bit 1 (take_bit (Suc k)
                 (if r AND push_bit k 1 \<noteq> 0 then r XOR (push_bit k 1 - 1) else r))
         = (r :: 32 word) XOR drop_bit 1 (take_bit k r)"
proof -
  have m: "push_bit k 1 - 1 = (mask k :: 32 word)"
    by (simp add: mask_eq_exp_minus_1)
  have t: "(r AND push_bit k 1 \<noteq> 0) = bit r k"
    using k by (simp add: bit_iff_and_push_bit_not_eq_0)
  show ?thesis
    unfolding m t
    apply (rule bit_word_eqI)
    using k apply (auto simp add: bit_simps less_Suc_eq)
       apply (metis Suc_lessI)+
    done
qed

lemma loop_gray:
  "k \<le> 32 \<Longrightarrow>
   gray (calculateTriggerPoint_loop (push_bit k 1) r) = r XOR drop_bit 1 (take_bit k r)"
proof (induction "32 - k" arbitrary: k r)
  case 0
  then have k: "k = 32" by simp
  have z: "push_bit 32 (1 :: 32 word) = 0"
    by (rule bit_word_eqI) (simp only: bit_push_bit_iff, simp)
  have t: "take_bit 32 r = r"
    by (rule bit_word_eqI) (simp add: bit_simps)
  show ?case
    unfolding k z t gray_def by (simp add: calculateTriggerPoint_loop.simps [of 0])
next
  case (Suc n)
  then have k: "k < 32" by simp
  have nz: "push_bit k (1 :: 32 word) \<noteq> 0"
    using k by (simp add: push_bit_of_1)
  have nx: "push_bit 1 (push_bit k (1 :: 32 word)) = push_bit (Suc k) 1"
    by (simp add: push_bit_of_1)
  have "gray (calculateTriggerPoint_loop (push_bit k 1) r)
       = gray (calculateTriggerPoint_loop (push_bit (Suc k) 1)
           (if r AND push_bit k 1 \<noteq> 0 then r XOR (push_bit k 1 - 1) else r))"
    using nz by (subst calculateTriggerPoint_loop.simps) (simp only: nx if_False)
  also have "\<dots> = (if r AND push_bit k 1 \<noteq> 0 then r XOR (push_bit k 1 - 1) else r)
           XOR drop_bit 1 (take_bit (Suc k)
                 (if r AND push_bit k 1 \<noteq> 0 then r XOR (push_bit k 1 - 1) else r))"
    using Suc.hyps(1) [of "Suc k"] Suc.hyps(2) k by simp
  also have "\<dots> = r XOR drop_bit 1 (take_bit k r)"
    by (rule step_gray [OF k])
  finally show ?case .
qed

lemma gray_calculateTriggerPoint: "gray (calculateTriggerPoint x) = x"
  using loop_gray [of 0 x] by (simp add: calculateTriggerPoint_def)

lemma drop_bit1_fixed: "(w :: 32 word) = drop_bit 1 w \<Longrightarrow> w = 0"
proof -
  assume "w = drop_bit 1 w"
  then have "unat w = unat (drop_bit 1 w)" by simp
  then have "unat w = unat w div 2" by (simp only: unat_drop_bit_div power_one_right)
  then have "unat w = 0" by arith
  then show "w = 0" by (simp add: unat_eq_0)
qed

lemma gray_inj: "gray y = gray z \<Longrightarrow> y = z"
proof -
  assume a: "gray y = gray z"
  have "y XOR z = drop_bit 1 (y XOR z)"
  proof (rule bit_word_eqI)
    fix n assume "n < LENGTH(32)"
    have "bit (gray y) n = bit (gray z) n" using a by simp
    then show "bit (y XOR z) n = bit (drop_bit 1 (y XOR z)) n"
      by (auto simp add: gray_def bit_simps)
  qed
  then have "y XOR z = 0" by (rule drop_bit1_fixed)
  then show "y = z" by (rule xor_eq_0_D)
qed

lemma calculateTriggerPoint_gray: "calculateTriggerPoint (gray y) = y"
  by (rule gray_inj) (rule gray_calculateTriggerPoint)

lemma gray_gray: "gray (gray x) = x XOR drop_bit 2 x"
  by (rule bit_word_eqI) (auto simp add: gray_def bit_simps)

lemma drop_bit2_less: "(drop_bit 2 (x :: 32 word) = 0) = (x < 4)"
proof -
  have "(drop_bit 2 x = 0) = (unat (drop_bit 2 x) = 0)" by (simp add: unat_eq_0)
  also have "\<dots> = (unat x div 4 = 0)" by (simp only: unat_drop_bit_div) simp
  also have "\<dots> = (unat x < 4)" by (simp add: div_eq_0_iff)
  also have "\<dots> = (x < 4)" by (simp add: word_less_nat_alt)
  finally show ?thesis .
qed

lemma calculateTriggerPoint_twice:
  "(calculateTriggerPoint (calculateTriggerPoint x) = x) = (x < 4)"
proof
  assume a: "calculateTriggerPoint (calculateTriggerPoint x) = x"
  have "gray (gray (calculateTriggerPoint (calculateTriggerPoint x))) = x"
    by (simp add: gray_calculateTriggerPoint)
  with a have "gray (gray x) = x" by simp
  then have "x XOR (x XOR drop_bit 2 x) = x XOR x" by (simp only: gray_gray)
  then have "drop_bit 2 x = 0" by (simp only: bit.xor_left_self xor_self_eq)
  then show "x < 4" by (simp add: drop_bit2_less)
next
  assume "x < 4"
  then have "drop_bit 2 x = 0" by (simp add: drop_bit2_less)
  then have "gray (gray x) = x" by (simp add: gray_gray)
  then have "calculateTriggerPoint (calculateTriggerPoint (gray (gray x)))
      = calculateTriggerPoint (calculateTriggerPoint x)"
    by simp
  then show "calculateTriggerPoint (calculateTriggerPoint x) = x"
    by (simp add: calculateTriggerPoint_gray)
qed

lemma gray_drop_bit: "drop_bit n (gray y) = gray (drop_bit n y)"
  by (rule bit_word_eqI) (auto simp add: gray_def bit_simps)

lemma gray_eq_0: "(gray w = 0) = (w = 0)"
proof
  assume "gray w = 0"
  moreover have "gray 0 = 0" by (simp add: gray_def)
  ultimately have "gray w = gray 0" by simp
  then show "w = 0" by (rule gray_inj)
qed (simp add: gray_def)

lemma drop_bit16_less: "(drop_bit 16 (x :: 32 word) = 0) = (x < 65536)"
proof -
  have "(drop_bit 16 x = 0) = (unat (drop_bit 16 x) = 0)" by (simp add: unat_eq_0)
  also have "\<dots> = (unat x div 65536 = 0)" by (simp only: unat_drop_bit_div) simp
  also have "\<dots> = (unat x < 65536)" by (simp add: div_eq_0_iff)
  also have "\<dots> = (x < 65536)" by (simp add: word_less_nat_alt)
  finally show ?thesis .
qed

lemma calculateTriggerPoint_16bit: "(calculateTriggerPoint x < 65536) = (x < 65536)"
proof -
  have "(x < 65536) = (drop_bit 16 (gray (calculateTriggerPoint x)) = 0)"
    by (simp add: gray_calculateTriggerPoint drop_bit16_less)
  also have "\<dots> = (drop_bit 16 (calculateTriggerPoint x) = 0)"
    by (simp only: gray_drop_bit gray_eq_0)
  also have "\<dots> = (calculateTriggerPoint x < 65536)"
    by (simp only: drop_bit16_less)
  finally show ?thesis by simp
qed

text \<open>
  Claim C2, as stated: the trigger point decoding is an involution on 16-bit values. It is
  not: decoding 4 gives 7, and decoding 7 gives 5.
\<close>

theorem C2_not_involution:
  "calculateTriggerPoint 4 = 7 \<and> calculateTriggerPoint 7 = 5 \<and>
   calculateTriggerPoint (calculateTriggerPoint 4) \<noteq> 4"
  by code_simp

text \<open>
  Claim C2, amended: the trigger point decoding is invertible, and its inverse is the
  Gray code \<open>y XOR (y >> 1)\<close>, not the decoding itself. For every value \<open>x\<close> (of 32 bits,
  so for every 16-bit value), encoding the decoded value gives \<open>x\<close> back, decoding the
  encoded value gives \<open>x\<close> back, the decoded value fits 16 bits exactly when \<open>x\<close> does,
  and decoding twice gives \<open>x\<close> back exactly when \<open>x < 4\<close>.
\<close>

theorem C2_calculateTriggerPoint_inverse:
  "calculateTriggerPoint x XOR drop_bit 1 (calculateTriggerPoint x) = x \<and>
   calculateTriggerPoint (x XOR drop_bit 1 x) = x \<and>
   (calculateTriggerPoint x < 65536) = (x < 65536) \<and>
   (calculateTriggerPoint (calculateTriggerPoint x) = x) = (x < 4)"
  using gray_calculateTriggerPoint [of x] calculateTriggerPoint_gray [of x]
    calculateTriggerPoint_16bit [of x] calculateTriggerPoint_twice [of x]
  by (simp add: gray_def)

subsection \<open>The samplerate solver of the DSO-2090 family\<close>

lemma switch_2090_range:
  assumes "getBestSamplerate_switch (Some BULK_SETTRIGGERANDSAMPLERATE) maximum bd = Some r"
  shows "\<exists>k::int. r = of_int k \<and> (k \<le> 2 \<or> k = 5 \<or> (6 \<le> k \<and> k \<le> 131074))
           \<and> (0 < bd \<and> (maximum \<or> 1 \<le> bd) \<longrightarrow> 1 \<le> k)"
proof (cases "(maximum \<and> bd \<le> 5) \<or> (\<not> maximum \<and> bd < 6)")
  case fast: True
  show ?thesis
  proof (cases maximum)
    case True
    define c where "c = \<lceil>bd\<rceil>"
    have pos: "0 < bd \<longrightarrow> 1 \<le> c" by (simp add: c_def less_ceiling_iff)
    from True fast assms have r: "r = (if c > 2 then of_int 5 else of_int c)"
      by (auto simp add: Let_def c_def)
    show ?thesis
    proof (cases "c > 2")
      case True
      with r have "r = of_int 5" by simp
      then show ?thesis by (intro exI [of _ 5]) simp
    next
      case False
      with r have "r = of_int c" by simp
      with pos False show ?thesis by (intro exI [of _ c]) simp
    qed
  next
    case False
    with fast have b: "bd < 6" by simp
    define c where "c = \<lfloor>bd\<rfloor>"
    have f5: "c \<le> 5" using b by (simp add: c_def floor_le_iff)
    have pos: "1 \<le> bd \<longrightarrow> 1 \<le> c" by (simp add: c_def le_floor_iff)
    from False fast assms have r: "r = (if c > 2 \<and> c < 5 then of_int 2 else of_int c)"
      by (auto simp add: Let_def c_def)
    show ?thesis
    proof (cases "c > 2 \<and> c < 5")
      case True
      with r have "r = of_int 2" by simp
      then show ?thesis by (intro exI [of _ 2]) simp
    next
      case F: False
      with r have "r = of_int c" by simp
      moreover from F f5 have "c \<le> 2 \<or> c = 5" by arith
      ultimately show ?thesis using pos \<open>\<not> maximum\<close> by (intro exI [of _ c]) auto
    qed
  qed
next
  case False
  define e :: int where "e = (if maximum then \<lceil>bd / 2\<rceil> * 2 else \<lfloor>bd / 2\<rfloor> * 2)"
  have e6: "6 \<le> e"
  proof (cases maximum)
    case True
    with False have "5 < bd" by simp
    then have "2 < \<lceil>bd / 2\<rceil>" by (simp add: less_ceiling_iff)
    with True show ?thesis by (simp add: e_def)
  next
    case F: False
    with False have "6 \<le> bd" by simp
    then have "3 \<le> \<lfloor>bd / 2\<rfloor>" by (simp add: le_floor_iff)
    with F show ?thesis by (simp add: e_def)
  qed
  from False assms have r: "r = (if of_int e > (2 * 65537 :: real) then 2 * 65537 else of_int e)"
    by (auto simp add: Let_def e_def)
  show ?thesis
  proof (cases "e > 131074")
    case True
    then have "of_int e > (2 * 65537 :: real)" by simp
    with r have "r = of_int 131074" by simp
    then show ?thesis by (intro exI [of _ 131074]) simp
  next
    case F: False
    then have "\<not> of_int e > (2 * 65537 :: real)" by simp
    with r have "r = of_int e" by simp
    with e6 F show ?thesis by (intro exI [of _ e]) simp
  qed
qed

lemma uint_word_of_int_small:
  "0 \<le> k \<Longrightarrow> k < 4294967296 \<Longrightarrow> uint (word_of_int k :: 32 word) = k"
  by (simp add: uint_word_of_int_eq take_bit_int_eq_self)


lemma toUInt_of_int:
  "0 \<le> k \<Longrightarrow> k < 4294967296 \<Longrightarrow> toUInt (of_int k) = Some (word_of_int k)"
  by (simp add: toUInt_def)

lemma ofUInt_of_int: "ofUInt w = of_int (uint w)"
  by (simp add: ofUInt_def)

lemma ofUInt_pos: "w \<noteq> 0 \<Longrightarrow> 0 < ofUInt w"
  unfolding ofUInt_def using unat_gt_0 [of w] by linarith

lemma uint_less_32: "uint (w :: 32 word) < 4294967296"
  using uint_bounded [of w] by simp

lemma getBestSamplerate_2090_downsampler:
  assumes cmd: "bulk_setSamplerate (dso_specification s) = Some BULK_SETTRIGGERANDSAMPLERATE"
    and idx: "recordLengthId (settings s) < length (bufferDividers (dso_specification s))"
    and dv: "bufferDividers (dso_specification s) ! recordLengthId (settings s) \<noteq> 0"
    and bs: "0 < base (if fastRate then samplerate_multi (dso_specification s)
                       else samplerate_single (dso_specification s))"
    and md: "5 \<le> unat (maxDownsampler (if fastRate then samplerate_multi (dso_specification s)
                       else samplerate_single (dso_specification s)))"
    and sr: "0 < samplerate"
  shows "\<exists>best d. getBestSamplerate s samplerate fastRate maximum = Some (best, Some d)
           \<and> d \<noteq> 3 \<and> d \<noteq> 4"
proof -
  define lim where "lim = (if fastRate then samplerate_multi (dso_specification s)
                       else samplerate_single (dso_specification s))"
  define divider where "divider = bufferDividers (dso_specification s) ! recordLengthId (settings s)"
  define bd where "bd = base lim / ofUInt divider / samplerate"
  have dpos: "0 < ofUInt divider" using dv by (simp add: divider_def ofUInt_pos)
  have bdpos: "0 < bd" using bs dpos sr by (simp add: bd_def lim_def)
  have nth: "nth_opt (bufferDividers (dso_specification s)) (recordLengthId (settings s)) = Some divider"
    using idx by (simp add: nth_opt_def divider_def)
  have nsr: "\<not> samplerate \<le> 0" using sr by simp
  have t0: "toUInt 0 = Some 0" by (simp add: toUInt_def)
  have eq: "getBestSamplerate s samplerate fastRate maximum =
      (if bd < 1 \<and> (samplerate \<le> max_rate lim / ofUInt divider \<or> \<not> maximum)
       then Some (max_rate lim / ofUInt divider, Some 0)
       else (case getBestSamplerate_switch (Some BULK_SETTRIGGERANDSAMPLERATE) maximum bd of
               None \<Rightarrow> Some (0, None)
             | Some rounded \<Rightarrow>
                 toUInt (if rounded > ofUInt (maxDownsampler lim)
                         then ofUInt (maxDownsampler lim) else rounded) \<bind>
                 (\<lambda>d. Some (base lim / (if rounded > ofUInt (maxDownsampler lim)
                         then ofUInt (maxDownsampler lim) else rounded) / ofUInt divider, Some d))))"
    unfolding getBestSamplerate_def Let_def bd_def lim_def
    by (simp only: nsr if_False nth bind.bind_lunit t0 cmd)
  show ?thesis
  proof (cases "bd < 1 \<and> (samplerate \<le> max_rate lim / ofUInt divider \<or> \<not> maximum)")
    case True
    with eq show ?thesis by simp
  next
    case False
    obtain r where r: "getBestSamplerate_switch (Some BULK_SETTRIGGERANDSAMPLERATE) maximum bd = Some r"
      by simp
    from False have "maximum \<or> 1 \<le> bd" by auto
    with switch_2090_range [OF r] bdpos obtain k :: int where
      k: "r = of_int k" "k \<le> 2 \<or> k = 5 \<or> (6 \<le> k \<and> k \<le> 131074)" "1 \<le> k"
      by auto
    define m where "m = uint (maxDownsampler lim)"
    have m5: "5 \<le> m" using md unfolding m_def lim_def uint_nat by linarith
    have mlt: "m < 4294967296" by (simp add: m_def uint_less_32)
    define k' where "k' = (if k > m then m else k)"
    have om: "ofUInt (maxDownsampler lim) = of_int m"
      unfolding m_def by (rule ofUInt_of_int)
    have cl: "(if r > ofUInt (maxDownsampler lim) then ofUInt (maxDownsampler lim) else r) = of_int k'"
      unfolding om k(1) k'_def by simp
    have k'r: "1 \<le> k'" "k' < 4294967296" "k' \<noteq> 3" "k' \<noteq> 4"
      using k(2,3) m5 mlt by (auto simp add: k'_def)
    have tu: "toUInt (of_int k') = Some (word_of_int k')"
      using k'r by (simp add: toUInt_of_int)
    from False eq have "getBestSamplerate s samplerate fastRate maximum
        = (case getBestSamplerate_switch (Some BULK_SETTRIGGERANDSAMPLERATE) maximum bd of
               None \<Rightarrow> Some (0, None)
             | Some rounded \<Rightarrow>
                 toUInt (if rounded > ofUInt (maxDownsampler lim)
                         then ofUInt (maxDownsampler lim) else rounded) \<bind>
                 (\<lambda>d. Some (base lim / (if rounded > ofUInt (maxDownsampler lim)
                         then ofUInt (maxDownsampler lim) else rounded) / ofUInt divider, Some d)))"
      by (simp only: if_False)
    also have "\<dots> = toUInt (of_int k') \<bind>
                 (\<lambda>d. Some (base lim / of_int k' / ofUInt divider, Some d))"
      unfolding r option.case cl ..
    also have "\<dots> = Some (base lim / of_int k' / ofUInt divider, Some (word_of_int k'))"
      unfolding tu by simp
    finally have "getBestSamplerate s samplerate fastRate maximum
        = Some (base lim / of_int k' / ofUInt divider, Some (word_of_int k'))" .
    moreover have "uint (word_of_int k' :: 32 word) = k'"
      using k'r by (simp add: uint_word_of_int_small)
    then have "(word_of_int k' :: 32 word) \<noteq> 3 \<and> (word_of_int k' :: 32 word) \<noteq> 4"
      using k'r by auto
    ultimately show ?thesis by simp
  qed
qed

subsection \<open>What updateSamplerate leaves in the encoder\<close>

lemma modify_command_Some:
  "(modify_command code f s = Some s') =
     (\<exists>c c'. command_arr s code = Some c \<and> f c = Some c' \<and>
        s' = s\<lparr>command_arr := (command_arr s)(code \<mapsto> c')\<rparr>)"
  by (auto simp add: modify_command_def split: Option.bind_splits)

lemma as_SetTriggerAndSamplerate_Some:
  "(as_SetTriggerAndSamplerate f c = Some c') =
     (\<exists>x. c = CmdSetTriggerAndSamplerate x \<and> c' = CmdSetTriggerAndSamplerate (f x))"
  by (cases c) auto

lemma as_SetBuffer2250_Some:
  "(as_SetBuffer2250 f c = Some c') = (\<exists>x. c = CmdSetBuffer2250 x \<and> c' = CmdSetBuffer2250 (f x))"
  by (cases c) auto

lemma as_SetBuffer5200_Some:
  "(as_SetBuffer5200 f c = Some c') = (\<exists>x. c = CmdSetBuffer5200 x \<and> c' = CmdSetBuffer5200 (f x))"
  by (cases c) auto

lemma as_SetSamplerate5200_Some:
  "(as_SetSamplerate5200 f c = Some c') =
     (\<exists>x. c = CmdSetSamplerate5200 x \<and> c' = CmdSetSamplerate5200 (f x))"
  by (cases c) auto

lemma as_SetTrigger5200_Some:
  "(as_SetTrigger5200 f c = Some c') = (\<exists>x. c = CmdSetTrigger5200 x \<and> c' = CmdSetTrigger5200 (f x))"
  by (cases c) auto

lemma as_SetSamplerate2250_Some:
  "(as_SetSamplerate2250 f c = Some c') =
     (\<exists>x. c = CmdSetSamplerate2250 x \<and> c' = CmdSetSamplerate2250 (f x))"
  by (cases c) auto

lemma as_SetChannels2250_Some:
  "(as_SetChannels2250 f c = Some c') = (\<exists>x. c = CmdSetChannels2250 x \<and> c' = CmdSetChannels2250 (f x))"
  by (cases c) auto

lemmas as_Some = as_SetTriggerAndSamplerate_Some as_SetBuffer2250_Some as_SetBuffer5200_Some
  as_SetSamplerate5200_Some as_SetTrigger5200_Some as_SetSamplerate2250_Some as_SetChannels2250_Some

lemma setPretriggerPosition_frame:
  assumes "setPretriggerPosition s p = Some s'"
  shows "fastRate_2090 s' = fastRate_2090 s
       \<and> samplerate_limits (settings s') = samplerate_limits (settings s)
       \<and> samplerate_current (settings s') = samplerate_current (settings s)
       \<and> samplerate_downsampler (settings s') = samplerate_downsampler (settings s)
       \<and> recordLengthId (settings s') = recordLengthId (settings s)
       \<and> usedChannels (settings s') = usedChannels (settings s)
       \<and> dso_specification s' = dso_specification s"
  using assms
  by (auto simp add: setPretriggerPosition_def Let_def modify_command_Some as_Some
      set_commandPending_def fastRate_2090_def
      split: if_splits Option.bind_splits option.splits BulkCode.splits)

lemma updateSamplerate_settings_result:
  assumes "updateSamplerate_settings s d fastRate = Some (r, s')"
  shows "r = d
       \<and> fastRate_2090 s' = fastRate_2090 s
       \<and> samplerate_limits (settings s') = (if fastRate then Multi else Single)
       \<and> samplerate_downsampler (settings s') = d
       \<and> (\<exists>divider. nth_opt (bufferDividers (dso_specification s)) (recordLengthId (settings s))
              = Some divider
            \<and> samplerate_current (settings s') =
               (if d \<noteq> 0
                then base (limits_of (dso_specification s) (if fastRate then Multi else Single))
                       / ofUInt divider / ofUInt d
                else max_rate (limits_of (dso_specification s) (if fastRate then Multi else Single))
                       / ofUInt divider))
       \<and> recordLengthId (settings s') = recordLengthId (settings s)
       \<and> usedChannels (settings s') = usedChannels (settings s)
       \<and> dso_specification s' = dso_specification s"
proof -
  define s1 where "s1 = (if fastRate \<noteq> (samplerate_limits (settings s) = Multi)
               then s\<lparr>settings := (settings s)\<lparr>samplerate_limits := (if fastRate then Multi else Single)\<rparr>\<rparr>
               else s)"
  have l1: "samplerate_limits (settings s1) = (if fastRate then Multi else Single)"
    by (cases "samplerate_limits (settings s)") (auto simp add: s1_def)
  have f1: "fastRate_2090 s1 = fastRate_2090 s" "dso_specification s1 = dso_specification s"
    "recordLengthId (settings s1) = recordLengthId (settings s)"
    "usedChannels (settings s1) = usedChannels (settings s)"
    by (auto simp add: s1_def fastRate_2090_def)
  from assms obtain divider s3 where
    dv: "nth_opt (bufferDividers (dso_specification s1)) (recordLengthId (settings s1)) = Some divider"
    and s3: "setPretriggerPosition (s1\<lparr>settings := (settings s1)\<lparr>samplerate_downsampler := d,
                samplerate_current := (if d \<noteq> 0
                            then base (current_limits s1) / ofUInt divider / ofUInt d
                            else max_rate (current_limits s1) / ofUInt divider)\<rparr>\<rparr>)
            (trigger_position (settings s1)) = Some s3"
    and r: "r = d" "s' = s3"
    unfolding updateSamplerate_settings_def Let_def s1_def [symmetric]
    by (simp add: bind_eq_Some_conv) blast
  from setPretriggerPosition_frame [OF s3] l1 f1 dv r show ?thesis
    by (simp add: fastRate_2090_def current_limits_def)
qed

lemma updateSamplerate_2090_fastRate:
  assumes "bulk_setSamplerate (dso_specification s) = Some BULK_SETTRIGGERANDSAMPLERATE"
    and "updateSamplerate s downsampler fastRate = Some (r, s')"
  shows "fastRate_2090 s' = Some False
       \<and> samplerate_limits (settings s') = (if fastRate then Multi else Single)"
proof -
  from assms obtain s1 d where
    m: "modify_command BULK_SETTRIGGERANDSAMPLERATE
          (as_SetTriggerAndSamplerate (\<lambda>c. c\<lparr>tas_downsamplingMode := fst (snd (snd d)),
              tas_samplerateId := fst (snd d), tas_downsampler := fst d,
              tas_fastRate := False\<rparr>)) s = Some s1"
    and u: "updateSamplerate_settings (set_commandPending BULK_SETTRIGGERANDSAMPLERATE s1)
              (snd (snd (snd d))) fastRate = Some (r, s')"
    unfolding updateSamplerate_def Let_def
    by (auto simp add: case_prod_beta split: Option.bind_splits)
  from m have "fastRate_2090 (set_commandPending BULK_SETTRIGGERANDSAMPLERATE s1) = Some False"
    by (auto simp add: modify_command_Some as_Some fastRate_2090_def set_commandPending_def)
  with updateSamplerate_settings_result [OF u] show ?thesis by simp
qed

subsection \<open>Properties of the solver and of updateSamplerate\<close>

lemma spec_2090_family:
  assumes "m = MODEL_DSO2090 \<or> m = MODEL_DSO2150"
  shows "bulk_setSamplerate (specification_of m cal) = Some BULK_SETTRIGGERANDSAMPLERATE"
    and "bufferDividers (specification_of m cal) = [1000, 1, 1]"
    and "0 < base (samplerate_single (specification_of m cal))"
    and "0 < base (samplerate_multi (specification_of m cal))"
    and "maxDownsampler (samplerate_single (specification_of m cal)) = 131072"
    and "maxDownsampler (samplerate_multi (specification_of m cal)) = 131072"
  using assms
  by (auto simp add: specification_of_def limits_tables_of_def bulk_codes_of_def)

text \<open>
  Claim C5: for the DSO-2090 command family (the models DSO-2090 and DSO-2150, whose samplerate
  command is \<^verbatim>\<open>BULK_SETTRIGGERANDSAMPLERATE\<close>), \<^verbatim>\<open>getBestSamplerate\<close> stores a
  downsampler for every positive target samplerate, every \<open>fastRate\<close> and both rounding
  directions, and the stored value is never 3 or 4.
\<close>

theorem C5_getBestSamplerate_2090:
  assumes m: "m = MODEL_DSO2090 \<or> m = MODEL_DSO2150"
    and sp: "dso_specification s = specification_of m cal"
    and idx: "recordLengthId (settings s) < 3"
    and sr: "0 < samplerate"
  shows "\<exists>best d. getBestSamplerate s samplerate fastRate maximum = Some (best, Some d)
           \<and> d \<noteq> 3 \<and> d \<noteq> 4"
proof (rule getBestSamplerate_2090_downsampler)
  show "bulk_setSamplerate (dso_specification s) = Some BULK_SETTRIGGERANDSAMPLERATE"
    using spec_2090_family(1) [OF m] sp by simp
  show "recordLengthId (settings s) < length (bufferDividers (dso_specification s))"
    using spec_2090_family(2) [OF m] sp idx by simp
  have "recordLengthId (settings s) = 0 \<or> recordLengthId (settings s) = 1
      \<or> recordLengthId (settings s) = 2"
    using idx by arith
  then show "bufferDividers (dso_specification s) ! recordLengthId (settings s) \<noteq> 0"
    using spec_2090_family(2) [OF m] sp by auto
  show "0 < base (if fastRate then samplerate_multi (dso_specification s)
                  else samplerate_single (dso_specification s))"
    using spec_2090_family(3,4) [OF m] sp by simp
  show "5 \<le> unat (maxDownsampler (if fastRate then samplerate_multi (dso_specification s)
                       else samplerate_single (dso_specification s)))"
    using spec_2090_family(5,6) [OF m] sp by simp
  show "0 < samplerate" by (rule sr)
qed

lemma channels_upt: "[0..<2] = [0, 1 :: nat]"
  by (simp add: upt_rec)

lemmas model_defs = channels_upt getBestSamplerate_def updateSamplerate_def updateSamplerate_settings_def
  setPretriggerPosition_def setSamplerate_def setRecordTime_def setChannelUsed_def
  updateSamplerateLimits_def modify_command_def set_commandPending_def current_limits_def
  limits_of_def nth_opt_def ofUInt_def toUInt_def

lemmas constructor_defs = constructor_def specification_of_def limits_tables_of_def
  bulk_codes_of_def constructor_settings_def constructor_commands_def
  constructor_commandPending_def constructor_control_def constructor_controlCode_def
  constructor_controlPending_def new_BulkSetTriggerAndSamplerate_def UINT_MAX_def
  HANTEK_CHANNELS_def

text \<open>
  A target of 12 MS/s with rounding towards the lower rate: the ideal downsampler 4.17 becomes 5.
\<close>

theorem C5_witness:
  "\<exists>best d. getBestSamplerate (constructor MODEL_DSO2090 512 calibration0) 12000000 False True
      = Some (best, Some d) \<and> d = 5"
proof -
  have "getBestSamplerate (constructor MODEL_DSO2090 512 calibration0) 12000000 False True
      = Some (10000000, Some 5)"
    by (simp add: getBestSamplerate_def constructor_def specification_of_def limits_tables_of_def
        bulk_codes_of_def constructor_settings_def nth_opt_def ofUInt_def toUInt_def Let_def)
  moreover from C5_getBestSamplerate_2090 [of MODEL_DSO2090 "constructor MODEL_DSO2090 512 calibration0"
      calibration0 12000000 False True]
  have "\<exists>best d. getBestSamplerate (constructor MODEL_DSO2090 512 calibration0) 12000000 False True
      = Some (best, Some d) \<and> d \<noteq> 3 \<and> d \<noteq> 4"
    by (simp add: constructor_def constructor_settings_def)
  ultimately show ?thesis by simp
qed

text \<open>
  Claim C8: on the DSO-2090 with buffer divider 1 (record length id 1), the solver with target
  33.3 MS/s and \<open>maximum = false\<close> has the ideal downsampler 50 MHz / 33.3 MHz (about 1.5),
  stores the downsampler 1 and returns 50 MS/s.
\<close>

theorem C8_samplerate_snap_2090:
  assumes sp: "dso_specification s = specification_of MODEL_DSO2090 cal"
    and idx: "recordLengthId (settings s) = 1"
  shows "getBestSamplerate s 33300000 False False = Some (50000000, Some 1)
       \<and> bufferDividers (dso_specification s) ! recordLengthId (settings s) = 1
       \<and> base (samplerate_single (dso_specification s)) = 50000000
       \<and> \<bar>base (samplerate_single (dso_specification s))
            / ofUInt (bufferDividers (dso_specification s) ! recordLengthId (settings s))
            / 33300000 - 1.5\<bar> < 0.002"
  using sp idx
  by (simp add: getBestSamplerate_def specification_of_def limits_tables_of_def
        bulk_codes_of_def nth_opt_def ofUInt_def toUInt_def Let_def)

text \<open>
  The DSO-2090 after the constructor; \<^verbatim>\<open>setSamplerate(33.3e6)\<close> then sets 50 MS/s.
\<close>

theorem C8_witness:
  "getBestSamplerate (constructor MODEL_DSO2090 512 calibration0) 33300000 False False
      = Some (50000000, Some 1)
   \<and> map_option (\<lambda>(r, s). (r, samplerate_current (settings s), samplerate_downsampler (settings s)))
       (setSamplerate (constructor MODEL_DSO2090 512 calibration0) 33300000)
      = Some (50000000, 50000000, 1)"
proof -
  have "map_option (\<lambda>(r, s). (r, samplerate_current (settings s), samplerate_downsampler (settings s)))
       (setSamplerate (constructor MODEL_DSO2090 512 calibration0) 33300000)
      = Some (50000000, 50000000, 1)"
    by (simp add: model_defs constructor_defs Let_def)
  with C8_samplerate_snap_2090 [of "constructor MODEL_DSO2090 512 calibration0" calibration0]
  show ?thesis
    by (simp add: constructor_def constructor_settings_def)
qed

text \<open>
  Claim C9: on the DSO-2090 family \<^verbatim>\<open>updateSamplerate\<close> encodes the fast rate flag as
  false whatever its \<open>fastRate\<close> argument is, and still switches
  \<^verbatim>\<open>settings.samplerate.limits\<close> to the multi limits when \<open>fastRate\<close> is true.
\<close>

theorem C9_updateSamplerate_2090_fastRate:
  assumes "bulk_setSamplerate (dso_specification s) = Some BULK_SETTRIGGERANDSAMPLERATE"
    and "updateSamplerate s downsampler fastRate = Some (r, s')"
  shows "fastRate_2090 s' = Some False
       \<and> samplerate_limits (settings s') = (if fastRate then Multi else Single)"
  using assms by (rule updateSamplerate_2090_fastRate)

text \<open>
  The DSO-2090 after the constructor, \<^verbatim>\<open>updateSamplerate(1, true)\<close>.
\<close>

theorem C9_witness:
  "\<exists>r s'. updateSamplerate (constructor MODEL_DSO2090 512 calibration0) 1 True = Some (r, s')
     \<and> fastRate_2090 s' = Some False \<and> samplerate_limits (settings s') = Multi"
proof -
  have "updateSamplerate (constructor MODEL_DSO2090 512 calibration0) 1 True \<noteq> None"
    by (simp add: model_defs constructor_defs Let_def)
  then obtain r s' where
    u: "updateSamplerate (constructor MODEL_DSO2090 512 calibration0) 1 True = Some (r, s')"
    by auto
  have "bulk_setSamplerate (dso_specification (constructor MODEL_DSO2090 512 calibration0))
      = Some BULK_SETTRIGGERANDSAMPLERATE"
    by (simp add: constructor_def specification_of_def limits_tables_of_def bulk_codes_of_def)
  from C9_updateSamplerate_2090_fastRate [OF this u] u show ?thesis by simp
qed

text \<open>
  Claim C1: in every reachable state, if \<open>settings.samplerate.limits\<close> points to the multi
  (fast rate) limits then \<open>settings.usedChannels \<le> 1\<close>, also after a
  \<^verbatim>\<open>setChannelUsed\<close> call that raises the channel count to 2 while fast rate is enabled.

  The code does not keep this invariant. On a DSO-2250 after the constructor:
  \<^verbatim>\<open>setChannelUsed(0, true)\<close>, \<^verbatim>\<open>setSamplerate(200e6)\<close> (one channel, above the
  single-channel maximum: fast rate is switched on) and \<^verbatim>\<open>setChannelUsed(1, true)\<close>
  leave the limits at the multi limits with two used channels:
  \<^verbatim>\<open>setChannelUsed\<close> calls \<^verbatim>\<open>updateSamplerateLimits\<close>, which only emits a
  signal, and never recomputes the samplerate.
\<close>

theorem C1_fast_rate_with_two_channels:
  "map_option (\<lambda>s. (samplerate_limits (settings s), usedChannels (settings s)))
     (do {
        (e1, s1) \<leftarrow> setChannelUsed (constructor MODEL_DSO2250 512 calibration0) 0 True;
        (r2, s2) \<leftarrow> setSamplerate s1 200000000;
        (e3, s3) \<leftarrow> setChannelUsed s2 1 True;
        Some s3
      }) = Some (Multi, 2)"
  by (simp add: model_defs constructor_defs Let_def new_BulkSetSamplerate2250_def
      new_BulkSetBuffer2250_def)

subsection \<open>Rounding to the nearest double\<close>


lemma round_even_of_int: "round_even (of_int n) = n"
  by (simp add: round_even_def)



lemma floor_log_bounds:
  assumes "0 < (x :: real)"
  shows "2 powi \<lfloor>log 2 x\<rfloor> \<le> x" "x < 2 powi (\<lfloor>log 2 x\<rfloor> + 1)"
proof -
  from floor_log_eq_powr_iff [of x 2 "\<lfloor>log 2 x\<rfloor>"] assms
  have "2 powr real_of_int \<lfloor>log 2 x\<rfloor> \<le> x \<and> x < 2 powr real_of_int (\<lfloor>log 2 x\<rfloor> + 1)"
    by simp
  then show "2 powi \<lfloor>log 2 x\<rfloor> \<le> x" "x < 2 powi (\<lfloor>log 2 x\<rfloor> + 1)"
    by (simp_all only: powr_real_of_int' [of 2, simplified])
qed








lemma double_round_dyadic:
  assumes m: "\<bar>m\<bar> < 2 ^ 53" and n: "n \<le> 1074"
  shows "double_round (of_int m / 2 ^ n) = of_int m / 2 ^ n"
proof (cases "m = 0")
  case True
  then show ?thesis by (simp add: double_round_def)
next
  case False
  define x :: real where "x = of_int m / 2 ^ n"
  define e where "e = double_exponent x"
  have nz: "x \<noteq> 0" using False by (simp add: x_def)
  then have pos: "0 < \<bar>x\<bar>" by simp
  have "(of_int \<bar>m\<bar> :: real) < of_int (2 ^ 53)" using m by (simp only: of_int_less_iff)
  then have "\<bar>of_int m :: real\<bar> < 2 ^ 53" by simp
  then have "\<bar>x\<bar> < 2 ^ 53 / 2 ^ n" by (simp add: x_def divide_strict_right_mono)
  also have "(2 :: real) ^ 53 / 2 ^ n = 2 powi (53 - int n)"
    by (simp add: power_int_diff)
  finally have up: "\<bar>x\<bar> < 2 powi (53 - int n)" .
  have "\<lfloor>log 2 \<bar>x\<bar>\<rfloor> < 53 - int n"
  proof (rule ccontr)
    assume "\<not> \<lfloor>log 2 \<bar>x\<bar>\<rfloor> < 53 - int n"
    then have "53 - int n \<le> \<lfloor>log 2 \<bar>x\<bar>\<rfloor>" by simp
    then have "(2 :: real) powi (53 - int n) \<le> 2 powi \<lfloor>log 2 \<bar>x\<bar>\<rfloor>"
      by (intro power_int_increasing) simp_all
    with floor_log_bounds(1) [OF pos] up show False by linarith
  qed
  with n have le: "e \<le> - int n" by (simp add: e_def double_exponent_def)
  define k where "k = nat (- int n - e)"
  have k: "e = - int n - int k" using le by (simp add: k_def)
  have q: "(2 :: real) powi e = 1 / (2 ^ n * 2 ^ k)"
    by (simp add: k power_int_diff power_int_minus field_simps)
  have "x / 2 powi e = of_int (m * 2 ^ k)" by (simp add: q x_def)
  then have "round_even (x / 2 powi e) = m * 2 ^ k" by (simp only: round_even_of_int)
  then have "double_round x = of_int (m * 2 ^ k) * 2 powi e"
    using nz by (simp add: double_round_def e_def)
  also have "\<dots> = x" by (simp add: q x_def)
  finally show ?thesis by (simp only: x_def)
qed

lemma double_round_int:
  assumes "\<bar>m\<bar> < 2 ^ 53"
  shows "double_round (of_int m) = of_int m"
  using double_round_dyadic [OF assms, of 0] by simp

subsection \<open>The record time set by setRecordTime\<close>










































text \<open>
  With the identity as rounding, the functions in double arithmetic are the exact ones.
\<close>

lemma getBestSamplerate_fl_exact:
  "getBestSamplerate_fl (\<lambda>x. x) s samplerate fastRate maximum
     = getBestSamplerate s samplerate fastRate maximum"
  by (simp only: getBestSamplerate_fl_def getBestSamplerate_def)

lemma setPretriggerPosition_fl_exact:
  "setPretriggerPosition_fl (\<lambda>x. x) s pos = setPretriggerPosition s pos"
  by (simp only: setPretriggerPosition_fl_def setPretriggerPosition_def)

lemma updateSamplerate_settings_fl_exact:
  "updateSamplerate_settings_fl (\<lambda>x. x) s downsampler fastRate
     = updateSamplerate_settings s downsampler fastRate"
  by (simp only: updateSamplerate_settings_fl_def updateSamplerate_settings_def
        setPretriggerPosition_fl_exact)

lemma updateSamplerate_fl_exact:
  "updateSamplerate_fl (\<lambda>x. x) s downsampler fastRate = updateSamplerate s downsampler fastRate"
  by (simp only: updateSamplerate_fl_def updateSamplerate_def updateSamplerate_settings_fl_exact)

subsection \<open>Setting an offset twice\<close>

lemma modify_control_Some:
  "(modify_control idx f s = Some s') =
     (\<exists>c c'. control_arr s idx = Some c \<and> f c = Some c' \<and>
        s' = s\<lparr>control_arr := (control_arr s)(idx \<mapsto> c')\<rparr>)"
  by (auto simp add: modify_control_def split: Option.bind_splits)

lemma as_SetOffset_Some:
  "(as_SetOffset f c = Some c') = (\<exists>x. c = CtlSetOffset x \<and> c' = CtlSetOffset (f x))"
  by (cases c) auto

lemma setTriggerLevel_value_cong:
  "same_reads t s channel \<Longrightarrow>
   voltage_offsetReal (voltage (settings t) channel) = voltage_offsetReal (voltage (settings s) channel) \<Longrightarrow>
   setTriggerLevel_value t channel level = setTriggerLevel_value s channel level"
  by (simp add: setTriggerLevel_value_def same_reads_def offsetLimits_def Let_def)

lemma setOffset_value_cong:
  "same_reads t s channel \<Longrightarrow> setOffset_value t channel x = setOffset_value s channel x"
  by (simp add: setOffset_value_def same_reads_def offsetLimits_def Let_def)

lemma setTriggerLevel_write_Some:
  "(setTriggerLevel_write s channel lv = Some s') =
     (if \<not> trigger_special (settings s) \<and> channel = trigger_source (settings s)
         \<and> getUniqueModelID s \<noteq> MODEL_DSO6022BE
      then \<exists>c. control_arr s CONTROLINDEX_SETOFFSET = Some (CtlSetOffset c) \<and>
             s' = s\<lparr>control_arr := (control_arr s)(CONTROLINDEX_SETOFFSET \<mapsto>
                                CtlSetOffset (c\<lparr>so_trigger := lv\<rparr>)),
                     controlPending := (controlPending s)(CONTROLINDEX_SETOFFSET := True)\<rparr>
      else s' = s)"
  by (auto simp add: setTriggerLevel_write_def bind_eq_Some_conv modify_control_Some
      as_SetOffset_Some set_controlPending_def)

lemma setOffset_write_Some:
  "(setOffset_write s channel v = Some s') =
     (if getUniqueModelID s \<noteq> MODEL_DSO6022BE
      then \<exists>c. control_arr s CONTROLINDEX_SETOFFSET = Some (CtlSetOffset c) \<and>
             s' = s\<lparr>control_arr := (control_arr s)(CONTROLINDEX_SETOFFSET \<mapsto>
                                CtlSetOffset (c\<lparr>so_channel := (so_channel c)(channel := v)\<rparr>)),
                     controlPending := (controlPending s)(CONTROLINDEX_SETOFFSET := True)\<rparr>
      else s' = s)"
  by (auto simp add: setOffset_write_def bind_eq_Some_conv modify_control_Some
      as_SetOffset_Some set_controlPending_def)

lemma setTriggerLevel_Some:
  assumes "isConnected s" and "channel < HANTEK_CHANNELS"
  shows "(setTriggerLevel s channel level = Some (rt, s')) =
     (\<exists>minimum maximum gainStep levelValue s1.
        setTriggerLevel_value s channel level = Some (minimum, maximum, gainStep, levelValue)
        \<and> setTriggerLevel_write s channel levelValue = Some s1
        \<and> maximum - minimum \<noteq> 0
        \<and> s' = s1\<lparr>settings := (settings s1)\<lparr>trigger_level :=
                   (trigger_level (settings s1))(channel := level)\<rparr>\<rparr>
        \<and> rt = Inr ((of_int (c_div (uint levelValue - minimum) (maximum - minimum))
                         - voltage_offsetReal (voltage (settings s') channel)) * gainStep))"
  using assms
  by (auto simp add: setTriggerLevel_def Let_def bind_eq_Some_conv)

lemma control_write_idem:
  "control_arr t idx = Some x \<Longrightarrow> controlPending t idx \<Longrightarrow>
   t\<lparr>control_arr := (control_arr t)(idx \<mapsto> x),
     controlPending := (controlPending t)(idx := True)\<rparr> = t"
  by (simp add: map_upd_triv fun_upd_idem)

lemma setTriggerLevel_again:
  assumes A: "setTriggerLevel s channel level = Some (rt, s')"
    and conn: "isConnected s" and ch: "channel < HANTEK_CHANNELS"
  shows "setTriggerLevel (with_offset s' channel x) channel level
           = Some (rt, with_offset s' channel x)"
proof -
  define t where "t = with_offset s' channel x"
  from A obtain minimum maximum gainStep levelValue s1 where
    v: "setTriggerLevel_value s channel level = Some (minimum, maximum, gainStep, levelValue)"
    and w: "setTriggerLevel_write s channel levelValue = Some s1"
    and nz: "maximum - minimum \<noteq> 0"
    and s': "s' = s1\<lparr>settings := (settings s1)\<lparr>trigger_level :=
                   (trigger_level (settings s1))(channel := level)\<rparr>\<rparr>"
    and rt: "rt = Inr ((of_int (c_div (uint levelValue - minimum) (maximum - minimum))
                         - voltage_offsetReal (voltage (settings s') channel)) * gainStep)"
    unfolding setTriggerLevel_Some [OF conn ch] by blast
  have reads: "same_reads t s channel"
    "voltage_offsetReal (voltage (settings t) channel) = voltage_offsetReal (voltage (settings s) channel)"
    "isConnected t" "trigger_level (settings t) channel = level"
    using w conn
    by (auto simp add: t_def with_offset_def s' same_reads_def setTriggerLevel_write_Some
        split: if_splits)
  have v': "setTriggerLevel_value t channel level = Some (minimum, maximum, gainStep, levelValue)"
    using setTriggerLevel_value_cong [OF reads(1,2)] v by simp
  have w': "setTriggerLevel_write t channel levelValue = Some t"
  proof (cases "\<not> trigger_special (settings s) \<and> channel = trigger_source (settings s)
         \<and> getUniqueModelID s \<noteq> MODEL_DSO6022BE")
    case True
    with w obtain c where c: "control_arr s CONTROLINDEX_SETOFFSET = Some (CtlSetOffset c)"
      and s1: "s1 = s\<lparr>control_arr := (control_arr s)(CONTROLINDEX_SETOFFSET \<mapsto>
                                CtlSetOffset (c\<lparr>so_trigger := levelValue\<rparr>)),
                     controlPending := (controlPending s)(CONTROLINDEX_SETOFFSET := True)\<rparr>"
      unfolding setTriggerLevel_write_Some by auto
    have ct: "control_arr t CONTROLINDEX_SETOFFSET
        = Some (CtlSetOffset (c\<lparr>so_trigger := levelValue\<rparr>))"
      and pt: "controlPending t CONTROLINDEX_SETOFFSET"
      by (simp_all add: t_def with_offset_def s' s1)
    have cond: "\<not> trigger_special (settings t) \<and> channel = trigger_source (settings t)
         \<and> getUniqueModelID t \<noteq> MODEL_DSO6022BE"
      using True reads(1) by (simp add: same_reads_def)
    have "t = t\<lparr>control_arr := (control_arr t)(CONTROLINDEX_SETOFFSET \<mapsto>
                                CtlSetOffset (c\<lparr>so_trigger := levelValue\<rparr>)),
                     controlPending := (controlPending t)(CONTROLINDEX_SETOFFSET := True)\<rparr>"
      using control_write_idem [OF ct pt] by simp
    then have "\<exists>c'. control_arr t CONTROLINDEX_SETOFFSET = Some (CtlSetOffset c') \<and>
             t = t\<lparr>control_arr := (control_arr t)(CONTROLINDEX_SETOFFSET \<mapsto>
                                CtlSetOffset (c'\<lparr>so_trigger := levelValue\<rparr>)),
                     controlPending := (controlPending t)(CONTROLINDEX_SETOFFSET := True)\<rparr>"
      using ct by (intro exI [of _ "c\<lparr>so_trigger := levelValue\<rparr>"]) simp
    with cond show ?thesis unfolding setTriggerLevel_write_Some by simp
  next
    case False
    then have nc: "\<not> (\<not> trigger_special (settings t) \<and> channel = trigger_source (settings t)
         \<and> getUniqueModelID t \<noteq> MODEL_DSO6022BE)"
      using reads(1) by (simp add: same_reads_def)
    show ?thesis unfolding setTriggerLevel_write_Some if_not_P [OF nc] ..
  qed
  have tl: "t\<lparr>settings := (settings t)\<lparr>trigger_level :=
                   (trigger_level (settings t))(channel := level)\<rparr>\<rparr> = t"
    using reads(4) by (simp add: fun_upd_idem)
  have "voltage_offsetReal (voltage (settings t) channel)
      = voltage_offsetReal (voltage (settings s') channel)"
    by (simp add: t_def with_offset_def)
  with v' w' nz tl rt have "setTriggerLevel t channel level = Some (rt, t)"
    unfolding setTriggerLevel_Some [OF reads(3) ch] by auto
  then show ?thesis by (simp add: t_def)
qed

lemma setTriggerLevel_frame:
  assumes A: "setTriggerLevel s channel level = Some (rt, s')"
    and conn: "isConnected s" and ch: "channel < HANTEK_CHANNELS"
  shows "same_reads s' s channel" and "voltage (settings s') = voltage (settings s)"
    and "trigger_level (settings s') channel = level"
    and "control_arr s CONTROLINDEX_SETOFFSET = Some (CtlSetOffset c) \<Longrightarrow>
         \<exists>c'. control_arr s' CONTROLINDEX_SETOFFSET = Some (CtlSetOffset c')
              \<and> so_channel c' = so_channel c"
    and "controlPending s CONTROLINDEX_SETOFFSET \<Longrightarrow> controlPending s' CONTROLINDEX_SETOFFSET"
proof -
  from A obtain minimum maximum gainStep levelValue s1 where
    w: "setTriggerLevel_write s channel levelValue = Some s1"
    and s': "s' = s1\<lparr>settings := (settings s1)\<lparr>trigger_level :=
                   (trigger_level (settings s1))(channel := level)\<rparr>\<rparr>"
    unfolding setTriggerLevel_Some [OF conn ch] by blast
  from w have s1: "settings s1 = settings s" "isConnected s1 = isConnected s"
    "getUniqueModelID s1 = getUniqueModelID s" "dso_specification s1 = dso_specification s"
    by (auto simp add: setTriggerLevel_write_Some split: if_splits)
  show "same_reads s' s channel" "voltage (settings s') = voltage (settings s)"
    "trigger_level (settings s') channel = level"
    by (simp_all add: s' s1 same_reads_def)
  show "\<exists>c'. control_arr s' CONTROLINDEX_SETOFFSET = Some (CtlSetOffset c')
              \<and> so_channel c' = so_channel c"
    if "control_arr s CONTROLINDEX_SETOFFSET = Some (CtlSetOffset c)"
    using w that by (auto simp add: s' setTriggerLevel_write_Some split: if_splits)
  show "controlPending s' CONTROLINDEX_SETOFFSET" if "controlPending s CONTROLINDEX_SETOFFSET"
    using w that by (auto simp add: s' setTriggerLevel_write_Some split: if_splits)
qed

lemma setOffset_Some:
  assumes "isConnected s" and "channel < HANTEK_CHANNELS"
  shows "(setOffset s channel x = Some (ret, s')) =
     (\<exists>offsetValue offsetReal s1 rt.
        setOffset_value s channel x = Some (offsetValue, offsetReal)
        \<and> setOffset_write s channel offsetValue = Some s1
        \<and> setTriggerLevel
             (s1\<lparr>settings := (settings s1)\<lparr>voltage := (voltage (settings s1))(channel :=
                   (voltage (settings s1) channel)\<lparr>voltage_offset := x,
                                                      voltage_offsetReal := offsetReal\<rparr>)\<rparr>\<rparr>)
             channel (trigger_level (settings s1) channel) = Some (rt, s')
        \<and> ret = Inr offsetReal)"
  using assms
  by (auto simp add: setOffset_def Let_def bind_eq_Some_conv)

lemma trunc_half: "0 \<le> k \<Longrightarrow> trunc (of_int k + 1 / 2) = k"
  by (simp add: trunc_def)

lemma trunc_range: "- 1 < x \<Longrightarrow> x < 65536 \<Longrightarrow> 0 \<le> trunc x \<and> trunc x < 65536"
  by (auto simp add: trunc_def floor_less_iff le_floor_iff ceiling_less_iff)

lemma setOffset_value_again:
  assumes v: "setOffset_value s channel x = Some (offsetValue, offsetReal)"
    and lim: "offsetLimits s channel = Some (minimum, maximum)"
    and lt: "minimum < maximum"
  shows "setOffset_value s channel offsetReal = Some (offsetValue, offsetReal)"
proof -
  define k where "k = trunc (x * of_int (maximum - minimum) + of_int minimum + 0.5)"
  from v lim have rng: "- 1 < x * of_int (maximum - minimum) + of_int minimum + 0.5"
      "x * of_int (maximum - minimum) + of_int minimum + 0.5 < 65536"
    and ov: "offsetValue = word_of_int k"
    and orl: "offsetReal = of_int (uint offsetValue - minimum) / of_int (maximum - minimum)"
    by (auto simp add: setOffset_value_def toUShort_def k_def split: if_splits)
  from trunc_range [OF rng] have kr: "0 \<le> k" "k < 65536" by (simp_all add: k_def)
  then have uk: "uint offsetValue = k"
    by (simp add: ov uint_word_of_int_eq take_bit_int_eq_self)
  have d: "(of_int (maximum - minimum) :: real) \<noteq> 0" using lt by simp
  have "offsetReal * of_int (maximum - minimum) = of_int (k - minimum)"
    unfolding orl uk using d by simp
  then have e: "offsetReal * of_int (maximum - minimum) + of_int minimum + 0.5 = of_int k + 1 / 2"
    by simp
  have tu: "toUShort (offsetReal * of_int (maximum - minimum) + of_int minimum + 0.5)
      = Some offsetValue"
    unfolding e using kr by (simp add: toUShort_def trunc_half ov)
  show ?thesis
    unfolding setOffset_value_def lim
    by (simp only: bind.bind_lunit prod.case tu orl [symmetric])
qed

lemma setOffset_write_frame:
  assumes "setOffset_write s channel v = Some s1"
  shows "settings s1 = settings s" "isConnected s1 = isConnected s"
    "getUniqueModelID s1 = getUniqueModelID s" "dso_specification s1 = dso_specification s"
  using assms by (auto simp add: setOffset_write_Some split: if_splits)

lemma setOffset_again:
  assumes conn: "isConnected s" and ch: "channel < HANTEK_CHANNELS"
    and lim: "offsetLimits s channel = Some (minimum, maximum)" and lt: "minimum < maximum"
    and first: "setOffset s channel f = Some (ret, s1)"
  shows "\<exists>r. ret = Inr r \<and> voltage_offsetReal (voltage (settings s1) channel) = r
     \<and> setOffset_value s1 channel r = setOffset_value s channel f
     \<and> setOffset s1 channel r = Some (Inr r, with_offset s1 channel r)"
proof -
  from first obtain v r sa rt where
    val: "setOffset_value s channel f = Some (v, r)"
    and w: "setOffset_write s channel v = Some sa"
    and tl: "setTriggerLevel
             (sa\<lparr>settings := (settings sa)\<lparr>voltage := (voltage (settings sa))(channel :=
                   (voltage (settings sa) channel)\<lparr>voltage_offset := f,
                                                      voltage_offsetReal := r\<rparr>)\<rparr>\<rparr>)
             channel (trigger_level (settings sa) channel) = Some (rt, s1)"
    and ret: "ret = Inr r"
    unfolding setOffset_Some [OF conn ch] by blast
  define s2 where "s2 = sa\<lparr>settings := (settings sa)\<lparr>voltage := (voltage (settings sa))(channel :=
                   (voltage (settings sa) channel)\<lparr>voltage_offset := f,
                                                      voltage_offsetReal := r\<rparr>)\<rparr>\<rparr>"
  define level where "level = trigger_level (settings sa) channel"
  note fw = setOffset_write_frame [OF w]
  have conn2: "isConnected s2" using conn fw by (simp add: s2_def)
  have tl2: "setTriggerLevel s2 channel level = Some (rt, s1)"
    using tl by (simp add: s2_def level_def)
  note fr = setTriggerLevel_frame [OF tl2 conn2 ch]
  have conn1: "isConnected s1" using fr(1) conn2 by (simp add: same_reads_def)
  have r1: "voltage_offsetReal (voltage (settings s1) channel) = r"
    using fr(2) by (simp add: s2_def)
  have reads: "same_reads s1 s channel"
    using fr(1) fw by (simp add: same_reads_def s2_def)
  have val1: "setOffset_value s1 channel r = Some (v, r)"
    using setOffset_value_cong [OF reads] setOffset_value_again [OF val lim lt] by simp
  have w1: "setOffset_write s1 channel v = Some s1"
  proof (cases "getUniqueModelID s \<noteq> MODEL_DSO6022BE")
    case True
    with w obtain c where c: "control_arr s CONTROLINDEX_SETOFFSET = Some (CtlSetOffset c)"
      and sa: "sa = s\<lparr>control_arr := (control_arr s)(CONTROLINDEX_SETOFFSET \<mapsto>
                                CtlSetOffset (c\<lparr>so_channel := (so_channel c)(channel := v)\<rparr>)),
                     controlPending := (controlPending s)(CONTROLINDEX_SETOFFSET := True)\<rparr>"
      unfolding setOffset_write_Some by auto
    have c2: "control_arr s2 CONTROLINDEX_SETOFFSET
        = Some (CtlSetOffset (c\<lparr>so_channel := (so_channel c)(channel := v)\<rparr>))"
      and p2: "controlPending s2 CONTROLINDEX_SETOFFSET"
      by (simp_all add: s2_def sa)
    from fr(4) [OF c2] obtain c' where
      c': "control_arr s1 CONTROLINDEX_SETOFFSET = Some (CtlSetOffset c')"
      and ch': "so_channel c' = (so_channel c)(channel := v)"
      by auto
    have p1: "controlPending s1 CONTROLINDEX_SETOFFSET" using fr(5) [OF p2] .
    have "c'\<lparr>so_channel := (so_channel c')(channel := v)\<rparr> = c'"
      by (simp add: ch')
    then have "s1 = s1\<lparr>control_arr := (control_arr s1)(CONTROLINDEX_SETOFFSET \<mapsto>
                                CtlSetOffset (c'\<lparr>so_channel := (so_channel c')(channel := v)\<rparr>)),
                     controlPending := (controlPending s1)(CONTROLINDEX_SETOFFSET := True)\<rparr>"
      using control_write_idem [OF c' p1] by simp
    then have "\<exists>c. control_arr s1 CONTROLINDEX_SETOFFSET = Some (CtlSetOffset c) \<and>
             s1 = s1\<lparr>control_arr := (control_arr s1)(CONTROLINDEX_SETOFFSET \<mapsto>
                                CtlSetOffset (c\<lparr>so_channel := (so_channel c)(channel := v)\<rparr>)),
                     controlPending := (controlPending s1)(CONTROLINDEX_SETOFFSET := True)\<rparr>"
      using c' by (intro exI [of _ c']) simp
    moreover have "getUniqueModelID s1 \<noteq> MODEL_DSO6022BE"
      using True reads by (simp add: same_reads_def)
    ultimately show ?thesis unfolding setOffset_write_Some by simp
  next
    case False
    then have nc: "\<not> getUniqueModelID s1 \<noteq> MODEL_DSO6022BE"
      using reads by (simp add: same_reads_def)
    show ?thesis unfolding setOffset_write_Some if_not_P [OF nc] ..
  qed
  have upd: "s1\<lparr>settings := (settings s1)\<lparr>voltage := (voltage (settings s1))(channel :=
                   (voltage (settings s1) channel)\<lparr>voltage_offset := r,
                                                      voltage_offsetReal := r\<rparr>)\<rparr>\<rparr>
      = with_offset s1 channel r"
  proof -
    have "(voltage (settings s1) channel)\<lparr>voltage_offset := r, voltage_offsetReal := r\<rparr>
        = (voltage (settings s1) channel)\<lparr>voltage_offset := r\<rparr>"
      using r1 by (cases "voltage (settings s1) channel") simp
    then show ?thesis by (simp add: with_offset_def)
  qed
  have lv1: "trigger_level (settings s1) channel = level" using fr(3) .
  have tl1: "setTriggerLevel (with_offset s1 channel r) channel level
      = Some (rt, with_offset s1 channel r)"
    by (rule setTriggerLevel_again [OF tl2 conn2 ch])
  have "setOffset s1 channel r = Some (Inr r, with_offset s1 channel r)"
    unfolding setOffset_Some [OF conn1 ch]
    using val1 w1 tl1 by (auto simp add: upd lv1)
  with ret r1 val val1 show ?thesis by simp
qed

text \<open>
  Claim C7: offset quantisation is idempotent. If \<^verbatim>\<open>setOffset(channel, f)\<close> on a connected
  device with calibration limits \<open>minimum < maximum\<close> stores \<open>offsetReal = r\<close>, then the
  quantised \<open>offsetValue\<close> computed from \<open>r\<close> is the one computed from \<open>f\<close>, and
  \<^verbatim>\<open>setOffset(channel, r)\<close> returns \<open>r\<close> and changes nothing in the state but the
  requested offset \<^verbatim>\<open>settings.voltage[channel].offset\<close>: the encoder holds the same
  \<open>offsetValue\<close> and the stored \<open>offsetReal\<close> is \<open>r\<close>. No bound on \<open>f\<close> is
  needed: when the conversion to \<^verbatim>\<open>unsigned short\<close> is defined, the result holds.
\<close>

theorem C7_setOffset_idempotent:
  assumes conn: "isConnected s" and ch: "channel < HANTEK_CHANNELS"
    and lim: "offsetLimits s channel = Some (minimum, maximum)" and lt: "minimum < maximum"
    and first: "setOffset s channel f = Some (ret, s1)"
  shows "\<exists>offsetValue r. ret = Inr r
     \<and> voltage_offsetReal (voltage (settings s1) channel) = r
     \<and> setOffset_value s channel f = Some (offsetValue, r)
     \<and> setOffset_value s1 channel r = Some (offsetValue, r)
     \<and> setOffset s1 channel r = Some (Inr r, with_offset s1 channel r)"
proof -
  from setOffset_again [OF conn ch lim lt first] obtain r where
    r: "ret = Inr r" "voltage_offsetReal (voltage (settings s1) channel) = r"
      "setOffset_value s1 channel r = setOffset_value s channel f"
      "setOffset s1 channel r = Some (Inr r, with_offset s1 channel r)"
    by blast
  from first r(1) obtain offsetValue where "setOffset_value s channel f = Some (offsetValue, r)"
    unfolding setOffset_Some [OF conn ch] by auto
  with r show ?thesis by simp
qed

lemma dso2090_fields:
  "isConnected (constructor MODEL_DSO2090 512 calibration0)"
  "getUniqueModelID (constructor MODEL_DSO2090 512 calibration0) = MODEL_DSO2090"
  "voltage (settings (constructor MODEL_DSO2090 512 calibration0)) channel
     = \<lparr>voltage_gain = 0, voltage_offset = 0, voltage_offsetReal = 0, voltage_used = False\<rparr>"
  "trigger_level (settings (constructor MODEL_DSO2090 512 calibration0)) channel = 0"
  "trigger_special (settings (constructor MODEL_DSO2090 512 calibration0)) = False"
  "trigger_source (settings (constructor MODEL_DSO2090 512 calibration0)) = 0"
  "offsetLimit (dso_specification (constructor MODEL_DSO2090 512 calibration0)) channel gainId
     = ((0, 0), (255, 255))"
  "gainSteps (dso_specification (constructor MODEL_DSO2090 512 calibration0))
     = [0.08, 0.16, 0.40, 0.80, 1.60, 4.00, 8.0, 16.0, 40.0]"
  "control_arr (constructor MODEL_DSO2090 512 calibration0) CONTROLINDEX_SETOFFSET
     = Some (CtlSetOffset new_ControlSetOffset)"
  by (simp_all add: constructor_defs calibration0_def)

lemma setOffset_2090_first:
  "map_option fst (setOffset (constructor MODEL_DSO2090 512 calibration0) 0 (3 / 10))
     = Some (Inr (19661 / 65535))"
  by (simp add: setOffset_def setOffset_value_def setOffset_write_def setTriggerLevel_def
      setTriggerLevel_value_def setTriggerLevel_write_def offsetLimits_def bigEndian_def
      toUShort_def toLong_def trunc_def qBound_def c_div_def modify_control_def
      set_controlPending_def nth_opt_def dso2090_fields HANTEK_CHANNELS_def Let_def)

text \<open>
  The DSO-2090 after the constructor, \<open>f = 0.3\<close>: the offset value is 19661 and
  \<open>r = 19661 / 65535\<close>.
\<close>

theorem C7_witness:
  "\<exists>s1. setOffset (constructor MODEL_DSO2090 512 calibration0) 0 (3 / 10)
            = Some (Inr (19661 / 65535), s1)
     \<and> voltage_offsetReal (voltage (settings s1) 0) = 19661 / 65535
     \<and> setOffset_value s1 0 (19661 / 65535) = Some (19661, 19661 / 65535)
     \<and> setOffset s1 0 (19661 / 65535) = Some (Inr (19661 / 65535), with_offset s1 0 (19661 / 65535))"
proof -
  from setOffset_2090_first obtain s1 where
    f: "setOffset (constructor MODEL_DSO2090 512 calibration0) 0 (3 / 10)
            = Some (Inr (19661 / 65535), s1)"
    by auto
  have v: "setOffset_value (constructor MODEL_DSO2090 512 calibration0) 0 (3 / 10)
      = Some (19661, 19661 / 65535)"
    by (simp add: setOffset_value_def offsetLimits_def bigEndian_def toUShort_def trunc_def
        dso2090_fields)
  have l: "offsetLimits (constructor MODEL_DSO2090 512 calibration0) 0 = Some (0, 65535)"
    by (simp add: offsetLimits_def bigEndian_def dso2090_fields)
  have "\<exists>offsetValue r. (Inr (19661 / 65535) :: ErrorCode + real) = Inr r
     \<and> voltage_offsetReal (voltage (settings s1) 0) = r
     \<and> setOffset_value (constructor MODEL_DSO2090 512 calibration0) 0 (3 / 10)
          = Some (offsetValue, r)
     \<and> setOffset_value s1 0 r = Some (offsetValue, r)
     \<and> setOffset s1 0 r = Some (Inr r, with_offset s1 0 r)"
    by (rule C7_setOffset_idempotent [OF _ _ l _ f])
      (simp_all add: dso2090_fields HANTEK_CHANNELS_def)
  then obtain offsetValue r where
    r: "(Inr (19661 / 65535) :: ErrorCode + real) = Inr r"
      "voltage_offsetReal (voltage (settings s1) 0) = r"
      "setOffset_value (constructor MODEL_DSO2090 512 calibration0) 0 (3 / 10)
          = Some (offsetValue, r)"
      "setOffset_value s1 0 r = Some (offsetValue, r)"
      "setOffset s1 0 r = Some (Inr r, with_offset s1 0 r)"
    by blast
  from r(1) have r': "r = 19661 / 65535" by (simp only: sum.inject)
  from r(3) v have o: "offsetValue = 19661" by (simp only: option.inject prod.inject)
  from f r(2,4,5) show ?thesis unfolding r' o by blast
qed

subsection \<open>The result vectors of getSamples\<close>

lemma convert_loop_frame:
  "convert_loop n sample modulus step realPosition bufferPosition out = Some out' \<Longrightarrow>
   length out' = length out \<and>
   (\<forall>i. i < realPosition \<or> realPosition + n \<le> i \<longrightarrow> out' ! i = out ! i)"
proof (induction n arbitrary: realPosition bufferPosition out)
  case 0
  then show ?case by simp
next
  case (Suc n)
  define bp where "bp = (if bufferPosition \<ge> modulus then bufferPosition mod modulus
                              else bufferPosition)"
  from Suc.prems obtain x where
    x: "sample bp = Some x" and r: "realPosition < length out"
    and rec: "convert_loop n sample modulus step (Suc realPosition) (bp + step)
                 (out[realPosition := x]) = Some out'"
    by (auto simp add: Let_def bp_def bind_eq_Some_conv split: if_splits)
  from Suc.IH [OF rec] show ?case by auto
qed

lemma convert_channel_frame:
  assumes "convert_channel s buf totalSampleCount channel old = Some new"
    and "voltage_used (voltage (settings s) channel)"
  shows "length new = max (length old) (unat (normal_sampleCount s totalSampleCount))"
    and "\<forall>i. unat (normal_sampleCount s totalSampleCount) \<le> i \<and> i < length old
           \<longrightarrow> new ! i = old ! i"
proof -
  define n where "n = unat (normal_sampleCount s totalSampleCount)"
  define out where "out = (if length old < n then resize n old else old)"
  from assms obtain sample st bp where
    "convert_loop n sample totalSampleCount st 0 bp out = Some new"
    unfolding convert_channel_def Let_def n_def [symmetric] out_def [symmetric]
    by (auto split: if_splits)
  from convert_loop_frame [OF this]
  have len: "length new = length out" and keep: "\<forall>i. n \<le> i \<longrightarrow> new ! i = out ! i"
    by auto
  have lo: "length out = max (length old) n"
    by (auto simp add: out_def resize_def)
  show "length new = max (length old) (unat (normal_sampleCount s totalSampleCount))"
    using len lo by (simp add: n_def)
  show "\<forall>i. unat (normal_sampleCount s totalSampleCount) \<le> i \<and> i < length old
           \<longrightarrow> new ! i = old ! i"
    using keep by (auto simp add: out_def n_def)
qed

lemma normal_sampleCount_cong:
  "getUniqueModelID t = getUniqueModelID s \<Longrightarrow> normal_sampleCount t n = normal_sampleCount s n"
  by (simp add: normal_sampleCount_def)

lemma getSamples_normal_convert:
  assumes g: "getSamples s True getData (Received bytes) = Some (r, s')"
    and r: "0 \<le> r"
    and n: "samplerate_limits (settings s) = Single"
  shows "\<exists>t buf. convert_normal t buf (if sampleSize (dso_specification s) > 8
                           then word_of_int r div 2 else word_of_int r)
             = Some (result_data (dso_result s'))
           \<and> settings t = settings s \<and> dso_specification t = dso_specification s
           \<and> getUniqueModelID t = getUniqueModelID s \<and> dso_result t = dso_result s"
proof -
  from g r have nd: "\<not> (getUniqueModelID s \<noteq> MODEL_DSO6022BE \<and> getData < 0)"
    by (auto simp add: getSamples_def)
  from g nd obtain total where
    sc: "getSampleCount s = Some (total, False)"
    using n by (auto simp add: getSamples_def getSampleCount_def bind_eq_Some_conv)
  have nt: "total \<noteq> UINT_MAX"
    using g nd r sc by (auto simp add: getSamples_def LIBUSB_ERROR_INVALID_PARAM_def)
  define t where "t = (if total < previousSampleCount s
                then s\<lparr>previousSampleCount := total\<rparr>
                else s\<lparr>previousSampleCount := total\<rparr>)"
  define total' where "total' = (if total < previousSampleCount s
                then previousSampleCount s else total)"
  define dataLength where "dataLength = (if sampleSize (dso_specification s) > 8
                           then total' * 2 else total')"
  define received where "received = take (unat dataLength) bytes"
  define buf where "buf = received @ replicate (unat dataLength - length received) 0"
  have ts: "settings t = settings s" "dso_specification t = dso_specification s"
    "getUniqueModelID t = getUniqueModelID s" "dso_result t = dso_result s"
    by (simp_all add: t_def)
  from g nd sc nt obtain converted where
    "convert_normal t buf (if sampleSize (dso_specification s) > 8
        then word_of_int (int (length received)) div 2 else word_of_int (int (length received)))
      = Some converted"
    and "r = int (length received)"
    and "result_data (dso_result s') = converted"
    unfolding getSamples_def Let_def
    by (auto simp add: bind_eq_Some_conv t_def total'_def dataLength_def received_def buf_def
        split: if_splits)
  with ts show ?thesis by (intro exI [of _ t] exI [of _ buf]) (auto split: if_splits)
qed

lemma convert_normal_channel:
  assumes "convert_normal t buf n = Some converted" and "channel < HANTEK_CHANNELS"
  shows "convert_channel t buf n channel (result_data (dso_result t) channel)
           = Some (converted channel)"
proof -
  from assms(2) have "channel = 0 \<or> channel = 1" by (auto simp add: HANTEK_CHANNELS_def)
  with assms(1) show ?thesis
    by (auto simp add: convert_normal_def bind_eq_Some_conv)
qed

text \<open>
  Claim C10: in the normal (not fast rate) decode \<^verbatim>\<open>getSamples\<close> never shrinks the
  result vector of a used channel. After a read of \<open>r\<close> bytes its length is the maximum
  of the old length and the new sample count, and the entries from the new sample count on
  are the ones of the earlier frame, as \<^verbatim>\<open>getLastSamples\<close> shows them.
\<close>

theorem C10_getSamples_never_shrinks:
  assumes g: "getSamples s True getData (Received bytes) = Some (r, s')"
    and r: "0 \<le> r"
    and n: "samplerate_limits (settings s) = Single"
    and ch: "channel < HANTEK_CHANNELS"
    and u: "voltage_used (voltage (settings s) channel)"
  shows "length (result_data (getLastSamples s') channel)
           = max (length (result_data (getLastSamples s) channel))
                 (unat (received_sampleCount s r))
       \<and> (\<forall>i. unat (received_sampleCount s r) \<le> i
                \<and> i < length (result_data (getLastSamples s) channel)
              \<longrightarrow> result_data (getLastSamples s') channel ! i
                   = result_data (getLastSamples s) channel ! i)"
proof -
  from getSamples_normal_convert [OF g r n] obtain t buf where
    c: "convert_normal t buf (if sampleSize (dso_specification s) > 8
                           then word_of_int r div 2 else word_of_int r)
             = Some (result_data (dso_result s'))"
    and t: "settings t = settings s" "dso_specification t = dso_specification s"
      "getUniqueModelID t = getUniqueModelID s" "dso_result t = dso_result s"
    by blast
  have u': "voltage_used (voltage (settings t) channel)" using u t by simp
  have sc: "normal_sampleCount t (if sampleSize (dso_specification s) > 8
                           then word_of_int r div 2 else word_of_int r)
      = received_sampleCount s r"
    using t by (simp add: received_sampleCount_def normal_sampleCount_def)
  from convert_channel_frame [OF convert_normal_channel [OF c ch] u'] t sc
  show ?thesis by (simp add: getLastSamples_def)
qed

lemma convert_loop_numeral:
  "convert_loop (numeral k) sample modulus step realPosition bufferPosition out =
     convert_loop (Suc (pred_numeral k)) sample modulus step realPosition bufferPosition out"
  by (simp only: numeral_eq_Suc)

lemma current_limits_previousSampleCount:
  "current_limits (s\<lparr>previousSampleCount := n\<rparr>) = current_limits s"
  by (simp add: current_limits_def)

lemma earlier_frame_fields:
  "getUniqueModelID earlier_frame = MODEL_DSO2090"
  "getPacketSize earlier_frame = 512"
  "sampleSize (dso_specification earlier_frame) = 8"
  "recordLengths (current_limits earlier_frame) = [4294967295, 10240, 32768]"
  "recordLengthId (settings earlier_frame) = 1"
  "samplerate_limits (settings earlier_frame) = Single"
  "samplerate_current (settings earlier_frame) = 100000000"
  "previousSampleCount earlier_frame = 0"
  "trigger_point (settings earlier_frame) = 0"
  "voltage (settings earlier_frame) channel = \<lparr>voltage_gain = 0, voltage_offset = 0,
                          voltage_offsetReal = 0, voltage_used = True\<rparr>"
  "voltageLimit (dso_specification earlier_frame) channel
     = [255, 255, 255, 255, 255, 255, 255, 255, 255]"
  "gainSteps (dso_specification earlier_frame)
     = [0.08, 0.16, 0.40, 0.80, 1.60, 4.00, 8.0, 16.0, 40.0]"
  "result_data (dso_result earlier_frame) channel = [1, 2, 3, 4, 5, 6, 7, 8]"
  by (simp_all add: earlier_frame_def constructor_defs current_limits_def limits_of_def)

text \<open>
  A DSO-2090 that holds eight samples per channel reads four bytes: two samples per channel
  are stored, the length stays eight and the last six entries are the old ones.
\<close>

theorem C10_witness:
  "\<exists>s'. getSamples earlier_frame True 0 (Received [10, 20, 30, 40]) = Some (4, s')
     \<and> length (result_data (getLastSamples s') 0) = 8
     \<and> drop 2 (result_data (getLastSamples s') 0) = [3, 4, 5, 6, 7, 8]"
proof -
  have e: "map_option (\<lambda>(r, s'). (r, result_data (dso_result s') 0))
      (getSamples earlier_frame True 0 (Received [10, 20, 30, 40]))
     = Some (4, [20 / 255 * 0.08, 40 / 255 * 0.08, 3, 4, 5, 6, 7, 8])"
    by (simp add: getSamples_def getSampleCount_def convert_normal_def convert_channel_def
        normal_sampleCount_def sample_normal8_def normalise_def nth_opt_def
        LIBUSB_ERROR_INVALID_PARAM_def UINT_MAX_def HANTEK_CHANNELS_def
        earlier_frame_fields convert_loop_numeral current_limits_previousSampleCount Let_def)
  then obtain s' where
    g: "getSamples earlier_frame True 0 (Received [10, 20, 30, 40]) = Some (4, s')"
    and d: "result_data (dso_result s') 0 = [20 / 255 * 0.08, 40 / 255 * 0.08, 3, 4, 5, 6, 7, 8]"
    by auto
  have n: "received_sampleCount earlier_frame 4 = 2"
    by (simp add: received_sampleCount_def normal_sampleCount_def earlier_frame_fields
        HANTEK_CHANNELS_def)
  from C10_getSamples_never_shrinks [OF g, of 0]
  have "length (result_data (getLastSamples s') 0) = 8"
    by (simp add: earlier_frame_fields HANTEK_CHANNELS_def getLastSamples_def n)
  with g d show ?thesis by (simp add: getLastSamples_def)
qed

lemma dso6022_fields:
  "getUniqueModelID dso6022 = MODEL_DSO6022BE"
  "getPacketSize dso6022 = 512"
  "sampleSize (dso_specification dso6022) = 8"
  "recordLengths (current_limits dso6022) = [4294967295, 10240]"
  "recordLengthId (settings dso6022) = 1"
  "samplerate_limits (settings dso6022) = Single"
  "previousSampleCount dso6022 = 0"
  "trigger_point (settings dso6022) = 0"
  "voltage (settings dso6022) channel = \<lparr>voltage_gain = 0, voltage_offset = 0,
                          voltage_offsetReal = 0, voltage_used = True\<rparr>"
  "voltageLimit (dso_specification dso6022) channel
     = [25, 51, 103, 206, 412, 196, 392, 784, 1000]"
  "gainSteps (dso_specification dso6022)
     = [0.08, 0.16, 0.40, 0.80, 1.60, 4.00, 8.0, 16.0, 40.0]"
  "result_data (dso_result dso6022) channel = []"
  by (simp_all add: dso6022_def constructor_defs current_limits_def limits_of_def)

lemma convert_loop_modulus_0:
  "0 < n \<Longrightarrow> convert_loop n sample 0 step realPosition bufferPosition out = None"
  by (cases n) simp_all

lemma convert_loop_total:
  assumes "modulus \<noteq> 0" and "\<forall>p. p < modulus \<longrightarrow> sample p \<noteq> None"
    and "realPosition + n \<le> length out"
  shows "convert_loop n sample modulus step realPosition bufferPosition out \<noteq> None"
  using assms(3)
proof (induction n arbitrary: realPosition bufferPosition out)
  case 0
  then show ?case by simp
next
  case (Suc n)
  define bp where "bp = (if bufferPosition \<ge> modulus then bufferPosition mod modulus
                              else bufferPosition)"
  have "0 < modulus" using assms(1) by (simp add: word_greater_zero_iff)
  then have "bufferPosition mod modulus < modulus" by (rule word_mod_less_divisor)
  then have "bp < modulus" by (auto simp add: bp_def)
  with assms(2) obtain x where x: "sample bp = Some x" by auto
  from Suc.prems have r: "realPosition < length out" by simp
  from Suc.prems have "Suc realPosition + n \<le> length (out[realPosition := x])" by simp
  from Suc.IH [OF this]
  have "convert_loop n sample modulus step (Suc realPosition) (bp + step)
          (out[realPosition := x]) \<noteq> None" .
  with x r assms(1) show ?case
    by (simp add: Let_def bp_def [symmetric])
qed

lemma dso6022_short_read_channel:
  assumes "channel < HANTEK_CHANNELS"
  shows "\<exists>out. convert_channel (dso6022\<lparr>previousSampleCount := 20480\<rparr>)
            (replicate 100 0 @ replicate 20380 0) 100 channel [] = Some out
          \<and> length out = 4294965298"
proof -
  define t where "t = dso6022\<lparr>previousSampleCount := 20480\<rparr>"
  define buf :: "8 word list" where "buf = replicate 100 0 @ replicate 20380 0"
  have n: "normal_sampleCount t 100 = 4294965298"
    by (simp add: t_def normal_sampleCount_def dso6022_fields
        HANTEK_CHANNELS_def DROP_DSO6022_HEAD_def DROP_DSO6022_TAIL_def)
  have u: "voltage_used (voltage (settings t) channel)"
    by (simp add: t_def dso6022_fields)
  have sample: "\<forall>p. p < 100 \<longrightarrow> sample_normal8 t buf channel p \<noteq> None"
  proof (intro allI impI)
    fix p :: "32 word"
    assume "p < 100"
    then have "unat p < 100" by (simp add: word_less_nat_alt)
    then show "sample_normal8 t buf channel p \<noteq> None"
      by (simp add: sample_normal8_def normalise_def nth_opt_def t_def buf_def dso6022_fields)
  qed
  have "convert_loop (unat (4294965298 :: 32 word)) (sample_normal8 t buf channel) 100
          (of_nat HANTEK_CHANNELS) 0 bp (resize (unat (4294965298 :: 32 word)) []) \<noteq> None" for bp
    by (rule convert_loop_total [OF _ sample]) (simp_all add: resize_def)
  then have "convert_channel t buf 100 channel [] \<noteq> None"
    unfolding convert_channel_def Let_def n
    by (simp add: u) (simp add: t_def dso6022_fields)
  then obtain out where o: "convert_channel t buf 100 channel [] = Some out" by auto
  from convert_channel_frame(1) [OF o u] n have "length out = 4294965298" by simp
  with o show ?thesis unfolding t_def buf_def by blast
qed

text \<open>
  Claim C6: decoding truncates the sample count to the byte count the transport returned, for
  every model and every byte count, including short reads on the 6022BE.

  The code does not do this on the 6022BE. The sample count is
  \<^verbatim>\<open>totalSampleCount / HANTEK_CHANNELS - (0x410 + 0x3F0)\<close> in unsigned arithmetic: after
  a read of 100 bytes it is 4294965298 (50 - 2048 wrapped around), \<^verbatim>\<open>getSamples\<close>
  returns 100 and the result vector of channel 0 has 4294965298 entries. After a read of 0
  bytes the loop computes \<^verbatim>\<open>bufferPosition %= totalSampleCount\<close> with
  \<open>totalSampleCount = 0\<close>, which is undefined.
\<close>

theorem C6_short_read_6022:
  "received_sampleCount dso6022 100 = 4294965298
   \<and> (\<exists>s'. getSamples dso6022 True 0 (Received (replicate 100 0)) = Some (100, s')
          \<and> length (result_data (getLastSamples s') 0) = 4294965298)
   \<and> getSamples dso6022 True 0 (Received []) = None"
proof (intro conjI)
  show "received_sampleCount dso6022 100 = 4294965298"
    by (simp add: received_sampleCount_def normal_sampleCount_def dso6022_fields
        HANTEK_CHANNELS_def DROP_DSO6022_HEAD_def DROP_DSO6022_TAIL_def)
  have "normal_sampleCount (dso6022\<lparr>previousSampleCount := 20480\<rparr>) 0 = 4294965248"
    by (simp add: normal_sampleCount_def dso6022_fields
        HANTEK_CHANNELS_def DROP_DSO6022_HEAD_def DROP_DSO6022_TAIL_def)
  then have "convert_channel (dso6022\<lparr>previousSampleCount := 20480\<rparr>) buf 0 0 [] = None" for buf
    by (simp add: convert_channel_def dso6022_fields convert_loop_modulus_0 Let_def)
  then show "getSamples dso6022 True 0 (Received []) = None"
    by (simp add: getSamples_def getSampleCount_def convert_normal_def nth_opt_def
        UINT_MAX_def dso6022_fields current_limits_previousSampleCount Let_def)
  from dso6022_short_read_channel [of 0] dso6022_short_read_channel [of 1]
  obtain out0 out1 where
    c: "convert_channel (dso6022\<lparr>previousSampleCount := 20480\<rparr>)
            (replicate 100 0 @ replicate 20380 0) 100 0 [] = Some out0"
      "convert_channel (dso6022\<lparr>previousSampleCount := 20480\<rparr>)
            (replicate 100 0 @ replicate 20380 0) 100 1 [] = Some out1"
    and l: "length out0 = 4294965298"
    by (auto simp add: HANTEK_CHANNELS_def)
  have "getSamples dso6022 True 0 (Received (replicate 100 0))
      = Some (100, dso6022\<lparr>previousSampleCount := 20480,
           dso_result := \<lparr>result_data = (result_data (dso_result dso6022))(0 := out0, 1 := out1),
             result_samplerate = samplerate_current (settings dso6022),
             result_append = False\<rparr>\<rparr>)"
    by (simp add: getSamples_def getSampleCount_def convert_normal_def nth_opt_def
        UINT_MAX_def LIBUSB_ERROR_INVALID_PARAM_def dso6022_fields
        current_limits_previousSampleCount Let_def c(1) c(2) [unfolded One_nat_def])
  with l show "\<exists>s'. getSamples dso6022 True 0 (Received (replicate 100 0)) = Some (100, s')
          \<and> length (result_data (getLastSamples s') 0) = 4294965298"
    by (simp add: getLastSamples_def)
qed

subsection \<open>The errors of stringCommand\<close>

lemma stringCommand_find_unknown:
  "(\<forall>idx \<in> set indices. \<exists>c. controlCode s idx = Some c \<and> controlCodeValue ext c \<noteq> uint code)
   \<Longrightarrow> stringCommand_find ext s code indices = Some None"
  by (induction indices) auto

lemma stringCommand_error_frame:
  assumes "stringCommand ext s cmd = Some (e, s')" and "e \<noteq> ERROR_NONE"
  shows "s' = s"
  using assms
  by (auto simp add: stringCommand_def Let_def bind_eq_Some_conv
      split: if_splits option.splits)

lemma stringCommand_ERROR_PARAMETER:
  assumes conn: "isConnected s" and e: "stringCommand ext s cmd = Some (ERROR_PARAMETER, s')"
  shows "split_SkipEmptyParts CHR '' '' [] cmd = []
       \<or> split_SkipEmptyParts CHR '' '' [] cmd = [''send'']"
proof (cases "split_SkipEmptyParts CHR '' '' [] cmd")
  case Nil
  then show ?thesis by simp
next
  case (Cons w rest)
  show ?thesis
  proof (cases rest)
    case Nil
    with Cons e conn show ?thesis
      by (simp add: stringCommand_def Let_def split: if_splits)
  next
    case c: (Cons w' rest')
    with Cons e conn have False
      by (auto simp add: stringCommand_def Let_def bind_eq_Some_conv nth_opt_def
          split: if_splits option.splits)
    then show ?thesis ..
  qed
qed

text \<open>
  Claim C4 (amended): on a connected device \<^verbatim>\<open>stringCommand\<close> returns
  \<open>ERROR_PARAMETER\<close> exactly for a line without words and for the single word
  \<open>send\<close>. It returns \<open>ERROR_UNSUPPORTED\<close> when the first word is not \<open>send\<close>,
  when the second word is neither \<open>bulk\<close> nor \<open>control\<close>, when the bulk opcode is
  above \<^verbatim>\<open>BULK_COUNT\<close>, and, in a state where every control index has a code assigned,
  when the control opcode is the code of no control index. Whenever the result is not
  \<open>ERROR_NONE\<close>, the state (the command buffers and the pending flags with it) is
  unchanged.

  The condition on the control indices holds after the constructor on the 6022BE only. On
  the other models the constructor assigns the codes of \<^verbatim>\<open>CONTROLINDEX_SETOFFSET\<close> and
  \<^verbatim>\<open>CONTROLINDEX_SETRELAYS\<close> and no other, and for a control opcode that is neither of
  the two the search reads an unassigned entry of \<^verbatim>\<open>controlCode\<close>: the result is
  undefined and no part of the statement (lemma \<open>stringCommand_control_unassigned\<close>).
\<close>

theorem C4_stringCommand_errors:
  assumes conn: "isConnected s"
  shows
    "(split_SkipEmptyParts CHR '' '' [] cmd = [] \<or> split_SkipEmptyParts CHR '' '' [] cmd = [''send'']
        \<longrightarrow> stringCommand ext s cmd = Some (ERROR_PARAMETER, s))
     \<and> (\<forall>w rest. split_SkipEmptyParts CHR '' '' [] cmd = w # rest \<and> w \<noteq> ''send''
        \<longrightarrow> stringCommand ext s cmd = Some (ERROR_UNSUPPORTED, s))
     \<and> (\<forall>w rest. split_SkipEmptyParts CHR '' '' [] cmd = ''send'' # w # rest
            \<and> w \<noteq> ''bulk'' \<and> w \<noteq> ''control''
        \<longrightarrow> stringCommand ext s cmd = Some (ERROR_UNSUPPORTED, s))
     \<and> (\<forall>opcode rest. split_SkipEmptyParts CHR '' '' [] cmd = ''send'' # ''bulk'' # opcode # rest
            \<and> BULK_COUNT ext < unat (hexParse_byte ext opcode 0)
        \<longrightarrow> stringCommand ext s cmd = Some (ERROR_UNSUPPORTED, s))
     \<and> (\<forall>opcode rest. split_SkipEmptyParts CHR '' '' [] cmd = ''send'' # ''control'' # opcode # rest
            \<and> (\<forall>idx. \<exists>c. controlCode s idx = Some c
                    \<and> controlCodeValue ext c \<noteq> uint (hexParse_byte ext opcode 0))
        \<longrightarrow> stringCommand ext s cmd = Some (ERROR_UNSUPPORTED, s))
     \<and> (\<forall>s'. stringCommand ext s cmd = Some (ERROR_PARAMETER, s')
        \<longrightarrow> split_SkipEmptyParts CHR '' '' [] cmd = []
            \<or> split_SkipEmptyParts CHR '' '' [] cmd = [''send''])
     \<and> (\<forall>e s'. stringCommand ext s cmd = Some (e, s') \<and> e \<noteq> ERROR_NONE \<longrightarrow> s' = s)"
proof (intro conjI allI impI)
  assume "split_SkipEmptyParts CHR '' '' [] cmd = [] \<or> split_SkipEmptyParts CHR '' '' [] cmd = [''send'']"
  then show "stringCommand ext s cmd = Some (ERROR_PARAMETER, s)"
    using conn by (auto simp add: stringCommand_def)
next
  fix w rest
  assume "split_SkipEmptyParts CHR '' '' [] cmd = w # rest \<and> w \<noteq> ''send''"
  then show "stringCommand ext s cmd = Some (ERROR_UNSUPPORTED, s)"
    using conn by (simp add: stringCommand_def)
next
  fix w rest
  assume "split_SkipEmptyParts CHR '' '' [] cmd = ''send'' # w # rest
            \<and> w \<noteq> ''bulk'' \<and> w \<noteq> ''control''"
  then show "stringCommand ext s cmd = Some (ERROR_UNSUPPORTED, s)"
    using conn by (simp add: stringCommand_def)
next
  fix opcode rest
  assume "split_SkipEmptyParts CHR '' '' [] cmd = ''send'' # ''bulk'' # opcode # rest
            \<and> BULK_COUNT ext < unat (hexParse_byte ext opcode 0)"
  then show "stringCommand ext s cmd = Some (ERROR_UNSUPPORTED, s)"
    using conn by (simp add: stringCommand_def nth_opt_def)
next
  fix opcode rest
  assume a: "split_SkipEmptyParts CHR '' '' [] cmd = ''send'' # ''control'' # opcode # rest
            \<and> (\<forall>idx. \<exists>c. controlCode s idx = Some c
                    \<and> controlCodeValue ext c \<noteq> uint (hexParse_byte ext opcode 0))"
  then have "stringCommand_find ext s (hexParse_byte ext opcode 0) all_ControlIndices = Some None"
    by (intro stringCommand_find_unknown) blast
  with a show "stringCommand ext s cmd = Some (ERROR_UNSUPPORTED, s)"
    using conn by (simp add: stringCommand_def nth_opt_def)
next
  fix s'
  assume "stringCommand ext s cmd = Some (ERROR_PARAMETER, s')"
  with conn show "split_SkipEmptyParts CHR '' '' [] cmd = []
            \<or> split_SkipEmptyParts CHR '' '' [] cmd = [''send'']"
    by (rule stringCommand_ERROR_PARAMETER)
next
  fix e s'
  assume "stringCommand ext s cmd = Some (e, s') \<and> e \<noteq> ERROR_NONE"
  then show "s' = s" using stringCommand_error_frame by blast
qed

lemma dso6022_fresh_fields:
  "isConnected dso6022_fresh"
  "controlCode dso6022_fresh idx = Some (case idx of
       CONTROLINDEX_SETOFFSET \<Rightarrow> CONTROL_SETOFFSET | CONTROLINDEX_SETRELAYS \<Rightarrow> CONTROL_SETRELAYS
     | CONTROLINDEX_SETVOLTDIV_CH1 \<Rightarrow> CONTROL_SETVOLTDIV_CH1
     | CONTROLINDEX_SETVOLTDIV_CH2 \<Rightarrow> CONTROL_SETVOLTDIV_CH2
     | CONTROLINDEX_SETTIMEDIV \<Rightarrow> CONTROL_SETTIMEDIV
     | CONTROLINDEX_ACQUIIRE_HARD_DATA \<Rightarrow> CONTROL_ACQUIIRE_HARD_DATA)"
  by (simp add: dso6022_fresh_def constructor_defs)
    (cases idx; simp add: dso6022_fresh_def constructor_defs)

lemma protocol_fields:
  "BULK_COUNT protocol = 16"
  "hexParse_byte protocol = hexByte"
  "controlCodeValue protocol CONTROL_SETOFFSET = 180"
  "controlCodeValue protocol CONTROL_SETRELAYS = 181"
  "controlCodeValue protocol CONTROL_SETVOLTDIV_CH1 = 224"
  "controlCodeValue protocol CONTROL_SETVOLTDIV_CH2 = 225"
  "controlCodeValue protocol CONTROL_SETTIMEDIV = 226"
  "controlCodeValue protocol CONTROL_ACQUIIRE_HARD_DATA = 227"
  by (simp_all add: protocol_def)

lemma hexByte_ff: "hexByte ''ff'' 0 = 255"
  by (simp add: hexByte_def hexDigit_def)

text \<open>
  The cases of C4 on a DSO-6022BE after the constructor.
\<close>

theorem C4_witness:
  "stringCommand protocol dso6022_fresh ''  '' = Some (ERROR_PARAMETER, dso6022_fresh)
   \<and> stringCommand protocol dso6022_fresh ''send'' = Some (ERROR_PARAMETER, dso6022_fresh)
   \<and> stringCommand protocol dso6022_fresh ''bulk 07'' = Some (ERROR_UNSUPPORTED, dso6022_fresh)
   \<and> stringCommand protocol dso6022_fresh ''send usb 07'' = Some (ERROR_UNSUPPORTED, dso6022_fresh)
   \<and> stringCommand protocol dso6022_fresh ''send bulk ff 00'' = Some (ERROR_UNSUPPORTED, dso6022_fresh)
   \<and> stringCommand protocol dso6022_fresh ''send control ff 00''
       = Some (ERROR_UNSUPPORTED, dso6022_fresh)"
proof (intro conjI)
  show "stringCommand protocol dso6022_fresh ''  '' = Some (ERROR_PARAMETER, dso6022_fresh)"
    using C4_stringCommand_errors [of dso6022_fresh "''  ''" protocol]
    by (simp add: dso6022_fresh_fields)
  show "stringCommand protocol dso6022_fresh ''send'' = Some (ERROR_PARAMETER, dso6022_fresh)"
    using C4_stringCommand_errors [of dso6022_fresh "''send''" protocol]
    by (simp add: dso6022_fresh_fields)
  show "stringCommand protocol dso6022_fresh ''bulk 07'' = Some (ERROR_UNSUPPORTED, dso6022_fresh)"
    using C4_stringCommand_errors [of dso6022_fresh "''bulk 07''" protocol]
    by (simp add: dso6022_fresh_fields)
  show "stringCommand protocol dso6022_fresh ''send usb 07'' = Some (ERROR_UNSUPPORTED, dso6022_fresh)"
    using C4_stringCommand_errors [of dso6022_fresh "''send usb 07''" protocol]
    by (simp add: dso6022_fresh_fields)
  show "stringCommand protocol dso6022_fresh ''send bulk ff 00'' = Some (ERROR_UNSUPPORTED, dso6022_fresh)"
    using C4_stringCommand_errors [of dso6022_fresh "''send bulk ff 00''" protocol]
    by (simp add: dso6022_fresh_fields protocol_fields hexByte_ff)
  show "stringCommand protocol dso6022_fresh ''send control ff 00''
       = Some (ERROR_UNSUPPORTED, dso6022_fresh)"
    using C4_stringCommand_errors [of dso6022_fresh "''send control ff 00''" protocol]
    by (simp add: dso6022_fresh_fields protocol_fields hexByte_ff split: ControlIndex.split)
qed

text \<open>
  The control search when some control index has no code assigned and the opcode is the code
  of no control index that has one: the loop compares an unassigned entry of
  \<^verbatim>\<open>controlCode\<close>, which is undefined.
\<close>

text \<open>
  The control search outside that case: when some control index has no code assigned and the
  opcode matches no assigned code, the loop compares an unassigned entry of
  \<^verbatim>\<open>controlCode\<close>, which is undefined. After the constructor this is so on every model
  but the 6022BE, where only \<^verbatim>\<open>CONTROLINDEX_SETOFFSET\<close> and
  \<^verbatim>\<open>CONTROLINDEX_SETRELAYS\<close> have a code.
\<close>

lemma stringCommand_find_unassigned:
  assumes "\<exists>idx \<in> set indices. controlCode s idx = None"
    and "\<forall>idx c. controlCode s idx = Some c \<longrightarrow> controlCodeValue ext c \<noteq> uint code"
  shows "stringCommand_find ext s code indices = None"
  using assms by (induction indices) (auto split: option.splits)

lemma stringCommand_control_unassigned:
  assumes conn: "isConnected s"
    and parts: "split_SkipEmptyParts CHR '' '' [] cmd = ''send'' # ''control'' # opcode # rest"
    and un: "controlCode s idx = None"
    and no: "\<forall>idx c. controlCode s idx = Some c
                \<longrightarrow> controlCodeValue ext c \<noteq> uint (hexParse_byte ext opcode 0)"
  shows "stringCommand ext s cmd = None"
proof -
  have "idx \<in> set all_ControlIndices"
    by (cases idx) (simp_all add: all_ControlIndices_def)
  with un have "\<exists>idx \<in> set all_ControlIndices. controlCode s idx = None" by blast
  from stringCommand_find_unassigned [OF this no]
  show ?thesis using conn parts by (simp add: stringCommand_def nth_opt_def)
qed

text \<open>
  Claim C4, as stated, fails in both parts. The command line \<open>foo\<close> is not of the form
  \<open>send bulk ...\<close> or \<open>send control ...\<close>, and the result is
  \<open>ERROR_UNSUPPORTED\<close>, not \<open>ERROR_PARAMETER\<close>. The command line
  \<open>send control ff 00\<close> is well formed and \<open>ff\<close> is no control opcode of the
  DSO-2090, and the result is not \<open>ERROR_UNSUPPORTED\<close> but undefined: the search reads
  the entries of \<^verbatim>\<open>controlCode\<close> from \<^verbatim>\<open>CONTROLINDEX_SETVOLTDIV_CH1\<close> on, which
  the constructor does not assign on this model.
\<close>

theorem C4_no_ERROR_PARAMETER_for_other_words:
  "(\<forall>ext. stringCommand ext (constructor MODEL_DSO2090 512 calibration0) ''foo''
      = Some (ERROR_UNSUPPORTED, constructor MODEL_DSO2090 512 calibration0))
   \<and> stringCommand protocol (constructor MODEL_DSO2090 512 calibration0) ''send control ff 00''
      = None"
proof (intro conjI allI)
  fix ext
  show "stringCommand ext (constructor MODEL_DSO2090 512 calibration0) ''foo''
      = Some (ERROR_UNSUPPORTED, constructor MODEL_DSO2090 512 calibration0)"
    by (simp add: stringCommand_def dso2090_fields)
  show "stringCommand protocol (constructor MODEL_DSO2090 512 calibration0) ''send control ff 00''
      = None"
  proof (rule stringCommand_control_unassigned [where idx = CONTROLINDEX_SETVOLTDIV_CH1])
    show "isConnected (constructor MODEL_DSO2090 512 calibration0)"
      by (simp add: dso2090_fields)
    show "split_SkipEmptyParts CHR '' '' [] ''send control ff 00''
            = ''send'' # ''control'' # ''ff'' # [''00'']"
      by simp
    show "controlCode (constructor MODEL_DSO2090 512 calibration0) CONTROLINDEX_SETVOLTDIV_CH1 = None"
      by (simp add: constructor_defs)
    show "\<forall>idx c. controlCode (constructor MODEL_DSO2090 512 calibration0) idx = Some c
            \<longrightarrow> controlCodeValue protocol c \<noteq> uint (hexParse_byte protocol ''ff'' 0)"
      by (auto simp add: constructor_defs protocol_fields hexByte_ff split: if_splits)
  qed
qed

end
